theory Spec2Isabelle
  imports Main "HOL-Library.Sublist"
begin

text \<open>
  A model of the webpack manifest plugin (\<^verbatim>\<open>lib/plugin.js\<close>): the file-type computation,
  the collection of file descriptors from the chunks and assets of a build, the removal
  of hot updates, path normalisation, the filter, map and sort options, and the
  generation of the manifest into a seed that can be shared between builds. Each
  section of definitions follows one part of the source; the theorems come after the
  definitions.
\<close>

section \<open>Strings of the plugin\<close>

text \<open>
  Paths and names are JavaScript strings. They are modelled as \<open>string\<close>, a list of
  8-bit characters: every character the plugin itself inspects (the dot, the question
  mark, the backslash, the letters of \<open>gz\<close>, \<open>map\<close> and \<open>hot-update\<close>) is ASCII. Of the
  four line terminators that the regular expression dot refuses, only line feed and
  carriage return exist in this character type.
\<close>

definition lineTerminator :: "char \<Rightarrow> bool" where
  "lineTerminator c = (c = CHR 0x0A \<or> c = CHR 0x0D)"

text \<open>\<^verbatim>\<open>str.replace(/\?.*/, '')\<close>: the first question mark and the characters after it,
  up to the first line terminator, are removed; the rest of the string stays.\<close>

fun strip_query :: "string \<Rightarrow> string" where
  "strip_query [] = []"
| "strip_query (c # cs) =
     (if c = CHR ''?'' then dropWhile (\<lambda>d. \<not> lineTerminator d) cs
      else c # strip_query cs)"

text \<open>\<^verbatim>\<open>str.split(sep)\<close> for a one-character separator: never returns the empty array.\<close>

fun split_on :: "char \<Rightarrow> string \<Rightarrow> string list" where
  "split_on sep [] = [[]]"
| "split_on sep (c # cs) =
     (if c = sep then [] # split_on sep cs
      else (case split_on sep cs of
              [] \<Rightarrow> [[c]]
            | w # ws \<Rightarrow> (c # w) # ws))"

text \<open>\<^verbatim>\<open>Array.prototype.pop\<close>: the last element and the array without it; \<open>undefined\<close>
  (here \<open>None\<close>) on the empty array.\<close>

definition pop :: "'a list \<Rightarrow> 'a option \<times> 'a list" where
  "pop xs = (if xs = [] then (None, []) else (Some (last xs), butlast xs))"

text \<open>String concatenation coerces its operands: \<open>undefined\<close> becomes the text
  \<open>undefined\<close>.\<close>

definition js_string :: "string option \<Rightarrow> string" where
  "js_string v = (case v of None \<Rightarrow> ''undefined'' | Some s \<Rightarrow> s)"

text \<open>\<^verbatim>\<open>String.prototype.includes\<close>.\<close>

fun str_includes :: "string \<Rightarrow> string \<Rightarrow> bool" where
  "str_includes [] sub = (sub = [])"
| "str_includes (c # cs) sub = (prefix sub (c # cs) \<or> str_includes cs sub)"

text \<open>\<^verbatim>\<open>s.replace(/\\/g, '/')\<close>.\<close>

definition replace_backslashes :: "string \<Rightarrow> string" where
  "replace_backslashes s = map (\<lambda>c. if c = CHR 0x5C then CHR ''/'' else c) s"

section \<open>Values, objects and the heap\<close>

text \<open>
  The seed and the manifest are JavaScript values. Objects live in a heap and are
  referred to by reference, so that two builds holding the same seed see each other's
  writes. An object of the heap is a plain object (created by an object literal, with
  \<^verbatim>\<open>Object.prototype\<close> as its prototype, extensible, without accessors of its own),
  given by its own properties. The heap also holds the \<^verbatim>\<open>lastIndex\<close> of every regular
  expression that has the \<open>g\<close> or the \<open>y\<close> flag.
\<close>

type_synonym ref = nat

datatype jsval =
    Undefined
  | Null
  | Boolean bool
  | Number int
  | NaN
  | Str string
  | Object ref

type_synonym obj = "string \<rightharpoonup> jsval"

record heap =
  objs :: "ref \<Rightarrow> obj"
  next_ref :: ref
  lastIndex :: "ref \<Rightarrow> nat"

text \<open>JavaScript truthiness.\<close>

fun truthy :: "jsval \<Rightarrow> bool" where
  "truthy Undefined = False"
| "truthy Null = False"
| "truthy (Boolean b) = b"
| "truthy (Number n) = (n \<noteq> 0)"
| "truthy NaN = False"
| "truthy (Str s) = (s \<noteq> [])"
| "truthy (Object r) = True"

text \<open>The object literal \<^verbatim>\<open>{}\<close>: a fresh reference to an empty object.\<close>

definition new_object :: "heap \<Rightarrow> ref \<times> heap" where
  "new_object h =
     (next_ref h, h\<lparr>objs := (objs h)(next_ref h := Map.empty), next_ref := Suc (next_ref h)\<rparr>)"

text \<open>
  \<^verbatim>\<open>v[k] = s\<close> for a string \<open>s\<close>, in non-strict code. On a plain object the key
  \<^verbatim>\<open>__proto__\<close> is the inherited accessor, whose setter ignores a string: nothing is
  stored. Every other key becomes (or overwrites) an own property. A write to a
  primitive is dropped.
\<close>

fun set_property :: "heap \<Rightarrow> jsval \<Rightarrow> string \<Rightarrow> string \<Rightarrow> heap" where
  "set_property h (Object r) k s =
     (if k = ''__proto__'' then h
      else h\<lparr>objs := (objs h)(r := (objs h r)(k \<mapsto> Str s))\<rparr>)"
| "set_property h v k s = h"

text \<open>
  The string keys of \<^verbatim>\<open>Object.prototype\<close>, which every plain object inherits. Under
  \<^verbatim>\<open>__proto__\<close> a plain object yields the prototype object itself, under the others a
  built-in function.
\<close>

definition object_prototype_members :: "string list" where
  "object_prototype_members =
     [''constructor'', ''__defineGetter__'', ''__defineSetter__'', ''hasOwnProperty'',
      ''__lookupGetter__'', ''__lookupSetter__'', ''isPrototypeOf'',
      ''propertyIsEnumerable'', ''toString'', ''valueOf'', ''__proto__'',
      ''toLocaleString'']"

text \<open>
  What a read \<^verbatim>\<open>o[k]\<close> yields on a plain object whose own properties are strings: the
  own string, or else the member inherited under that key, or else \<open>undefined\<close> (here
  \<open>None\<close>).
\<close>

datatype name_value = Text string | Inherited string

definition get_property :: "(string \<rightharpoonup> string) \<Rightarrow> string \<Rightarrow> name_value option" where
  "get_property own k =
     (case own k of
        Some v \<Rightarrow> Some (Text v)
      | None \<Rightarrow> (if k \<in> set object_prototype_members then Some (Inherited k) else None))"

text \<open>\<^verbatim>\<open>if (v)\<close> on such a read: \<open>undefined\<close> and the empty string are falsy, functions and
  objects are truthy.\<close>

definition truthy_prop :: "name_value option \<Rightarrow> name_value option" where
  "truthy_prop v =
     (case v of
        None \<Rightarrow> None
      | Some (Text s) \<Rightarrow> (if s = [] then None else Some (Text s))
      | Some (Inherited k) \<Rightarrow> Some (Inherited k))"

text \<open>
  The string that concatenation and property-key conversion make of such a value: a
  string is itself, the prototype object is \<^verbatim>\<open>[object Object]\<close>, and a built-in
  function is printed by the engine as \<^verbatim>\<open>function toString() { [native code] }\<close>, the
  constructor under the name \<open>Object\<close>.
\<close>

definition to_text :: "name_value \<Rightarrow> string" where
  "to_text v =
     (case v of
        Text s \<Rightarrow> s
      | Inherited k \<Rightarrow>
          (if k = ''__proto__'' then ''[object Object]''
           else ''function '' @ (if k = ''constructor'' then ''Object'' else k)
                @ ''() { [native code] }''))"

text \<open>Whether such a value is a string, that is, whether it has the string methods.\<close>

fun is_text :: "name_value \<Rightarrow> bool" where
  "is_text (Text s) = True"
| "is_text (Inherited k) = False"

section \<open>Regular expressions\<close>

text \<open>
  The \<open>transformExtensions\<close> option is a regular expression, used through
  \<^verbatim>\<open>RegExp.prototype.test\<close>. \<open>exec_at i s\<close> is the search of the pattern in \<open>s\<close> started
  at index \<open>i\<close>: the index after the match it finds, if any. A pattern without the \<open>g\<close>
  and \<open>y\<close> flags always searches from the start and keeps no state. A pattern with one
  of them (\<open>stateful\<close> gives the reference of its \<^verbatim>\<open>lastIndex\<close>) searches from
  \<^verbatim>\<open>lastIndex\<close>, sets it to the end of the match, and resets it to zero when the search
  fails, so that the result of a test depends on the tests before it.
\<close>

record regexp =
  exec_at :: "nat \<Rightarrow> string \<Rightarrow> nat option"
  stateful :: "ref option"

definition regexp_test :: "regexp \<Rightarrow> heap \<Rightarrow> string \<Rightarrow> bool \<times> heap" where
  "regexp_test re h s =
     (case stateful re of
        None \<Rightarrow> (exec_at re 0 s \<noteq> None, h)
      | Some r \<Rightarrow>
          (let i = lastIndex h r
           in if i > length s then (False, h\<lparr>lastIndex := (lastIndex h)(r := 0)\<rparr>)
              else (case exec_at re i s of
                      None \<Rightarrow> (False, h\<lparr>lastIndex := (lastIndex h)(r := 0)\<rparr>)
                    | Some e \<Rightarrow> (True, h\<lparr>lastIndex := (lastIndex h)(r := e)\<rparr>))))"

text \<open>The default of \<open>transformExtensions\<close> is \<^verbatim>\<open>/^(gz|map)$/i\<close>: the whole string is
  \<open>gz\<close> or \<open>map\<close>, in any mixture of upper and lower case; it has no flag that keeps
  state.\<close>

definition ascii_lower :: "char \<Rightarrow> char" where
  "ascii_lower c =
     (case map_of (zip ''ABCDEFGHIJKLMNOPQRSTUVWXYZ'' ''abcdefghijklmnopqrstuvwxyz'') c of
        Some l \<Rightarrow> l
      | None \<Rightarrow> c)"

definition default_transformExtensions :: regexp where
  "default_transformExtensions =
     \<lparr> exec_at = (\<lambda>i s. if map ascii_lower s = ''gz'' \<or> map ascii_lower s = ''map''
                        then Some (length s) else None),
       stateful = None \<rparr>"

section \<open>Build data delivered by the host\<close>

text \<open>
  A chunk has an optional name, its output files and the eager-load flag in the form of
  whichever webpack generation is running: the method \<^verbatim>\<open>isOnlyInitial\<close>, the method
  \<^verbatim>\<open>isInitial\<close> (\<open>None\<close> when the method does not exist) or the field \<^verbatim>\<open>initial\<close>. An
  asset of the build statistics has a name, which is its output path, and the ids of
  the chunks that reference it. Of a compilation the plugin reads the declared public
  path, the chunks and the assets of the statistics.
\<close>

record chunk =
  chunk_name :: "string option"
  chunk_files :: "string list"
  isOnlyInitial :: "bool option"
  chunk_isInitial :: "bool option"
  initial :: bool

record asset =
  asset_name :: string
  asset_chunks :: "nat list"

record compilation =
  publicPath :: "string option"
  chunks :: "chunk list"
  stats_assets :: "asset list"

section \<open>File descriptors and options\<close>

text \<open>
  The name of a descriptor is whatever the collector put there: a string, or a member
  inherited from \<^verbatim>\<open>Object.prototype\<close> when the registry lookup returned one. The path is
  always a string.
\<close>

record descriptor =
  path :: string
  chunk :: "chunk option"
  name :: name_value
  isInitial :: bool
  isChunk :: bool
  isAsset :: bool
  isModuleAsset :: bool

text \<open>
  The options. A missing callback is \<open>None\<close>. The filter, map and sort callbacks are
  functions of the descriptors they are given (the index and array arguments that
  JavaScript also passes are left out) and do not throw; the generator receives the
  seed and may write to the heap. The constructor fills in the defaults; the default
  serializer (\<^verbatim>\<open>JSON.stringify\<close>) is a library function and is taken as a parameter.
\<close>

record opts =
  basePath :: string
  fileName :: string
  transformExtensions :: regexp
  writeToFileEmit :: bool
  seed :: jsval
  filter_opt :: "(descriptor \<Rightarrow> bool) option"
  map_opt :: "(descriptor \<Rightarrow> descriptor) option"
  generate :: "(heap \<Rightarrow> jsval \<Rightarrow> descriptor list \<Rightarrow> jsval \<times> heap) option"
  sort_opt :: "(descriptor \<Rightarrow> descriptor \<Rightarrow> int) option"
  serialize :: "heap \<Rightarrow> jsval \<Rightarrow> string"

definition ManifestPlugin :: "(heap \<Rightarrow> jsval \<Rightarrow> string) \<Rightarrow> opts" where
  "ManifestPlugin json =
     \<lparr> basePath = [], fileName = ''manifest.json'',
       transformExtensions = default_transformExtensions,
       writeToFileEmit = False, seed = Null, filter_opt = None, map_opt = None,
       generate = None, sort_opt = None, serialize = json \<rparr>"

section \<open>getFileType\<close>

text \<open>The test of the pattern may move its \<^verbatim>\<open>lastIndex\<close>, so the function returns the
  heap as well.\<close>

definition getFileType :: "opts \<Rightarrow> heap \<Rightarrow> string \<Rightarrow> string \<times> heap" where
  "getFileType os h str0 =
     (let str = strip_query str0;
          split = split_on CHR ''.'' str;
          (ext, split1) = pop split;
          (matches, h') = regexp_test (transformExtensions os) h (js_string ext)
      in if matches
         then (let (prev, split2) = pop split1
               in (js_string prev @ ''.'' @ js_string ext, h'))
         else (js_string ext, h'))"

section \<open>The plugin instance\<close>

text \<open>
  \<^verbatim>\<open>apply\<close> runs once per installation on a compiler. It fixes the seed
  (\<^verbatim>\<open>this.opts.seed || {}\<close>) and an empty module-asset registry; every later \<^verbatim>\<open>emit\<close>
  of that compiler closes over both. The registry is a plain object used as a
  dictionary from emitted file to registered name; the closure holds its own
  properties, and reads of it go through \<open>get_property\<close>.
\<close>

record closure =
  closure_opts :: opts
  closure_seed :: jsval
  moduleAssets :: "string \<rightharpoonup> string"

definition apply_plugin :: "opts \<Rightarrow> heap \<Rightarrow> closure \<times> heap" where
  "apply_plugin os h =
     (let (sd, h') = (if truthy (seed os) then (seed os, h)
                      else (let (r, h1) = new_object h in (Object r, h1)))
      in (\<lparr> closure_opts = os, closure_seed = sd, moduleAssets = Map.empty \<rparr>, h'))"

text \<open>
  The \<^verbatim>\<open>module-asset\<close> handler stores, under the emitted file, the name that the
  host's path library computes from the file and the module's request; that name is
  passed in already computed. It is an assignment to a plain object, so under the key
  \<^verbatim>\<open>__proto__\<close> nothing is stored.
\<close>

definition moduleAsset :: "closure \<Rightarrow> string \<Rightarrow> string \<Rightarrow> closure" where
  "moduleAsset cl joined f =
     (if f = ''__proto__'' then cl
      else cl\<lparr>moduleAssets := (moduleAssets cl)(f \<mapsto> joined)\<rparr>)"

section \<open>Collecting descriptors\<close>

text \<open>Webpack 4: \<^verbatim>\<open>isOnlyInitial()\<close>; webpack 3: \<^verbatim>\<open>isInitial()\<close>; webpack 1/2: \<^verbatim>\<open>initial\<close>.\<close>

definition chunk_initial :: "chunk \<Rightarrow> bool" where
  "chunk_initial c =
     (case isOnlyInitial c of
        Some b \<Rightarrow> b
      | None \<Rightarrow> (case chunk_isInitial c of Some b \<Rightarrow> b | None \<Rightarrow> initial c))"

text \<open>\<^verbatim>\<open>chunk.name ? chunk.name : null\<close>, then \<^verbatim>\<open>if (name)\<close>: a missing name and the empty
  string are both falsy.\<close>

definition truthy_name :: "string option \<Rightarrow> string option" where
  "truthy_name v = (case v of None \<Rightarrow> None | Some n \<Rightarrow> (if n = [] then None else Some n))"

text \<open>The inner \<^verbatim>\<open>reduce\<close> step, for one output file of a chunk: \<^verbatim>\<open>getFileType\<close> is called
  only when the chunk has a name.\<close>

definition chunk_file_step ::
  "opts \<Rightarrow> chunk \<Rightarrow> descriptor list \<times> heap \<Rightarrow> string \<Rightarrow> descriptor list \<times> heap" where
  "chunk_file_step os c acc p =
     (let (files, h) = acc;
          (nm, h') = (case truthy_name (chunk_name c) of
                        Some n \<Rightarrow> (let (t, h1) = getFileType os h p in (n @ ''.'' @ t, h1))
                      | None \<Rightarrow> (p, h))
      in (files @ [\<lparr> path = p, chunk = Some c, name = Text nm,
                      isInitial = chunk_initial c, isChunk = True, isAsset = False,
                      isModuleAsset = False \<rparr>],
          h'))"

definition collect_chunks :: "opts \<Rightarrow> chunk list \<Rightarrow> heap \<Rightarrow> descriptor list \<times> heap" where
  "collect_chunks os cs h =
     foldl (\<lambda>acc c. foldl (chunk_file_step os c) acc (chunk_files c)) ([], h) cs"

text \<open>The second \<^verbatim>\<open>reduce\<close> step, for one asset: \<^verbatim>\<open>moduleAssets[asset.name]\<close> is a read of
  a plain object.\<close>

definition asset_step :: "(string \<rightharpoonup> string) \<Rightarrow> descriptor list \<Rightarrow> asset \<Rightarrow> descriptor list" where
  "asset_step ma files a =
     (case truthy_prop (get_property ma (asset_name a)) of
        Some n \<Rightarrow>
          files @ [\<lparr> path = asset_name a, chunk = None, name = n, isInitial = False,
                     isChunk = False, isAsset = True, isModuleAsset = True \<rparr>]
      | None \<Rightarrow>
          (let isEntryAsset = (length (asset_chunks a) > 0)
           in if isEntryAsset then files
              else files @ [\<lparr> path = asset_name a, chunk = None, name = Text (asset_name a),
                              isInitial = False, isChunk = False, isAsset = True,
                              isModuleAsset = False \<rparr>]))"

definition collect_assets :: "(string \<rightharpoonup> string) \<Rightarrow> asset list \<Rightarrow> descriptor list \<Rightarrow> descriptor list" where
  "collect_assets ma as files = foldl (asset_step ma) files as"

definition collect :: "closure \<Rightarrow> compilation \<Rightarrow> heap \<Rightarrow> descriptor list \<times> heap" where
  "collect cl build h =
     (let (files, h') = collect_chunks (closure_opts cl) (chunks build) h
      in (collect_assets (moduleAssets cl) (stats_assets build) files, h'))"

section \<open>Hot updates, normalisation and the transform pipeline\<close>

datatype error = TypeError

definition drop_hot_updates :: "descriptor list \<Rightarrow> descriptor list" where
  "drop_hot_updates files = filter (\<lambda>f. \<not> str_includes (path f) ''hot-update'') files"

text \<open>\<^verbatim>\<open>this.opts.basePath + file.name\<close> is a string concatenation: a name that is not a
  string is converted to one.\<close>

definition prefix_basePath :: "opts \<Rightarrow> descriptor list \<Rightarrow> descriptor list" where
  "prefix_basePath os files =
     (if basePath os \<noteq> []
      then map (\<lambda>f. f\<lparr>name := Text (basePath os @ to_text (name f))\<rparr>) files
      else files)"

definition prefix_publicPath :: "string option \<Rightarrow> descriptor list \<Rightarrow> descriptor list" where
  "prefix_publicPath pp files =
     (case truthy_name pp of
        Some p \<Rightarrow> map (\<lambda>f. f\<lparr>path := p @ path f\<rparr>) files
      | None \<Rightarrow> files)"

text \<open>
  \<^verbatim>\<open>file.name.replace(...)\<close> is a method call on the name: on a name that is not a
  string there is no such method and the call throws a \<^verbatim>\<open>TypeError\<close>, which ends the
  whole handler at the first such descriptor.
\<close>

definition canonicalize_file :: "descriptor \<Rightarrow> error + descriptor" where
  "canonicalize_file f =
     (case name f of
        Text s \<Rightarrow> Inr (f\<lparr>name := Text (replace_backslashes s),
                          path := replace_backslashes (path f)\<rparr>)
      | Inherited k \<Rightarrow> Inl TypeError)"

fun canonicalize :: "descriptor list \<Rightarrow> error + descriptor list" where
  "canonicalize [] = Inr []"
| "canonicalize (f # fs) =
     (case canonicalize_file f of
        Inl e \<Rightarrow> Inl e
      | Inr f' \<Rightarrow> (case canonicalize fs of Inl e \<Rightarrow> Inl e | Inr fs' \<Rightarrow> Inr (f' # fs')))"

definition normalize :: "opts \<Rightarrow> string option \<Rightarrow> descriptor list \<Rightarrow> error + descriptor list" where
  "normalize os pp files = canonicalize (prefix_publicPath pp (prefix_basePath os files))"

text \<open>\<^verbatim>\<open>Array.prototype.sort\<close> with a comparator: a stable insertion sort, which is one of
  the orders the language allows and the only one for a consistent comparator.\<close>

fun insort_cmp :: "('a \<Rightarrow> 'a \<Rightarrow> int) \<Rightarrow> 'a \<Rightarrow> 'a list \<Rightarrow> 'a list" where
  "insort_cmp cmp x [] = [x]"
| "insort_cmp cmp x (y # ys) =
     (if cmp x y \<le> 0 then x # y # ys else y # insort_cmp cmp x ys)"

definition sort_cmp :: "('a \<Rightarrow> 'a \<Rightarrow> int) \<Rightarrow> 'a list \<Rightarrow> 'a list" where
  "sort_cmp cmp xs = foldr (insort_cmp cmp) xs []"

definition pipeline :: "opts \<Rightarrow> descriptor list \<Rightarrow> descriptor list" where
  "pipeline os files =
     (let files1 = (case filter_opt os of Some p \<Rightarrow> filter p files | None \<Rightarrow> files);
          files2 = (case map_opt os of Some g \<Rightarrow> map g files1 | None \<Rightarrow> files1)
      in (case sort_opt os of Some cmp \<Rightarrow> sort_cmp cmp files2 | None \<Rightarrow> files2))"

text \<open>Everything between collection and generation.\<close>

definition process :: "opts \<Rightarrow> string option \<Rightarrow> descriptor list \<Rightarrow> error + descriptor list" where
  "process os pp collected =
     (case normalize os pp (drop_hot_updates collected) of
        Inl e \<Rightarrow> Inl e
      | Inr files \<Rightarrow> Inr (pipeline os files))"

definition post_pipeline :: "closure \<Rightarrow> compilation \<Rightarrow> heap \<Rightarrow> (error + descriptor list) \<times> heap" where
  "post_pipeline cl build h =
     (let (collected, h') = collect cl build h
      in (process (closure_opts cl) (publicPath build) collected, h'))"

section \<open>Generating the manifest\<close>

text \<open>The default generator: \<^verbatim>\<open>files.reduce((manifest, file) => { manifest[file.name] =
  file.path; return manifest; }, seed)\<close>. The name is converted to a property key.\<close>

definition default_generate :: "heap \<Rightarrow> jsval \<Rightarrow> descriptor list \<Rightarrow> jsval \<times> heap" where
  "default_generate h sd files =
     foldl (\<lambda>(manifest, h') f. (manifest, set_property h' manifest (to_text (name f)) (path f)))
       (sd, h) files"

definition generate_manifest :: "opts \<Rightarrow> heap \<Rightarrow> jsval \<Rightarrow> descriptor list \<Rightarrow> jsval \<times> heap" where
  "generate_manifest os h sd files =
     (case generate os of
        Some g \<Rightarrow> g h sd files
      | None \<Rightarrow> default_generate h sd files)"

section \<open>emit\<close>

text \<open>
  The build-completion handler, up to the rendered text: either the error it throws or
  what it computed, and the heap it leaves in both cases. Registering the text as an
  artifact, the optional write to disk and the lock around the downstream hook are
  calls into the host and its libraries; they take the manifest and the text computed
  here and do not change them.
\<close>

record emitted =
  manifest :: jsval
  output_text :: string
  final_files :: "descriptor list"

text \<open>Lines 144 to 154: the generator and the serializer run on the descriptors that
  came out of the pipeline; an error thrown before them is passed on.\<close>

definition generate_and_serialize ::
  "closure \<Rightarrow> (error + descriptor list) \<times> heap \<Rightarrow> (error + emitted) \<times> heap" where
  "generate_and_serialize cl r =
     (let os = closure_opts cl; (res, h1) = r
      in (case res of
            Inl e \<Rightarrow> (Inl e, h1)
          | Inr files \<Rightarrow>
              (let (m, h2) = generate_manifest os h1 (closure_seed cl) files
               in (Inr \<lparr> manifest = m, output_text = serialize os h2 m, final_files = files \<rparr>,
                   h2))))"

definition emit :: "closure \<Rightarrow> compilation \<Rightarrow> heap \<Rightarrow> (error + emitted) \<times> heap" where
  "emit cl build h = generate_and_serialize cl (post_pipeline cl build h)"

text \<open>The builds of one process run their \<^verbatim>\<open>emit\<close> handlers one after another on the
  same heap; a handler that throws fails its own build only.\<close>

fun emit_all :: "(closure \<times> compilation) list \<Rightarrow> heap \<Rightarrow> heap" where
  "emit_all [] h = h"
| "emit_all ((cl, build) # bs) h = emit_all bs (snd (emit cl build h))"

text \<open>The descriptors that those handlers hand to their generators, in order.\<close>

fun emitted_files :: "(closure \<times> compilation) list \<Rightarrow> heap \<Rightarrow> descriptor list" where
  "emitted_files [] h = []"
| "emitted_files ((cl, build) # bs) h =
     (case fst (post_pipeline cl build h) of
        Inl e \<Rightarrow> []
      | Inr files \<Rightarrow> files)
     @ emitted_files bs (snd (emit cl build h))"

section \<open>Objects written by the default generator\<close>

text \<open>What the default fold leaves in one plain object.\<close>

definition write_entry :: "obj \<Rightarrow> descriptor \<Rightarrow> obj" where
  "write_entry m f =
     (if to_text (name f) = ''__proto__'' then m else m(to_text (name f) \<mapsto> Str (path f)))"

definition write_all :: "obj \<Rightarrow> descriptor list \<Rightarrow> obj" where
  "write_all m files = foldl write_entry m files"

text \<open>The physical output paths of a build: the output files of its chunks and the names
  of its assets.\<close>

definition output_paths :: "compilation \<Rightarrow> string set" where
  "output_paths build =
     set (concat (map chunk_files (chunks build))) \<union> set (map asset_name (stats_assets build))"

section \<open>Example builds\<close>

text \<open>Concrete inputs on which the theorems below are instantiated.\<close>

definition no_text :: "heap \<Rightarrow> jsval \<Rightarrow> string" where
  "no_text h v = []"

definition empty_heap :: heap where
  "empty_heap = \<lparr> objs = (\<lambda>r. Map.empty), next_ref = 0, lastIndex = (\<lambda>r. 0) \<rparr>"

definition main_chunk :: chunk where
  "main_chunk =
     \<lparr> chunk_name = Some ''main'', chunk_files = [''main.js'', ''main.js.map''],
       isOnlyInitial = None, chunk_isInitial = Some True, initial = False \<rparr>"

definition nameless_chunk :: chunk where
  "nameless_chunk =
     \<lparr> chunk_name = None, chunk_files = [''0.js''], isOnlyInitial = None,
       chunk_isInitial = Some False, initial = True \<rparr>"

definition async_chunk :: chunk where
  "async_chunk =
     \<lparr> chunk_name = Some ''lazy'', chunk_files = [''lazy.css''], isOnlyInitial = Some False,
       chunk_isInitial = Some True, initial = True \<rparr>"

definition legacy_chunk :: chunk where
  "legacy_chunk =
     \<lparr> chunk_name = Some [], chunk_files = [''legacy.js''], isOnlyInitial = None,
       chunk_isInitial = None, initial = True \<rparr>"

definition image_registry :: "string \<rightharpoonup> string" where
  "image_registry = [''img.1a2b.png'' \<mapsto> ''img.png'']"

definition image_asset :: asset where
  "image_asset = \<lparr> asset_name = ''img.1a2b.png'', asset_chunks = [] \<rparr>"

definition entry_asset :: asset where
  "entry_asset = \<lparr> asset_name = ''main.js'', asset_chunks = [0] \<rparr>"

definition plain_asset :: asset where
  "plain_asset = \<lparr> asset_name = ''robots.txt'', asset_chunks = [] \<rparr>"

definition constructor_asset :: asset where
  "constructor_asset = \<lparr> asset_name = ''constructor'', asset_chunks = [] \<rparr>"

definition windows_opts :: opts where
  "windows_opts = (ManifestPlugin no_text)\<lparr>basePath := ''static'' @ [CHR 0x5C]\<rparr>"

definition windows_file :: descriptor where
  "windows_file =
     \<lparr> path = ''img'' @ [CHR 0x5C] @ ''a.png'', chunk = None,
       name = Text (''img'' @ [CHR 0x5C] @ ''a.png''), isInitial = False, isChunk = False,
       isAsset = True, isModuleAsset = False \<rparr>"

definition constructor_file :: descriptor where
  "constructor_file =
     \<lparr> path = ''constructor'', chunk = None, name = Inherited ''constructor'',
       isInitial = False, isChunk = False, isAsset = True, isModuleAsset = True \<rparr>"

definition renaming_opts :: opts where
  "renaming_opts =
     (ManifestPlugin no_text)
       \<lparr>filter_opt := Some (\<lambda>f. True),
        map_opt := Some (\<lambda>f. f\<lparr>name := Text (''x/'' @ to_text (name f))\<rparr>)\<rparr>"

definition hot_file :: descriptor where
  "hot_file =
     \<lparr> path = ''0.5f1c.hot-update.js'', chunk = None, name = Text ''0.5f1c.hot-update.js'',
       isInitial = False, isChunk = False, isAsset = True, isModuleAsset = False \<rparr>"

definition main_file :: descriptor where
  "main_file =
     \<lparr> path = ''main.js'', chunk = None, name = Text ''main.js'', isInitial = False,
       isChunk = False, isAsset = True, isModuleAsset = False \<rparr>"

definition main_build :: compilation where
  "main_build =
     \<lparr> publicPath = None, chunks = [main_chunk],
       stats_assets = [\<lparr> asset_name = ''main.js'', asset_chunks = [0] \<rparr>,
                       \<lparr> asset_name = ''main.js.map'', asset_chunks = [0] \<rparr>] \<rparr>"

definition empty_build :: compilation where
  "empty_build = \<lparr> publicPath = None, chunks = [], stats_assets = [] \<rparr>"

definition constructor_build :: compilation where
  "constructor_build =
     \<lparr> publicPath = None, chunks = [], stats_assets = [constructor_asset] \<rparr>"

definition constant_opts :: opts where
  "constant_opts = (ManifestPlugin no_text)\<lparr>generate := Some (\<lambda>h sd files. (Str ''fixed'', h))\<rparr>"

definition constant_closure :: closure where
  "constant_closure = fst (apply_plugin constant_opts empty_heap)"

definition constant_heap :: heap where
  "constant_heap = snd (apply_plugin constant_opts empty_heap)"

definition shared_heap :: heap where
  "shared_heap = snd (new_object empty_heap)"

definition seeded_heap :: heap where
  "seeded_heap = shared_heap\<lparr>objs := (objs shared_heap)(0 := [''old.js'' \<mapsto> Str ''old.js''])\<rparr>"

definition shared_opts :: opts where
  "shared_opts = (ManifestPlugin no_text)\<lparr>seed := Object 0\<rparr>"

definition shared_closure :: closure where
  "shared_closure = fst (apply_plugin shared_opts shared_heap)"

definition filtering_closure :: closure where
  "filtering_closure =
     fst (apply_plugin (shared_opts\<lparr>filter_opt := Some (\<lambda>f. False)\<rparr>) shared_heap)"

definition collapsing_closure :: closure where
  "collapsing_closure =
     fst (apply_plugin (shared_opts\<lparr>map_opt := Some (\<lambda>f. f\<lparr>name := Text ''x''\<rparr>)\<rparr>) shared_heap)"

definition proto_closure :: closure where
  "proto_closure =
     fst (apply_plugin (shared_opts\<lparr>map_opt := Some (\<lambda>f. f\<lparr>name := Text ''__proto__''\<rparr>)\<rparr>)
            shared_heap)"

definition stale_file :: descriptor where
  "stale_file = main_file\<lparr>path := ''main.0001.js''\<rparr>"

definition one_file_build :: "string \<Rightarrow> string \<Rightarrow> compilation" where
  "one_file_build n p =
     \<lparr> publicPath = None,
       chunks = [\<lparr> chunk_name = Some n, chunk_files = [p], isOnlyInitial = None,
                   chunk_isInitial = Some True, initial = False \<rparr>],
       stats_assets = [\<lparr> asset_name = p, asset_chunks = [0] \<rparr>] \<rparr>"

definition admin_build :: compilation where
  "admin_build = one_file_build ''admin'' ''admin.js''"

definition home_build :: compilation where
  "home_build = one_file_build ''home'' ''home.js''"

definition hot_build :: compilation where
  "hot_build = one_file_build ''main'' ''main.hot-update.js''"

definition backslash_build :: compilation where
  "backslash_build = one_file_build (''a'' @ [CHR 0x5C] @ ''b'') ''admin.js''"

definition slash_build :: compilation where
  "slash_build = one_file_build ''a/b'' ''home.js''"

definition robots_build :: compilation where
  "robots_build = admin_build\<lparr>stats_assets := stats_assets admin_build @ [plain_asset]\<rparr>"

definition watch_closure :: closure where
  "watch_closure = fst (apply_plugin (ManifestPlugin no_text) empty_heap)"

definition watch_heap :: heap where
  "watch_heap = snd (apply_plugin (ManifestPlugin no_text) empty_heap)"

definition empty_string_opts :: opts where
  "empty_string_opts = (ManifestPlugin no_text)\<lparr>seed := Str []\<rparr>"

definition image_closure :: closure where
  "image_closure = moduleAsset watch_closure ''img.png'' ''img.1a2b.png''"

definition image_build :: compilation where
  "image_build =
     \<lparr> publicPath = None, chunks = [main_chunk],
       stats_assets = [entry_asset, image_asset, plain_asset] \<rparr>"

definition styles_build :: compilation where
  "styles_build =
     \<lparr> publicPath = None,
       chunks = [\<lparr> chunk_name = Some ''a'', chunk_files = [''a.js'', ''styles.css''],
                   isOnlyInitial = None, chunk_isInitial = Some True, initial = False \<rparr>,
                 \<lparr> chunk_name = Some ''b'', chunk_files = [''b.js'', ''styles.css''],
                   isOnlyInitial = None, chunk_isInitial = Some True, initial = False \<rparr>],
       stats_assets = [\<lparr> asset_name = ''a.js'', asset_chunks = [0] \<rparr>,
                       \<lparr> asset_name = ''b.js'', asset_chunks = [1] \<rparr>,
                       \<lparr> asset_name = ''styles.css'', asset_chunks = [0, 1] \<rparr>] \<rparr>"

definition constructor_entry_build :: compilation where
  "constructor_entry_build =
     \<lparr> publicPath = None,
       chunks = [\<lparr> chunk_name = Some ''constructor'', chunk_files = [''constructor''],
                   isOnlyInitial = None, chunk_isInitial = Some True, initial = False \<rparr>],
       stats_assets = [\<lparr> asset_name = ''constructor'', asset_chunks = [0] \<rparr>] \<rparr>"

definition global_opts :: opts where
  "global_opts =
     (ManifestPlugin no_text)
       \<lparr>transformExtensions :=
          \<lparr> exec_at = (\<lambda>i s. if i = 0 \<and> (map ascii_lower s = ''gz'' \<or> map ascii_lower s = ''map'')
                             then Some (length s) else None),
            stateful = Some 0 \<rparr>\<rparr>"

section \<open>Basic facts\<close>

lemma split_on_not_Nil: "split_on sep s \<noteq> []"
  by (induction s) (auto split: list.splits)

lemma pop_snoc: "pop (xs @ [x]) = (Some x, xs)"
  by (simp add: pop_def)

lemma regexp_test_stateless:
  "stateful re = None \<Longrightarrow> regexp_test re h s = (exec_at re 0 s \<noteq> None, h)"
  by (simp add: regexp_test_def)

lemma regexp_test_objs:
  "objs (snd (regexp_test re h s)) = objs h"
  "next_ref (snd (regexp_test re h s)) = next_ref h"
  by (simp_all add: regexp_test_def Let_def split: option.splits)

lemma getFileType_heap:
  "snd (getFileType os h p)
     = snd (regexp_test (transformExtensions os) h (last (split_on CHR ''.'' (strip_query p))))"
  by (simp add: getFileType_def Let_def pop_def split_on_not_Nil js_string_def case_prod_beta)

lemma getFileType_objs:
  "objs (snd (getFileType os h p)) = objs h"
  "next_ref (snd (getFileType os h p)) = next_ref h"
  by (simp_all add: getFileType_heap regexp_test_objs)

lemma getFileType_stateless:
  "stateful (transformExtensions os) = None \<Longrightarrow> snd (getFileType os h p) = h"
  by (simp add: getFileType_heap regexp_test_stateless)

lemma getFileType_stateless_fst:
  "stateful (transformExtensions os) = None
     \<Longrightarrow> fst (getFileType os h p) = fst (getFileType os h' p)"
  by (simp add: getFileType_def Let_def regexp_test_stateless case_prod_beta)

section \<open>File types\<close>

lemma strip_query_no_query: "CHR ''?'' \<notin> set p \<Longrightarrow> strip_query p = p"
  by (induction p) auto

lemma strip_query_suffix:
  "CHR ''?'' \<notin> set p \<Longrightarrow> \<forall>c \<in> set q. \<not> lineTerminator c
     \<Longrightarrow> strip_query (p @ CHR ''?'' # q) = p"
  by (induction p) (auto simp: dropWhile_eq_Nil_conv)

lemma getFileType_plain:
  assumes "split_on CHR ''.'' (strip_query p) = segs @ [ext]"
    and "\<not> fst (regexp_test (transformExtensions os) h ext)"
  shows "fst (getFileType os h p) = ext"
  using assms by (simp add: getFileType_def pop_snoc js_string_def case_prod_beta)

lemma getFileType_transformed:
  assumes "split_on CHR ''.'' (strip_query p) = segs @ [prev, ext]"
    and "fst (regexp_test (transformExtensions os) h ext)"
  shows "fst (getFileType os h p) = prev @ ''.'' @ ext"
proof -
  have "split_on CHR ''.'' (strip_query p) = (segs @ [prev]) @ [ext]"
    using assms(1) by simp
  then show ?thesis
    using assms(2) pop_snoc [of segs prev]
    by (simp add: getFileType_def Let_def pop_snoc js_string_def case_prod_beta
        del: append_assoc)
qed

lemma getFileType_single:
  assumes "split_on CHR ''.'' (strip_query p) = [ext]"
    and "fst (regexp_test (transformExtensions os) h ext)"
  shows "fst (getFileType os h p) = ''undefined.'' @ ext"
  using assms by (simp add: getFileType_def js_string_def pop_def case_prod_beta)

lemma getFileType_examples:
  "getFileType (ManifestPlugin no_text) h ''bundle.js.gz'' = (''js.gz'', h)"
  "getFileType (ManifestPlugin no_text) h ''bundle.js.map'' = (''js.map'', h)"
  "getFileType (ManifestPlugin no_text) h ''bundle.css'' = (''css'', h)"
  "getFileType (ManifestPlugin no_text) h ''bundle.JS.GZ?v=1.2'' = (''JS.GZ'', h)"
  by (simp_all add: getFileType_def ManifestPlugin_def pop_def js_string_def regexp_test_def
      default_transformExtensions_def ascii_lower_def lineTerminator_def)

lemma getFileType_line_break:
  "getFileType (ManifestPlugin no_text) h (''a.js?v'' @ [CHR 0x0A] @ ''.gz'')
     = (''js'' @ [CHR 0x0A] @ ''.gz'', h)"
  by (simp add: getFileType_def ManifestPlugin_def pop_def js_string_def regexp_test_def
      default_transformExtensions_def ascii_lower_def lineTerminator_def)

text \<open>
  C3. The claim covers every path string, and the three paths it names evaluate as it
  says (\<open>getFileType_examples\<close>). A path whose stripped form has a single segment that
  the pattern accepts has no second extension to join: the second \<^verbatim>\<open>pop\<close> returns
  \<open>undefined\<close>, and the concatenation turns it into text. For the path \<open>gz\<close> the code
  returns \<open>undefined.gz\<close>.
\<close>

theorem getFileType_single_segment:
  "getFileType (ManifestPlugin no_text) h ''gz'' = (''undefined.gz'', h)"
  by (simp add: getFileType_def ManifestPlugin_def pop_def js_string_def regexp_test_def
      default_transformExtensions_def ascii_lower_def)

section \<open>A pattern that keeps state\<close>

text \<open>
  With the pattern \<^verbatim>\<open>/^(gz|map)$/gi\<close> the first test of \<open>gz\<close> succeeds and leaves
  \<^verbatim>\<open>lastIndex\<close> at 2, so the next test of \<open>gz\<close> starts there, fails and resets it: of
  two compressed bundles in a row the second gets the file type \<open>gz\<close>.
\<close>

lemma getFileType_global_flag:
  "fst (getFileType global_opts empty_heap ''a.js.gz'') = ''js.gz''"
  "lastIndex (snd (getFileType global_opts empty_heap ''a.js.gz'')) 0 = 2"
  "fst (getFileType global_opts (snd (getFileType global_opts empty_heap ''a.js.gz'')) ''b.js.gz'')
     = ''gz''"
  by (simp_all add: getFileType_def global_opts_def ManifestPlugin_def empty_heap_def pop_def
      js_string_def regexp_test_def ascii_lower_def Let_def)

section \<open>The chunk scan\<close>

lemma chunk_file_step_eq:
  "chunk_file_step os c (files, h) p =
     (files @ [\<lparr> path = p, chunk = Some c,
                  name = Text (case chunk_name c of
                                 None \<Rightarrow> p
                               | Some n \<Rightarrow> if n = [] then p
                                           else n @ ''.'' @ fst (getFileType os h p)),
                  isInitial = (case isOnlyInitial c of
                                 Some b \<Rightarrow> b
                               | None \<Rightarrow> (case chunk_isInitial c of
                                             Some b \<Rightarrow> b
                                           | None \<Rightarrow> initial c)),
                  isChunk = True, isAsset = False, isModuleAsset = False \<rparr>],
      (case chunk_name c of
         None \<Rightarrow> h
       | Some n \<Rightarrow> if n = [] then h else snd (getFileType os h p)))"
  by (simp add: chunk_file_step_def truthy_name_def chunk_initial_def case_prod_beta
      split: option.splits)

lemma chunk_file_step_append:
  "chunk_file_step os c acc p
     = (fst acc @ fst (chunk_file_step os c ([], snd acc) p),
        snd (chunk_file_step os c ([], snd acc) p))"
  by (cases acc) (simp add: chunk_file_step_eq)

lemma chunk_file_step_path: "map path (fst (chunk_file_step os c ([], h) p)) = [p]"
  by (simp add: chunk_file_step_eq)

lemma chunk_file_step_objs:
  "objs (snd (chunk_file_step os c acc p)) = objs (snd acc)"
  "next_ref (snd (chunk_file_step os c acc p)) = next_ref (snd acc)"
  by (cases acc; simp add: chunk_file_step_eq getFileType_objs split: option.splits)+

lemma chunk_file_step_stateless:
  "stateful (transformExtensions os) = None \<Longrightarrow> snd (chunk_file_step os c (files, h) p) = h"
  by (simp add: chunk_file_step_eq getFileType_stateless split: option.splits)

lemma chunk_files_paths:
  "map path (fst (foldl (chunk_file_step os c) acc ps)) = map path (fst acc) @ ps"
proof (induction ps arbitrary: acc)
  case Nil
  show ?case by simp
next
  case (Cons p ps)
  obtain files h where acc: "acc = (files, h)"
    by (cases acc)
  show ?case
    by (simp add: Cons.IH acc chunk_file_step_eq)
qed

lemma chunk_files_objs:
  "objs (snd (foldl (chunk_file_step os c) acc ps)) = objs (snd acc)"
  "next_ref (snd (foldl (chunk_file_step os c) acc ps)) = next_ref (snd acc)"
  by (induction ps arbitrary: acc) (simp_all add: chunk_file_step_objs)

lemma chunk_files_stateless:
  assumes "stateful (transformExtensions os) = None"
  shows "foldl (chunk_file_step os c) (files, h) ps
           = (files @ concat (map (\<lambda>p. fst (chunk_file_step os c ([], h) p)) ps), h)"
proof (induction ps arbitrary: files)
  case Nil
  show ?case by simp
next
  case (Cons p ps)
  have "chunk_file_step os c (files, h) p = (files @ fst (chunk_file_step os c ([], h) p), h)"
    using chunk_file_step_append [of os c "(files, h)" p]
      chunk_file_step_stateless [OF assms, of c "[]" h p]
    by simp
  then show ?case
    by (simp add: Cons.IH)
qed

lemma chunks_paths:
  "map path (fst (foldl (\<lambda>acc c. foldl (chunk_file_step os c) acc (chunk_files c)) acc cs))
     = map path (fst acc) @ concat (map chunk_files cs)"
  by (induction cs arbitrary: acc) (simp_all add: chunk_files_paths)

lemma chunks_objs:
  "objs (snd (foldl (\<lambda>acc c. foldl (chunk_file_step os c) acc (chunk_files c)) acc cs))
     = objs (snd acc)"
  "next_ref (snd (foldl (\<lambda>acc c. foldl (chunk_file_step os c) acc (chunk_files c)) acc cs))
     = next_ref (snd acc)"
  by (induction cs arbitrary: acc) (simp_all add: chunk_files_objs)

lemma chunks_stateless:
  assumes "stateful (transformExtensions os) = None"
  shows "foldl (\<lambda>acc c. foldl (chunk_file_step os c) acc (chunk_files c)) (files, h) cs
     = (files @ concat (map (\<lambda>c. concat (map (\<lambda>p. fst (chunk_file_step os c ([], h) p))
                                           (chunk_files c))) cs), h)"
  by (induction cs arbitrary: files) (simp_all add: chunk_files_stateless [OF assms])

lemma collect_chunks_paths:
  "map path (fst (collect_chunks os cs h)) = concat (map chunk_files cs)"
  by (simp add: collect_chunks_def chunks_paths)

lemma collect_chunks_objs:
  "objs (snd (collect_chunks os cs h)) = objs h"
  "next_ref (snd (collect_chunks os cs h)) = next_ref h"
  by (simp_all add: collect_chunks_def chunks_objs)

lemma collect_chunks_stateless:
  assumes "stateful (transformExtensions os) = None"
  shows "collect_chunks os cs h
     = (concat (map (\<lambda>c. concat (map (\<lambda>p. fst (chunk_file_step os c ([], h) p))
                                   (chunk_files c))) cs), h)"
  using chunks_stateless [OF assms, of "[]" h cs] by (simp add: collect_chunks_def)

lemma chunk_files_append:
  "foldl (chunk_file_step os c) acc ps
     = (fst acc @ fst (foldl (chunk_file_step os c) ([], snd acc) ps),
        snd (foldl (chunk_file_step os c) ([], snd acc) ps))"
proof (induction ps rule: rev_induct)
  case Nil
  show ?case by simp
next
  case (snoc p ps)
  define X where "X = foldl (chunk_file_step os c) acc ps"
  define Y where "Y = foldl (chunk_file_step os c) ([], snd acc) ps"
  have IH: "X = (fst acc @ fst Y, snd Y)"
    unfolding X_def Y_def by (rule snoc.IH)
  have a: "chunk_file_step os c X p
      = (fst X @ fst (chunk_file_step os c ([], snd X) p),
         snd (chunk_file_step os c ([], snd X) p))"
    by (rule chunk_file_step_append)
  have b: "chunk_file_step os c Y p
      = (fst Y @ fst (chunk_file_step os c ([], snd Y) p),
         snd (chunk_file_step os c ([], snd Y) p))"
    by (rule chunk_file_step_append)
  have "chunk_file_step os c X p
      = (fst acc @ fst (chunk_file_step os c Y p), snd (chunk_file_step os c Y p))"
    unfolding a b unfolding IH by simp
  then show ?case
    unfolding X_def Y_def by simp
qed

lemma chunks_append:
  "foldl (\<lambda>acc c. foldl (chunk_file_step os c) acc (chunk_files c)) acc cs
     = (fst acc @ fst (foldl (\<lambda>acc c. foldl (chunk_file_step os c) acc (chunk_files c))
                         ([], snd acc) cs),
        snd (foldl (\<lambda>acc c. foldl (chunk_file_step os c) acc (chunk_files c))
               ([], snd acc) cs))"
proof (induction cs rule: rev_induct)
  case Nil
  show ?case by simp
next
  case (snoc c cs)
  define X where "X = foldl (\<lambda>acc c. foldl (chunk_file_step os c) acc (chunk_files c)) acc cs"
  define Y where
    "Y = foldl (\<lambda>acc c. foldl (chunk_file_step os c) acc (chunk_files c)) ([], snd acc) cs"
  have IH: "X = (fst acc @ fst Y, snd Y)"
    unfolding X_def Y_def by (rule snoc.IH)
  have a: "foldl (chunk_file_step os c) X (chunk_files c)
      = (fst X @ fst (foldl (chunk_file_step os c) ([], snd X) (chunk_files c)),
         snd (foldl (chunk_file_step os c) ([], snd X) (chunk_files c)))"
    by (rule chunk_files_append)
  have b: "foldl (chunk_file_step os c) Y (chunk_files c)
      = (fst Y @ fst (foldl (chunk_file_step os c) ([], snd Y) (chunk_files c)),
         snd (foldl (chunk_file_step os c) ([], snd Y) (chunk_files c)))"
    by (rule chunk_files_append)
  have "foldl (chunk_file_step os c) X (chunk_files c)
      = (fst acc @ fst (foldl (chunk_file_step os c) Y (chunk_files c)),
         snd (foldl (chunk_file_step os c) Y (chunk_files c)))"
    unfolding a b unfolding IH by simp
  then show ?case
    unfolding X_def Y_def by simp
qed

lemma collect_chunks_Nil: "collect_chunks os [] h = ([], h)"
  by (simp add: collect_chunks_def)

lemma collect_chunks_Cons:
  "collect_chunks os (c # cs) h
     = (fst (foldl (chunk_file_step os c) ([], h) (chunk_files c))
          @ fst (collect_chunks os cs (snd (foldl (chunk_file_step os c) ([], h) (chunk_files c)))),
        snd (collect_chunks os cs (snd (foldl (chunk_file_step os c) ([], h) (chunk_files c)))))"
  using chunks_append [of os "foldl (chunk_file_step os c) ([], h) (chunk_files c)" cs]
  by (simp add: collect_chunks_def)

lemma chunk_files_each:
  "list_all2
     (\<lambda>d (c', p). \<exists>h'. d = last (fst (chunk_file_step os c' ([], h') p)))
     (fst (foldl (chunk_file_step os c) ([], h) ps)) (map (Pair c) ps)"
proof (induction ps rule: rev_induct)
  case Nil
  show ?case by simp
next
  case (snoc p ps)
  let ?acc = "foldl (chunk_file_step os c) ([], h) ps"
  have "fst (chunk_file_step os c ?acc p)
          = fst ?acc @ [last (fst (chunk_file_step os c ([], snd ?acc) p))]"
    using chunk_file_step_append [of os c ?acc p] by (simp add: chunk_file_step_eq)
  with snoc.IH show ?case
    by (auto intro!: list_all2_appendI)
qed

lemma collect_chunks_each:
  "list_all2
     (\<lambda>d (c, p). \<exists>h'. d = last (fst (chunk_file_step os c ([], h') p)))
     (fst (collect_chunks os cs h)) (concat (map (\<lambda>c. map (Pair c) (chunk_files c)) cs))"
proof (induction cs arbitrary: h)
  case Nil
  show ?case by (simp add: collect_chunks_Nil)
next
  case (Cons c cs)
  show ?case
    by (simp add: collect_chunks_Cons list_all2_appendI chunk_files_each Cons.IH)
qed

text \<open>
  C6. For every chunk and every one of its output files, in iteration order, the
  collector emits one descriptor. Its path is the file. Its name is the chunk's name,
  a dot and the result of \<^verbatim>\<open>getFileType\<close> on the path when the chunk has a name (a
  non-empty string), and the path itself when the chunk has none (the name is missing
  or empty). It is marked as a chunk, not as an asset nor as a module asset, and
  \<open>isInitial\<close> is the chunk's eager-load flag: what \<^verbatim>\<open>isOnlyInitial()\<close> returns when the
  chunk has that method, else what \<^verbatim>\<open>isInitial()\<close> returns when it has that one, else
  the field \<^verbatim>\<open>initial\<close>. The heap passes from one call of \<^verbatim>\<open>getFileType\<close> to the next;
  with a pattern that keeps no state it does not change, and every file type is a
  function of its path.
\<close>

theorem collect_chunks_descriptors:
  "map path (fst (collect_chunks os cs h)) = concat (map chunk_files cs)
   \<and> list_all2
        (\<lambda>d (c, p). \<exists>h'.
           d = \<lparr> path = p, chunk = Some c,
                 name = Text (case chunk_name c of
                                None \<Rightarrow> p
                              | Some n \<Rightarrow> if n = [] then p
                                          else n @ ''.'' @ fst (getFileType os h' p)),
                 isInitial = (case isOnlyInitial c of
                                Some b \<Rightarrow> b
                              | None \<Rightarrow> (case chunk_isInitial c of
                                            Some b \<Rightarrow> b
                                          | None \<Rightarrow> initial c)),
                 isChunk = True, isAsset = False, isModuleAsset = False \<rparr>)
        (fst (collect_chunks os cs h)) (concat (map (\<lambda>c. map (Pair c) (chunk_files c)) cs))
   \<and> chunk_file_step os c (files, h) p =
        (files @ [\<lparr> path = p, chunk = Some c,
                     name = Text (case chunk_name c of
                                    None \<Rightarrow> p
                                  | Some n \<Rightarrow> if n = [] then p
                                              else n @ ''.'' @ fst (getFileType os h p)),
                     isInitial = (case isOnlyInitial c of
                                    Some b \<Rightarrow> b
                                  | None \<Rightarrow> (case chunk_isInitial c of
                                                Some b \<Rightarrow> b
                                              | None \<Rightarrow> initial c)),
                     isChunk = True, isAsset = False, isModuleAsset = False \<rparr>],
         (case chunk_name c of
            None \<Rightarrow> h
          | Some n \<Rightarrow> if n = [] then h else snd (getFileType os h p)))
   \<and> collect_chunks os [] h = ([], h)
   \<and> collect_chunks os (c # cs) h
        = (fst (foldl (chunk_file_step os c) ([], h) (chunk_files c))
             @ fst (collect_chunks os cs
                      (snd (foldl (chunk_file_step os c) ([], h) (chunk_files c)))),
           snd (collect_chunks os cs
                  (snd (foldl (chunk_file_step os c) ([], h) (chunk_files c)))))
   \<and> (stateful (transformExtensions os) = None
        \<longrightarrow> collect_chunks os cs h
              = (concat (map (\<lambda>c. concat (map (\<lambda>p. fst (chunk_file_step os c ([], h) p))
                                            (chunk_files c))) cs), h))"
proof -
  have each: "list_all2
        (\<lambda>d (c, p). \<exists>h'.
           d = \<lparr> path = p, chunk = Some c,
                 name = Text (case chunk_name c of
                                None \<Rightarrow> p
                              | Some n \<Rightarrow> if n = [] then p
                                          else n @ ''.'' @ fst (getFileType os h' p)),
                 isInitial = (case isOnlyInitial c of
                                Some b \<Rightarrow> b
                              | None \<Rightarrow> (case chunk_isInitial c of
                                            Some b \<Rightarrow> b
                                          | None \<Rightarrow> initial c)),
                 isChunk = True, isAsset = False, isModuleAsset = False \<rparr>)
        (fst (collect_chunks os cs h)) (concat (map (\<lambda>c. map (Pair c) (chunk_files c)) cs))"
    using collect_chunks_each [of os cs h] by (simp add: chunk_file_step_eq)
  show ?thesis
    using each collect_chunks_paths [of os cs h] chunk_file_step_eq [of os c files h p]
      collect_chunks_Nil [of os h] collect_chunks_Cons [of os c cs h]
      collect_chunks_stateless [of os cs h]
    by blast
qed

lemma default_stateless: "stateful (transformExtensions (ManifestPlugin json)) = None"
  by (simp add: ManifestPlugin_def default_transformExtensions_def)

lemma getFileType_default:
  "getFileType (ManifestPlugin json) h ''main.js'' = (''js'', h)"
  "getFileType (ManifestPlugin json) h ''main.js.map'' = (''js.map'', h)"
  "getFileType (ManifestPlugin json) h ''lazy.css'' = (''css'', h)"
  "getFileType (ManifestPlugin json) h ''admin.js'' = (''js'', h)"
  by (simp_all add: getFileType_def ManifestPlugin_def pop_def js_string_def regexp_test_def
      default_transformExtensions_def ascii_lower_def)

theorem collect_chunks_descriptors_witness:
  "stateful (transformExtensions (ManifestPlugin no_text)) = None
   \<and> collect_chunks (ManifestPlugin no_text)
        [main_chunk, nameless_chunk, async_chunk, legacy_chunk] empty_heap
      = ([\<lparr> path = ''main.js'', chunk = Some main_chunk, name = Text ''main.js'',
             isInitial = True, isChunk = True, isAsset = False, isModuleAsset = False \<rparr>,
          \<lparr> path = ''main.js.map'', chunk = Some main_chunk, name = Text ''main.js.map'',
             isInitial = True, isChunk = True, isAsset = False, isModuleAsset = False \<rparr>,
          \<lparr> path = ''0.js'', chunk = Some nameless_chunk, name = Text ''0.js'',
             isInitial = False, isChunk = True, isAsset = False, isModuleAsset = False \<rparr>,
          \<lparr> path = ''lazy.css'', chunk = Some async_chunk, name = Text ''lazy.css'',
             isInitial = False, isChunk = True, isAsset = False, isModuleAsset = False \<rparr>,
          \<lparr> path = ''legacy.js'', chunk = Some legacy_chunk, name = Text ''legacy.js'',
             isInitial = True, isChunk = True, isAsset = False, isModuleAsset = False \<rparr>],
         empty_heap)"
proof -
  note t = collect_chunks_descriptors [of "ManifestPlugin no_text"
      "[main_chunk, nameless_chunk, async_chunk, legacy_chunk]" empty_heap]
  from t default_stateless
  have "collect_chunks (ManifestPlugin no_text)
          [main_chunk, nameless_chunk, async_chunk, legacy_chunk] empty_heap
        = (concat (map (\<lambda>c. concat (map (\<lambda>p. fst (chunk_file_step (ManifestPlugin no_text) c
                                                     ([], empty_heap) p))
                                      (chunk_files c)))
                     [main_chunk, nameless_chunk, async_chunk, legacy_chunk]), empty_heap)"
    by blast
  moreover have "chunk_files main_chunk = [''main.js'', ''main.js.map'']"
    "chunk_files nameless_chunk = [''0.js'']" "chunk_files async_chunk = [''lazy.css'']"
    "chunk_files legacy_chunk = [''legacy.js'']"
    by (simp_all add: main_chunk_def nameless_chunk_def async_chunk_def legacy_chunk_def)
  moreover have
    "fst (chunk_file_step (ManifestPlugin no_text) main_chunk ([], empty_heap) ''main.js'')
       = [\<lparr> path = ''main.js'', chunk = Some main_chunk, name = Text ''main.js'',
             isInitial = True, isChunk = True, isAsset = False, isModuleAsset = False \<rparr>]"
    "fst (chunk_file_step (ManifestPlugin no_text) main_chunk ([], empty_heap) ''main.js.map'')
       = [\<lparr> path = ''main.js.map'', chunk = Some main_chunk, name = Text ''main.js.map'',
             isInitial = True, isChunk = True, isAsset = False, isModuleAsset = False \<rparr>]"
    by (simp_all add: chunk_file_step_eq getFileType_default main_chunk_def)
  moreover have
    "fst (chunk_file_step (ManifestPlugin no_text) nameless_chunk ([], empty_heap) ''0.js'')
       = [\<lparr> path = ''0.js'', chunk = Some nameless_chunk, name = Text ''0.js'',
             isInitial = False, isChunk = True, isAsset = False, isModuleAsset = False \<rparr>]"
    by (simp add: chunk_file_step_eq nameless_chunk_def)
  moreover have
    "fst (chunk_file_step (ManifestPlugin no_text) async_chunk ([], empty_heap) ''lazy.css'')
       = [\<lparr> path = ''lazy.css'', chunk = Some async_chunk, name = Text ''lazy.css'',
             isInitial = False, isChunk = True, isAsset = False, isModuleAsset = False \<rparr>]"
    by (simp add: chunk_file_step_eq getFileType_default async_chunk_def)
  moreover have
    "fst (chunk_file_step (ManifestPlugin no_text) legacy_chunk ([], empty_heap) ''legacy.js'')
       = [\<lparr> path = ''legacy.js'', chunk = Some legacy_chunk, name = Text ''legacy.js'',
             isInitial = True, isChunk = True, isAsset = False, isModuleAsset = False \<rparr>]"
    by (simp add: chunk_file_step_eq legacy_chunk_def)
  ultimately show ?thesis
    using default_stateless by simp
qed

section \<open>The asset scan\<close>

lemma get_property_own: "own k = Some v \<Longrightarrow> get_property own k = Some (Text v)"
  by (simp add: get_property_def)

lemma get_property_missing:
  "own k = None \<Longrightarrow> k \<notin> set object_prototype_members \<Longrightarrow> get_property own k = None"
  by (simp add: get_property_def)

lemma get_property_inherited:
  "own k = None \<Longrightarrow> k \<in> set object_prototype_members
     \<Longrightarrow> get_property own k = Some (Inherited k)"
  by (simp add: get_property_def)

lemma asset_step_eq:
  "asset_step ma files a =
     files @
     (case ma (asset_name a) of
        Some n \<Rightarrow>
          (if n \<noteq> []
           then [\<lparr> path = asset_name a, chunk = None, name = Text n, isInitial = False,
                    isChunk = False, isAsset = True, isModuleAsset = True \<rparr>]
           else if asset_chunks a \<noteq> [] then []
           else [\<lparr> path = asset_name a, chunk = None, name = Text (asset_name a),
                    isInitial = False, isChunk = False, isAsset = True,
                    isModuleAsset = False \<rparr>])
      | None \<Rightarrow>
          (if asset_name a \<in> set object_prototype_members
           then [\<lparr> path = asset_name a, chunk = None, name = Inherited (asset_name a),
                    isInitial = False, isChunk = False, isAsset = True,
                    isModuleAsset = True \<rparr>]
           else if asset_chunks a \<noteq> [] then []
           else [\<lparr> path = asset_name a, chunk = None, name = Text (asset_name a),
                    isInitial = False, isChunk = False, isAsset = True,
                    isModuleAsset = False \<rparr>]))"
  by (simp add: asset_step_def get_property_def truthy_prop_def Let_def split: option.splits)

lemma asset_step_append: "asset_step ma files a = files @ asset_step ma [] a"
  by (simp add: asset_step_eq)

lemma collect_assets_concat:
  "collect_assets ma as files = files @ concat (map (asset_step ma []) as)"
  unfolding collect_assets_def
proof (induction as arbitrary: files)
  case Nil
  show ?case by simp
next
  case (Cons a as)
  have "foldl (asset_step ma) (asset_step ma files a) as
          = asset_step ma files a @ concat (map (asset_step ma []) as)"
    by (rule Cons.IH)
  also have "\<dots> = files @ asset_step ma [] a @ concat (map (asset_step ma []) as)"
    by (subst asset_step_append) simp
  finally show ?case by simp
qed

lemma collect_eq:
  "collect cl build h
     = (fst (collect_chunks (closure_opts cl) (chunks build) h)
          @ concat (map (asset_step (moduleAssets cl) []) (stats_assets build)),
        snd (collect_chunks (closure_opts cl) (chunks build) h))"
  by (simp add: collect_def collect_assets_concat case_prod_beta)

lemma collect_objs:
  "objs (snd (collect cl build h)) = objs h"
  "next_ref (snd (collect cl build h)) = next_ref h"
  by (simp_all add: collect_eq collect_chunks_objs)

lemma collect_stateless:
  "stateful (transformExtensions (closure_opts cl)) = None \<Longrightarrow> snd (collect cl build h) = h"
  by (simp add: collect_eq collect_chunks_stateless)

lemma collect_chunks_flags:
  "d \<in> set (fst (collect_chunks os cs h))
     \<Longrightarrow> isChunk d \<and> \<not> isAsset d \<and> \<not> isModuleAsset d \<and> is_text (name d)"
proof -
  assume d: "d \<in> set (fst (collect_chunks os cs h))"
  from collect_chunks_each [of os cs h] d
  obtain c p h' where "d = last (fst (chunk_file_step os c ([], h') p))"
    by (auto simp: list_all2_conv_all_nth in_set_conv_nth case_prod_beta)
  then show ?thesis
    by (simp add: chunk_file_step_eq)
qed

lemma asset_step_flags:
  "d \<in> set (asset_step ma [] a) \<Longrightarrow> isAsset d \<and> \<not> isChunk d \<and> \<not> isInitial d"
  by (auto simp: asset_step_eq split: option.splits if_splits)

lemma asset_paths:
  "map path (concat (map (asset_step ma []) as))
     = map asset_name
         (filter (\<lambda>a. truthy_prop (get_property ma (asset_name a)) \<noteq> None \<or> asset_chunks a = [])
            as)"
  by (induction as) (auto simp: asset_step_def Let_def split: option.splits)

text \<open>
  C7. The scan reads the registry with \<^verbatim>\<open>moduleAssets[asset.name]\<close> on a plain object.
  For an asset whose name is a key of \<^verbatim>\<open>Object.prototype\<close> that read returns the
  inherited member, which is truthy, although nothing was registered: the asset
  \<open>constructor\<close>, referenced by no chunk and never registered, is collected as a module
  asset whose name is a built-in function, where the claim has a plain asset descriptor
  named by the path. For every other asset name the scan does what the claim says
  (\<open>asset_step_eq\<close>, \<open>collect_eq\<close>).
\<close>

theorem asset_step_inherited_member:
  "asset_step Map.empty [] constructor_asset
     = [\<lparr> path = ''constructor'', chunk = None, name = Inherited ''constructor'',
           isInitial = False, isChunk = False, isAsset = True, isModuleAsset = True \<rparr>]"
  by (simp add: asset_step_eq constructor_asset_def object_prototype_members_def)

section \<open>Path normalisation\<close>

lemma replace_backslashes_none: "CHR 0x5C \<notin> set (replace_backslashes s)"
  by (auto simp: replace_backslashes_def)

lemma is_text_to_text: "is_text v \<Longrightarrow> v = Text (to_text v)"
  by (cases v) (simp_all add: to_text_def)

lemma canonicalize_file_text:
  "is_text (name f)
     \<Longrightarrow> canonicalize_file f
           = Inr (f\<lparr>name := Text (replace_backslashes (to_text (name f))),
                    path := replace_backslashes (path f)\<rparr>)"
  by (cases "name f") (simp_all add: canonicalize_file_def to_text_def)

lemma canonicalize_file_other: "\<not> is_text (name f) \<Longrightarrow> canonicalize_file f = Inl TypeError"
  by (cases "name f") (simp_all add: canonicalize_file_def)

lemma canonicalize_text:
  "\<forall>f \<in> set files. is_text (name f)
     \<Longrightarrow> canonicalize files
           = Inr (map (\<lambda>f. f\<lparr>name := Text (replace_backslashes (to_text (name f))),
                           path := replace_backslashes (path f)\<rparr>) files)"
  by (induction files) (simp_all add: canonicalize_file_text)

lemma canonicalize_other:
  "\<not> (\<forall>f \<in> set files. is_text (name f)) \<Longrightarrow> canonicalize files = Inl TypeError"
proof (induction files)
  case Nil
  then show ?case by simp
next
  case (Cons f fs)
  show ?case
  proof (cases "is_text (name f)")
    case True
    with Cons.prems have "\<not> (\<forall>f \<in> set fs. is_text (name f))"
      by simp
    with Cons.IH True show ?thesis
      by (simp add: canonicalize_file_text)
  next
    case False
    then show ?thesis
      by (simp add: canonicalize_file_other)
  qed
qed

lemma canonicalize_error: "canonicalize files = Inl e \<Longrightarrow> e = TypeError"
  by (cases e) simp

lemma prefix_basePath_map:
  "basePath os \<noteq> []
     \<Longrightarrow> prefix_basePath os files
           = map (\<lambda>f. f\<lparr>name := Text (basePath os @ to_text (name f))\<rparr>) files"
  by (simp add: prefix_basePath_def)

lemma prefix_basePath_empty: "basePath os = [] \<Longrightarrow> prefix_basePath os files = files"
  by (simp add: prefix_basePath_def)

lemma prefix_basePath_text:
  "basePath os \<noteq> [] \<or> (\<forall>f \<in> set files. is_text (name f))
     \<Longrightarrow> prefix_basePath os files
           = map (\<lambda>f. f\<lparr>name := Text (basePath os @ to_text (name f))\<rparr>) files"
  by (cases "basePath os = []")
     (auto simp: prefix_basePath_def is_text_to_text [symmetric] intro!: map_idI [symmetric])

lemma prefix_publicPath_map:
  "prefix_publicPath pp files
     = map (\<lambda>f. f\<lparr>path := (case pp of None \<Rightarrow> [] | Some p \<Rightarrow> p) @ path f\<rparr>) files"
  by (simp add: prefix_publicPath_def truthy_name_def split: option.splits)

lemma normalize_text:
  assumes "basePath os \<noteq> [] \<or> (\<forall>f \<in> set files. is_text (name f))"
  shows "normalize os pp files
     = Inr (map (\<lambda>f. f\<lparr>name := Text (replace_backslashes (basePath os @ to_text (name f))),
                     path := replace_backslashes
                               ((case pp of None \<Rightarrow> [] | Some p \<Rightarrow> p) @ path f)\<rparr>) files)"
proof -
  have "\<forall>f \<in> set (prefix_publicPath pp (prefix_basePath os files)). is_text (name f)"
    unfolding prefix_basePath_text [OF assms] prefix_publicPath_map by simp
  from canonicalize_text [OF this] show ?thesis
    unfolding normalize_def prefix_basePath_text [OF assms] prefix_publicPath_map
    by (simp add: comp_def to_text_def)
qed

lemma normalize_other:
  assumes "basePath os = []" and "\<not> (\<forall>f \<in> set files. is_text (name f))"
  shows "normalize os pp files = Inl TypeError"
proof -
  have "\<not> (\<forall>f \<in> set (prefix_publicPath pp (prefix_basePath os files)). is_text (name f))"
    using assms by (simp add: prefix_basePath_empty prefix_publicPath_map)
  then show ?thesis
    unfolding normalize_def by (rule canonicalize_other)
qed

lemma normalize_cases:
  "normalize os pp files
     = (if basePath os \<noteq> [] \<or> (\<forall>f \<in> set files. is_text (name f))
        then Inr (map (\<lambda>f. f\<lparr>name := Text (replace_backslashes (basePath os @ to_text (name f))),
                           path := replace_backslashes
                                     ((case pp of None \<Rightarrow> [] | Some p \<Rightarrow> p) @ path f)\<rparr>)
                   files)
        else Inl TypeError)"
  using normalize_text [of os files pp] normalize_other [of os files pp] by auto

text \<open>
  C5. Normalisation maps one function over the descriptor list, so it keeps the order
  and the length and touches only names and paths. A non-empty base path is prepended
  to every name (a name that is not a string is converted to one) and leaves every path
  as it was; a declared (non-empty) public path is prepended to every path and leaves
  every name as it was; after both, every backslash of every name and path becomes a
  forward slash, whatever the options, so a backslash brought in by a prefix is
  replaced as well. The replacement is a string method: when a name still is not a
  string at that point, which needs an empty base path, the handler throws.
\<close>

theorem normalize_descriptors:
  "normalize os pp files = canonicalize (prefix_publicPath pp (prefix_basePath os files))
   \<and> (basePath os \<noteq> []
        \<longrightarrow> prefix_basePath os files
              = map (\<lambda>f. f\<lparr>name := Text (basePath os @ to_text (name f))\<rparr>) files)
   \<and> (basePath os = [] \<longrightarrow> prefix_basePath os files = files)
   \<and> map path (prefix_basePath os files) = map path files
   \<and> (pp = Some p \<and> p \<noteq> []
        \<longrightarrow> prefix_publicPath pp files = map (\<lambda>f. f\<lparr>path := p @ path f\<rparr>) files)
   \<and> (pp = None \<or> pp = Some [] \<longrightarrow> prefix_publicPath pp files = files)
   \<and> map name (prefix_publicPath pp files) = map name files
   \<and> ((\<forall>f \<in> set files. is_text (name f))
        \<longrightarrow> canonicalize files
              = Inr (map (\<lambda>f. f\<lparr>name := Text (replace_backslashes (to_text (name f))),
                              path := replace_backslashes (path f)\<rparr>) files))
   \<and> (\<not> (\<forall>f \<in> set files. is_text (name f)) \<longrightarrow> canonicalize files = Inl TypeError)
   \<and> (basePath os \<noteq> [] \<or> (\<forall>f \<in> set files. is_text (name f))
        \<longrightarrow> normalize os pp files
              = Inr (map (\<lambda>f. f\<lparr>name := Text (replace_backslashes
                                                (basePath os @ to_text (name f))),
                              path := replace_backslashes
                                        ((case pp of None \<Rightarrow> [] | Some p \<Rightarrow> p) @ path f)\<rparr>)
                       files))
   \<and> (basePath os = [] \<and> \<not> (\<forall>f \<in> set files. is_text (name f))
        \<longrightarrow> normalize os pp files = Inl TypeError)
   \<and> (\<forall>fs. normalize os pp files = Inr fs
        \<longrightarrow> length fs = length files
          \<and> (\<forall>f \<in> set fs. is_text (name f) \<and> CHR 0x5C \<notin> set (to_text (name f))
                           \<and> CHR 0x5C \<notin> set (path f)))"
proof -
  have a: "normalize os pp files = canonicalize (prefix_publicPath pp (prefix_basePath os files))"
    by (simp add: normalize_def)
  have b: "basePath os \<noteq> []
        \<longrightarrow> prefix_basePath os files
              = map (\<lambda>f. f\<lparr>name := Text (basePath os @ to_text (name f))\<rparr>) files"
    by (simp add: prefix_basePath_def)
  have c: "basePath os = [] \<longrightarrow> prefix_basePath os files = files"
    by (simp add: prefix_basePath_def)
  have d: "map path (prefix_basePath os files) = map path files"
    by (simp add: prefix_basePath_def comp_def)
  have e: "pp = Some p \<and> p \<noteq> []
        \<longrightarrow> prefix_publicPath pp files = map (\<lambda>f. f\<lparr>path := p @ path f\<rparr>) files"
    by (simp add: prefix_publicPath_def truthy_name_def)
  have f: "pp = None \<or> pp = Some [] \<longrightarrow> prefix_publicPath pp files = files"
    by (auto simp: prefix_publicPath_def truthy_name_def)
  have g: "map name (prefix_publicPath pp files) = map name files"
    by (simp add: prefix_publicPath_map comp_def)
  have h: "(\<forall>f \<in> set files. is_text (name f))
        \<longrightarrow> canonicalize files
              = Inr (map (\<lambda>f. f\<lparr>name := Text (replace_backslashes (to_text (name f))),
                              path := replace_backslashes (path f)\<rparr>) files)"
    using canonicalize_text [of files] by blast
  have i: "\<not> (\<forall>f \<in> set files. is_text (name f)) \<longrightarrow> canonicalize files = Inl TypeError"
    using canonicalize_other [of files] by blast
  have j: "basePath os \<noteq> [] \<or> (\<forall>f \<in> set files. is_text (name f))
        \<longrightarrow> normalize os pp files
              = Inr (map (\<lambda>f. f\<lparr>name := Text (replace_backslashes
                                                (basePath os @ to_text (name f))),
                              path := replace_backslashes
                                        ((case pp of None \<Rightarrow> [] | Some p \<Rightarrow> p) @ path f)\<rparr>)
                       files)"
    using normalize_text [of os files pp] by blast
  have k: "basePath os = [] \<and> \<not> (\<forall>f \<in> set files. is_text (name f))
        \<longrightarrow> normalize os pp files = Inl TypeError"
    using normalize_other [of os files pp] by blast
  have l: "\<forall>fs. normalize os pp files = Inr fs
        \<longrightarrow> length fs = length files
          \<and> (\<forall>f \<in> set fs. is_text (name f) \<and> CHR 0x5C \<notin> set (to_text (name f))
                           \<and> CHR 0x5C \<notin> set (path f))"
    by (auto simp: normalize_cases to_text_def replace_backslashes_none split: if_splits)
  show ?thesis
    using a b c d e f g h i j k l by blast
qed

lemma to_text_constructor:
  "to_text (Inherited ''constructor'') = ''function Object() { [native code] }''"
  by (simp add: to_text_def)

theorem normalize_descriptors_witness:
  "basePath windows_opts \<noteq> []
   \<and> basePath (ManifestPlugin no_text) = []
   \<and> is_text (name windows_file)
   \<and> \<not> is_text (name constructor_file)
   \<and> map name (prefix_basePath windows_opts [windows_file])
        = [Text (''static'' @ [CHR 0x5C] @ ''img'' @ [CHR 0x5C] @ ''a.png'')]
   \<and> map path (prefix_publicPath (Some ''/cdn/'') [windows_file])
        = [''/cdn/img'' @ [CHR 0x5C] @ ''a.png'']
   \<and> normalize windows_opts (Some ''/cdn/'') [windows_file, constructor_file]
        = Inr [windows_file\<lparr>name := Text ''static/img/a.png'', path := ''/cdn/img/a.png''\<rparr>,
               constructor_file\<lparr>name := Text ''static/function Object() { [native code] }'',
                                 path := ''/cdn/constructor''\<rparr>]
   \<and> normalize (ManifestPlugin no_text) None [windows_file]
        = Inr [windows_file\<lparr>name := Text ''img/a.png'', path := ''img/a.png''\<rparr>]
   \<and> normalize (ManifestPlugin no_text) None [windows_file, constructor_file] = Inl TypeError"
proof -
  have a: "basePath windows_opts \<noteq> []"
    by (simp add: windows_opts_def)
  have b: "basePath windows_opts = ''static'' @ [CHR 0x5C]"
    by (simp add: windows_opts_def)
  have b0: "basePath (ManifestPlugin no_text) = []"
    by (simp add: ManifestPlugin_def)
  have w: "name windows_file = Text (''img'' @ [CHR 0x5C] @ ''a.png'')"
    "path windows_file = ''img'' @ [CHR 0x5C] @ ''a.png''"
    by (simp_all add: windows_file_def)
  have k: "name constructor_file = Inherited ''constructor''" "path constructor_file = ''constructor''"
    by (simp_all add: constructor_file_def)
  have tw: "is_text (name windows_file)" and tk: "\<not> is_text (name constructor_file)"
    by (simp_all add: w k)
  note t = normalize_descriptors [of windows_opts "Some ''/cdn/''" "[windows_file]" "''/cdn/''"]
  note u = normalize_descriptors [of windows_opts "Some ''/cdn/''" "[windows_file, constructor_file]"]
  note v = normalize_descriptors [of "ManifestPlugin no_text" None "[windows_file]"]
  note x = normalize_descriptors [of "ManifestPlugin no_text" None "[windows_file, constructor_file]"]
  from t a have "prefix_basePath windows_opts [windows_file]
      = map (\<lambda>f. f\<lparr>name := Text (basePath windows_opts @ to_text (name f))\<rparr>) [windows_file]"
    by blast
  then have n1: "map name (prefix_basePath windows_opts [windows_file])
        = [Text (''static'' @ [CHR 0x5C] @ ''img'' @ [CHR 0x5C] @ ''a.png'')]"
    by (simp add: b w to_text_def)
  from t have "prefix_publicPath (Some ''/cdn/'') [windows_file]
      = map (\<lambda>f. f\<lparr>path := ''/cdn/'' @ path f\<rparr>) [windows_file]"
    by blast
  then have n2: "map path (prefix_publicPath (Some ''/cdn/'') [windows_file])
        = [''/cdn/img'' @ [CHR 0x5C] @ ''a.png'']"
    by (simp add: w)
  from u a have "normalize windows_opts (Some ''/cdn/'') [windows_file, constructor_file]
      = Inr (map (\<lambda>f. f\<lparr>name := Text (replace_backslashes
                                        (basePath windows_opts @ to_text (name f))),
                        path := replace_backslashes
                                  ((case Some ''/cdn/'' of None \<Rightarrow> [] | Some p \<Rightarrow> p) @ path f)\<rparr>)
               [windows_file, constructor_file])"
    by blast
  then have n3: "normalize windows_opts (Some ''/cdn/'') [windows_file, constructor_file]
        = Inr [windows_file\<lparr>name := Text ''static/img/a.png'', path := ''/cdn/img/a.png''\<rparr>,
               constructor_file\<lparr>name := Text ''static/function Object() { [native code] }'',
                                 path := ''/cdn/constructor''\<rparr>]"
    by (simp add: b w k to_text_def replace_backslashes_def)
  have "\<forall>f \<in> set [windows_file]. is_text (name f)"
    by (simp add: tw)
  with v have "normalize (ManifestPlugin no_text) None [windows_file]
      = Inr (map (\<lambda>f. f\<lparr>name := Text (replace_backslashes
                                        (basePath (ManifestPlugin no_text) @ to_text (name f))),
                        path := replace_backslashes
                                  ((case None of None \<Rightarrow> [] | Some p \<Rightarrow> p) @ path f)\<rparr>)
               [windows_file])"
    by blast
  then have n4: "normalize (ManifestPlugin no_text) None [windows_file]
        = Inr [windows_file\<lparr>name := Text ''img/a.png'', path := ''img/a.png''\<rparr>]"
    by (simp add: b0 w to_text_def replace_backslashes_def)
  have "\<not> (\<forall>f \<in> set [windows_file, constructor_file]. is_text (name f))"
    by (simp add: tk)
  with x b0 have n5: "normalize (ManifestPlugin no_text) None [windows_file, constructor_file]
      = Inl TypeError"
    by blast
  show ?thesis
    using a b0 tw tk n1 n2 n3 n4 n5 by blast
qed

section \<open>Hot updates\<close>

lemma str_includes_sublist: "str_includes s sub = sublist sub s"
  by (induction s) (simp_all add: sublist_Cons_right)

lemma set_insort_cmp: "set (insort_cmp cmp x ys) = insert x (set ys)"
  by (induction ys) auto

lemma set_sort_cmp: "set (sort_cmp cmp xs) = set xs"
  unfolding sort_cmp_def by (induction xs) (simp_all add: set_insort_cmp)

lemma length_insort_cmp: "length (insort_cmp cmp x ys) = Suc (length ys)"
  by (induction ys) auto

lemma length_sort_cmp: "length (sort_cmp cmp xs) = length xs"
  unfolding sort_cmp_def by (induction xs) (simp_all add: length_insort_cmp)

lemma set_pipeline:
  "set (pipeline os files)
     = (case map_opt os of None \<Rightarrow> id | Some g \<Rightarrow> g)
         ` {f \<in> set files. case filter_opt os of None \<Rightarrow> True | Some p \<Rightarrow> p f}"
  by (auto simp: pipeline_def Let_def set_sort_cmp split: option.splits)

lemma pipeline_plain:
  "filter_opt os = None \<Longrightarrow> map_opt os = None \<Longrightarrow> sort_opt os = None
     \<Longrightarrow> pipeline os files = files"
  by (simp add: pipeline_def)

lemma drop_hot_updates_remove:
  "str_includes (path d) ''hot-update''
     \<Longrightarrow> drop_hot_updates (xs @ d # ys) = drop_hot_updates (xs @ ys)"
  by (simp add: drop_hot_updates_def)

lemma process_remove:
  "str_includes (path d) ''hot-update''
     \<Longrightarrow> process os pp (xs @ d # ys) = process os pp (xs @ ys)"
  by (simp add: process_def drop_hot_updates_remove)

lemma post_pipeline_eq:
  "post_pipeline cl build h
     = (process (closure_opts cl) (publicPath build) (fst (collect cl build h)),
        snd (collect cl build h))"
  by (simp add: post_pipeline_def case_prod_beta)

lemma post_pipeline_objs:
  "objs (snd (post_pipeline cl build h)) = objs h"
  "next_ref (snd (post_pipeline cl build h)) = next_ref h"
  by (simp_all add: post_pipeline_eq collect_objs)

lemma set_process:
  assumes "process os pp collected = Inr fs" and "f \<in> set fs"
  shows "\<exists>d \<in> set collected. \<not> str_includes (path d) ''hot-update''
           \<and> f = (case map_opt os of None \<Rightarrow> id | Some g \<Rightarrow> g)
                   (d\<lparr>name := Text (replace_backslashes (basePath os @ to_text (name d))),
                      path := replace_backslashes
                                ((case pp of None \<Rightarrow> [] | Some p \<Rightarrow> p) @ path d)\<rparr>)"
proof -
  from assms(1) obtain ns where n: "normalize os pp (drop_hot_updates collected) = Inr ns"
    and fs: "fs = pipeline os ns"
    by (auto simp: process_def split: sum.splits)
  from n have ns: "ns = map (\<lambda>f. f\<lparr>name := Text (replace_backslashes (basePath os @ to_text (name f))),
                           path := replace_backslashes
                                     ((case pp of None \<Rightarrow> [] | Some p \<Rightarrow> p) @ path f)\<rparr>)
                   (drop_hot_updates collected)"
    by (simp add: normalize_cases split: if_splits)
  from assms(2) fs obtain g where "g \<in> set ns"
    and f: "f = (case map_opt os of None \<Rightarrow> id | Some g \<Rightarrow> g) g"
    by (auto simp: set_pipeline)
  with ns obtain d where "d \<in> set (drop_hot_updates collected)"
    and "g = d\<lparr>name := Text (replace_backslashes (basePath os @ to_text (name d))),
                path := replace_backslashes
                          ((case pp of None \<Rightarrow> [] | Some p \<Rightarrow> p) @ path d)\<rparr>"
    by auto
  with f show ?thesis
    by (auto simp: drop_hot_updates_def)
qed

lemma hot_file_includes: "sublist ''hot-update'' (path hot_file)"
  unfolding str_includes_sublist [symmetric]
  by (simp add: hot_file_def)

text \<open>
  C4. The descriptors whose path contains \<open>hot-update\<close> are removed from the collected
  list before normalisation and before the filter, map and sort options run. Every
  descriptor that reaches the generator is the image, under normalisation and the map
  option, of a collected descriptor whose path does not contain the marker; and a
  collected hot-update descriptor changes neither the descriptors that reach the
  generator nor what the generator and the serializer make of them, whatever the
  options are.
\<close>

theorem hot_updates_dropped:
  "post_pipeline cl build h
     = ((case normalize (closure_opts cl) (publicPath build)
                (drop_hot_updates (fst (collect cl build h))) of
           Inl e \<Rightarrow> Inl e
         | Inr files \<Rightarrow> Inr (pipeline (closure_opts cl) files)),
        snd (collect cl build h))
   \<and> (\<forall>f \<in> set (drop_hot_updates collected). \<not> sublist ''hot-update'' (path f))
   \<and> (\<forall>fs. process os pp collected = Inr fs
        \<longrightarrow> (\<forall>f \<in> set fs.
               \<exists>d \<in> set collected. \<not> sublist ''hot-update'' (path d)
                 \<and> f = (case map_opt os of None \<Rightarrow> id | Some g \<Rightarrow> g)
                         (d\<lparr>name := Text (replace_backslashes (basePath os @ to_text (name d))),
                            path := replace_backslashes
                                      ((case pp of None \<Rightarrow> [] | Some p \<Rightarrow> p) @ path d)\<rparr>)))
   \<and> (sublist ''hot-update'' (path d)
        \<longrightarrow> process os pp (xs @ d # ys) = process os pp (xs @ ys)
          \<and> generate_and_serialize cl' (process os pp (xs @ d # ys), h')
              = generate_and_serialize cl' (process os pp (xs @ ys), h'))"
proof -
  have a: "post_pipeline cl build h
     = ((case normalize (closure_opts cl) (publicPath build)
                (drop_hot_updates (fst (collect cl build h))) of
           Inl e \<Rightarrow> Inl e
         | Inr files \<Rightarrow> Inr (pipeline (closure_opts cl) files)),
        snd (collect cl build h))"
    by (simp add: post_pipeline_eq process_def)
  have b: "\<forall>f \<in> set (drop_hot_updates collected). \<not> sublist ''hot-update'' (path f)"
    by (simp add: drop_hot_updates_def str_includes_sublist)
  have c: "\<forall>fs. process os pp collected = Inr fs
        \<longrightarrow> (\<forall>f \<in> set fs.
               \<exists>d \<in> set collected. \<not> sublist ''hot-update'' (path d)
                 \<and> f = (case map_opt os of None \<Rightarrow> id | Some g \<Rightarrow> g)
                         (d\<lparr>name := Text (replace_backslashes (basePath os @ to_text (name d))),
                            path := replace_backslashes
                                      ((case pp of None \<Rightarrow> [] | Some p \<Rightarrow> p) @ path d)\<rparr>))"
    using set_process [of os pp collected] by (simp add: str_includes_sublist)
  have d: "sublist ''hot-update'' (path d)
        \<longrightarrow> process os pp (xs @ d # ys) = process os pp (xs @ ys)
          \<and> generate_and_serialize cl' (process os pp (xs @ d # ys), h')
              = generate_and_serialize cl' (process os pp (xs @ ys), h')"
    by (simp add: process_remove str_includes_sublist)
  show ?thesis
    using a b c d by blast
qed

theorem hot_updates_dropped_witness:
  "sublist ''hot-update'' (path hot_file)
   \<and> process renaming_opts None ([main_file] @ hot_file # [])
       = process renaming_opts None ([main_file] @ [])
   \<and> process renaming_opts None ([main_file] @ hot_file # [])
       = Inr [main_file\<lparr>name := Text ''x/main.js''\<rparr>]
   \<and> main_file \<in> set [main_file, hot_file]
   \<and> \<not> sublist ''hot-update'' (path main_file)"
proof -
  note t = hot_updates_dropped [of _ _ _ "[main_file, hot_file]" renaming_opts None hot_file
      "[main_file]" "[]"]
  from t hot_file_includes
  have e: "process renaming_opts None ([main_file] @ hot_file # [])
       = process renaming_opts None ([main_file] @ [])"
    by blast
  have v: "process renaming_opts None ([main_file] @ []) = Inr [main_file\<lparr>name := Text ''x/main.js''\<rparr>]"
    by (simp add: process_def drop_hot_updates_def normalize_cases pipeline_def renaming_opts_def
        ManifestPlugin_def main_file_def replace_backslashes_def to_text_def)
  have r: "process renaming_opts None ([main_file] @ hot_file # [])
       = Inr [main_file\<lparr>name := Text ''x/main.js''\<rparr>]"
    using e v by (rule trans)
  have n: "\<not> sublist ''hot-update'' (path main_file)"
    unfolding str_includes_sublist [symmetric] by (simp add: main_file_def)
  show ?thesis
    using e r n hot_file_includes by simp
qed

section \<open>The generator\<close>

lemma emit_error:
  "post_pipeline cl build h = (Inl e, h1) \<Longrightarrow> emit cl build h = (Inl e, h1)"
  by (simp add: emit_def generate_and_serialize_def)

lemma emit_files:
  "post_pipeline cl build h = (Inr files, h1)
     \<Longrightarrow> emit cl build h
           = (Inr \<lparr> manifest = fst (generate_manifest (closure_opts cl) h1 (closure_seed cl) files),
                    output_text =
                      serialize (closure_opts cl)
                        (snd (generate_manifest (closure_opts cl) h1 (closure_seed cl) files))
                        (fst (generate_manifest (closure_opts cl) h1 (closure_seed cl) files)),
                    final_files = files \<rparr>,
              snd (generate_manifest (closure_opts cl) h1 (closure_seed cl) files))"
  by (simp add: emit_def generate_and_serialize_def case_prod_beta Let_def)

lemma emit_cases:
  "emit cl build h
     = (case fst (post_pipeline cl build h) of
          Inl e \<Rightarrow> (Inl e, snd (post_pipeline cl build h))
        | Inr files \<Rightarrow>
            (Inr \<lparr> manifest = fst (generate_manifest (closure_opts cl)
                                     (snd (post_pipeline cl build h)) (closure_seed cl) files),
                   output_text =
                     serialize (closure_opts cl)
                       (snd (generate_manifest (closure_opts cl)
                               (snd (post_pipeline cl build h)) (closure_seed cl) files))
                       (fst (generate_manifest (closure_opts cl)
                               (snd (post_pipeline cl build h)) (closure_seed cl) files)),
                   final_files = files \<rparr>,
             snd (generate_manifest (closure_opts cl)
                    (snd (post_pipeline cl build h)) (closure_seed cl) files)))"
  by (cases "post_pipeline cl build h"; cases "fst (post_pipeline cl build h)")
     (simp_all add: emit_error emit_files)

subsection \<open>When the handler returns\<close>

lemma inherited_not_hot:
  "k \<in> set object_prototype_members \<Longrightarrow> \<not> str_includes k ''hot-update''"
  by (auto simp: object_prototype_members_def)

lemma asset_step_names:
  "(\<forall>d \<in> set (asset_step ma [] a). is_text (name d))
     \<longleftrightarrow> (ma (asset_name a) = None \<longrightarrow> asset_name a \<notin> set object_prototype_members)"
  by (auto simp: asset_step_eq split: option.splits)

lemma asset_step_inherited:
  assumes "ma (asset_name a) = None" and "asset_name a \<in> set object_prototype_members"
  shows "asset_step ma [] a
           = [\<lparr> path = asset_name a, chunk = None, name = Inherited (asset_name a),
                 isInitial = False, isChunk = False, isAsset = True, isModuleAsset = True \<rparr>]"
  using assms by (simp add: asset_step_eq)

lemma collect_names:
  "(\<forall>d \<in> set (drop_hot_updates (fst (collect cl build h))). is_text (name d))
     \<longleftrightarrow> (\<forall>a \<in> set (stats_assets build).
            moduleAssets cl (asset_name a) = None
              \<longrightarrow> asset_name a \<notin> set object_prototype_members)"
proof
  assume l: "\<forall>d \<in> set (drop_hot_updates (fst (collect cl build h))). is_text (name d)"
  show "\<forall>a \<in> set (stats_assets build).
          moduleAssets cl (asset_name a) = None
            \<longrightarrow> asset_name a \<notin> set object_prototype_members"
  proof (intro ballI impI notI)
    fix a
    assume a: "a \<in> set (stats_assets build)" and n: "moduleAssets cl (asset_name a) = None"
      and m: "asset_name a \<in> set object_prototype_members"
    define d where
      "d = \<lparr> path = asset_name a, chunk = None, name = Inherited (asset_name a),
             isInitial = False, isChunk = False, isAsset = True, isModuleAsset = True \<rparr>"
    have "d \<in> set (asset_step (moduleAssets cl) [] a)"
      unfolding asset_step_inherited [of "moduleAssets cl" a, OF n m] d_def by simp
    with a have "d \<in> set (fst (collect cl build h))"
      by (auto simp: collect_eq)
    moreover have "\<not> str_includes (path d) ''hot-update''"
      using inherited_not_hot [OF m] by (simp add: d_def)
    ultimately have "d \<in> set (drop_hot_updates (fst (collect cl build h)))"
      by (simp add: drop_hot_updates_def)
    with l have "is_text (name d)"
      by blast
    then show False
      by (simp add: d_def)
  qed
next
  assume r: "\<forall>a \<in> set (stats_assets build).
          moduleAssets cl (asset_name a) = None
            \<longrightarrow> asset_name a \<notin> set object_prototype_members"
  show "\<forall>d \<in> set (drop_hot_updates (fst (collect cl build h))). is_text (name d)"
  proof
    fix d
    assume "d \<in> set (drop_hot_updates (fst (collect cl build h)))"
    then have "d \<in> set (fst (collect cl build h))"
      by (simp add: drop_hot_updates_def)
    then consider "d \<in> set (fst (collect_chunks (closure_opts cl) (chunks build) h))"
      | a where "a \<in> set (stats_assets build)" "d \<in> set (asset_step (moduleAssets cl) [] a)"
      by (auto simp: collect_eq)
    then show "is_text (name d)"
    proof cases
      case 1
      then show ?thesis
        using collect_chunks_flags by blast
    next
      case 2
      from r 2(1) have "moduleAssets cl (asset_name a) = None
                          \<longrightarrow> asset_name a \<notin> set object_prototype_members"
        by blast
      then have "\<forall>d \<in> set (asset_step (moduleAssets cl) [] a). is_text (name d)"
        unfolding asset_step_names .
      with 2(2) show ?thesis
        by blast
    qed
  qed
qed

lemma post_pipeline_returns:
  "(\<exists>files. fst (post_pipeline cl build h) = Inr files)
     \<longleftrightarrow> (basePath (closure_opts cl) \<noteq> []
          \<or> (\<forall>a \<in> set (stats_assets build).
                moduleAssets cl (asset_name a) = None
                  \<longrightarrow> asset_name a \<notin> set object_prototype_members))"
  unfolding collect_names [of cl build h, symmetric]
  by (simp add: post_pipeline_eq process_def normalize_cases)

lemma emit_returns:
  "(\<exists>res. fst (emit cl build h) = Inr res)
     \<longleftrightarrow> (basePath (closure_opts cl) \<noteq> []
          \<or> (\<forall>a \<in> set (stats_assets build).
                moduleAssets cl (asset_name a) = None
                  \<longrightarrow> asset_name a \<notin> set object_prototype_members))"
  unfolding post_pipeline_returns [of cl build h, symmetric]
  by (cases "fst (post_pipeline cl build h)") (simp_all add: emit_cases)

lemma error_is_TypeError: "e = TypeError"
  by (cases e)

text \<open>
  C8. A configured \<open>generate\<close> function is called with the seed and the post-pipeline
  descriptors, and what it returns is the manifest: it is the value handed to the
  serializer, unchanged. When the handler throws before that point there is no
  manifest and the generator is not called; it throws exactly when the base path is
  empty and some asset that is not registered is named like a member of
  \<^verbatim>\<open>Object.prototype\<close>. A generator that ignores its arguments and returns a constant
  makes the manifest that constant for every other build, whatever it contains.
\<close>

theorem custom_generate:
  "(generate os = Some g \<longrightarrow> generate_manifest os h sd files = g h sd files)
   \<and> (generate (closure_opts cl) = Some g \<and> post_pipeline cl build h = (Inr files, h1)
      \<longrightarrow> emit cl build h
            = (Inr \<lparr> manifest = fst (g h1 (closure_seed cl) files),
                     output_text = serialize (closure_opts cl)
                                     (snd (g h1 (closure_seed cl) files))
                                     (fst (g h1 (closure_seed cl) files)),
                     final_files = files \<rparr>,
               snd (g h1 (closure_seed cl) files)))
   \<and> (post_pipeline cl build h = (Inl e, h1) \<longrightarrow> emit cl build h = (Inl e, h1))
   \<and> (generate (closure_opts cl) = Some (\<lambda>h' sd files. (c, h'))
        \<and> fst (emit cl build h) = Inr res
      \<longrightarrow> manifest res = c
        \<and> output_text res = serialize (closure_opts cl) (snd (emit cl build h)) c
        \<and> snd (emit cl build h) = snd (post_pipeline cl build h))
   \<and> ((\<exists>res. fst (emit cl build h) = Inr res)
        \<longleftrightarrow> (basePath (closure_opts cl) \<noteq> []
         \<or> (\<forall>a \<in> set (stats_assets build).
               moduleAssets cl (asset_name a) = None
                 \<longrightarrow> asset_name a \<notin> set object_prototype_members)))
   \<and> (generate (closure_opts cl) = Some (\<lambda>h' sd files. (c, h'))
        \<and> (basePath (closure_opts cl) \<noteq> []
         \<or> (\<forall>a \<in> set (stats_assets build).
               moduleAssets cl (asset_name a) = None
                 \<longrightarrow> asset_name a \<notin> set object_prototype_members))
      \<longrightarrow> (\<exists>res. emit cl build h = (Inr res, snd (post_pipeline cl build h))
                 \<and> manifest res = c))"
proof -
  have a: "generate os = Some g \<longrightarrow> generate_manifest os h sd files = g h sd files"
    by (simp add: generate_manifest_def)
  have b: "generate (closure_opts cl) = Some g \<and> post_pipeline cl build h = (Inr files, h1)
      \<longrightarrow> emit cl build h
            = (Inr \<lparr> manifest = fst (g h1 (closure_seed cl) files),
                     output_text = serialize (closure_opts cl)
                                     (snd (g h1 (closure_seed cl) files))
                                     (fst (g h1 (closure_seed cl) files)),
                     final_files = files \<rparr>,
               snd (g h1 (closure_seed cl) files))"
    by (simp add: emit_files generate_manifest_def)
  have c: "post_pipeline cl build h = (Inl e, h1) \<longrightarrow> emit cl build h = (Inl e, h1)"
    by (simp add: emit_error)
  have d: "generate (closure_opts cl) = Some (\<lambda>h' sd files. (c, h'))
        \<and> fst (emit cl build h) = Inr res
      \<longrightarrow> manifest res = c
        \<and> output_text res = serialize (closure_opts cl) (snd (emit cl build h)) c
        \<and> snd (emit cl build h) = snd (post_pipeline cl build h)"
    by (auto simp: emit_cases generate_manifest_def split: sum.splits)
  have e: "(\<exists>res. fst (emit cl build h) = Inr res)
        \<longleftrightarrow> (basePath (closure_opts cl) \<noteq> []
         \<or> (\<forall>a \<in> set (stats_assets build).
               moduleAssets cl (asset_name a) = None
                 \<longrightarrow> asset_name a \<notin> set object_prototype_members))"
    by (rule emit_returns)
  have f: "\<exists>res. emit cl build h = (Inr res, snd (post_pipeline cl build h))
                 \<and> manifest res = c"
    if g: "generate (closure_opts cl) = Some (\<lambda>h' sd files. (c, h'))"
      and r: "(basePath (closure_opts cl) \<noteq> []
         \<or> (\<forall>a \<in> set (stats_assets build).
               moduleAssets cl (asset_name a) = None
                 \<longrightarrow> asset_name a \<notin> set object_prototype_members))"
  proof -
    from r e obtain x where x: "fst (emit cl build h) = Inr x"
      by blast
    with g have "manifest x = c" "snd (emit cl build h) = snd (post_pipeline cl build h)"
      by (auto simp: emit_cases generate_manifest_def split: sum.splits)
    with x have "emit cl build h = (Inr x, snd (post_pipeline cl build h))" "manifest x = c"
      by (simp_all add: prod_eq_iff)
    then show ?thesis
      by blast
  qed
  show ?thesis
    using a b c d e f by blast
qed

subsection \<open>The example builds, evaluated\<close>

lemma post_pipeline_stateless:
  assumes "stateful (transformExtensions (closure_opts cl)) = None"
  shows "post_pipeline cl build h
     = (process (closure_opts cl) (publicPath build)
          (concat (map (\<lambda>c. concat (map (\<lambda>p. fst (chunk_file_step (closure_opts cl) c ([], h) p))
                                       (chunk_files c))) (chunks build))
           @ concat (map (asset_step (moduleAssets cl) []) (stats_assets build))),
        h)"
  by (simp add: post_pipeline_eq collect_eq collect_chunks_stateless [OF assms])

lemma getFileType_default_pattern:
  assumes "transformExtensions os = default_transformExtensions"
  shows "getFileType os h ''main.js'' = (''js'', h)"
    and "getFileType os h ''main.js.map'' = (''js.map'', h)"
    and "getFileType os h ''admin.js'' = (''js'', h)"
    and "getFileType os h ''home.js'' = (''js'', h)"
    and "getFileType os h ''main.hot-update.js'' = (''js'', h)"
  by (simp_all add: getFileType_def assms pop_def js_string_def regexp_test_def
      default_transformExtensions_def ascii_lower_def)

lemma default_pattern_stateless: "stateful default_transformExtensions = None"
  by (simp add: default_transformExtensions_def)

lemma apply_plugin_closure:
  "closure_opts (fst (apply_plugin os h)) = os"
  "moduleAssets (fst (apply_plugin os h)) = Map.empty"
  by (simp_all add: apply_plugin_def Let_def case_prod_beta)

lemma constant_closure_simps:
  "closure_opts constant_closure = constant_opts"
  "moduleAssets constant_closure = Map.empty"
  "generate constant_opts = Some (\<lambda>h sd files. (Str ''fixed'', h))"
  "transformExtensions constant_opts = default_transformExtensions"
  "basePath constant_opts = []"
  "filter_opt constant_opts = None" "map_opt constant_opts = None" "sort_opt constant_opts = None"
  "serialize constant_opts = no_text"
  by (simp_all add: constant_closure_def apply_plugin_closure constant_opts_def ManifestPlugin_def)

lemma constant_main_build:
  "post_pipeline constant_closure main_build constant_heap
     = (Inr [\<lparr> path = ''main.js'', chunk = Some main_chunk, name = Text ''main.js'',
                isInitial = True, isChunk = True, isAsset = False, isModuleAsset = False \<rparr>,
             \<lparr> path = ''main.js.map'', chunk = Some main_chunk, name = Text ''main.js.map'',
                isInitial = True, isChunk = True, isAsset = False, isModuleAsset = False \<rparr>],
        constant_heap)"
  by (simp add: post_pipeline_stateless constant_closure_simps default_pattern_stateless main_build_def chunk_file_step_eq
      getFileType_default_pattern asset_step_eq object_prototype_members_def process_def
      drop_hot_updates_def normalize_cases pipeline_def replace_backslashes_def to_text_def
      main_chunk_def)

lemma constant_empty_build:
  "post_pipeline constant_closure empty_build constant_heap = (Inr [], constant_heap)"
  by (simp add: post_pipeline_stateless constant_closure_simps default_pattern_stateless empty_build_def process_def
      drop_hot_updates_def normalize_cases pipeline_def)

lemma constant_constructor_build:
  "post_pipeline constant_closure constructor_build constant_heap = (Inl TypeError, constant_heap)"
  by (simp add: post_pipeline_stateless constant_closure_simps default_pattern_stateless constructor_build_def
      constructor_asset_def asset_step_eq object_prototype_members_def process_def
      drop_hot_updates_def normalize_cases)

theorem custom_generate_witness:
  "generate (closure_opts constant_closure) = Some (\<lambda>h' sd files. (Str ''fixed'', h'))
   \<and> map_sum id manifest (fst (emit constant_closure main_build constant_heap))
       = Inr (Str ''fixed'')
   \<and> map_sum id manifest (fst (emit constant_closure empty_build constant_heap))
       = Inr (Str ''fixed'')
   \<and> snd (emit constant_closure main_build constant_heap) = constant_heap
   \<and> emit constant_closure constructor_build constant_heap = (Inl TypeError, constant_heap)
   \<and> (\<exists>res. emit constant_closure main_build constant_heap
                 = (Inr res, snd (post_pipeline constant_closure main_build constant_heap))
             \<and> manifest res = Str ''fixed'')"
proof -
  have g: "generate (closure_opts constant_closure) = Some (\<lambda>h' sd files. (Str ''fixed'', h'))"
    by (simp add: constant_closure_simps)
  from custom_generate [where cl = constant_closure and build = main_build and h = constant_heap
      and ?h1.0 = constant_heap and g = "\<lambda>h' sd files. (Str ''fixed'', h')"]
    g constant_main_build
  have m: "map_sum id manifest (fst (emit constant_closure main_build constant_heap))
       = Inr (Str ''fixed'')"
    and mh: "snd (emit constant_closure main_build constant_heap) = constant_heap"
    by simp_all
  from custom_generate [where cl = constant_closure and build = empty_build and h = constant_heap
      and ?h1.0 = constant_heap and g = "\<lambda>h' sd files. (Str ''fixed'', h')"]
    g constant_empty_build
  have e: "map_sum id manifest (fst (emit constant_closure empty_build constant_heap))
       = Inr (Str ''fixed'')"
    by simp
  from custom_generate [where cl = constant_closure and build = constructor_build
      and h = constant_heap and ?h1.0 = constant_heap and e = TypeError]
    constant_constructor_build
  have k: "emit constant_closure constructor_build constant_heap = (Inl TypeError, constant_heap)"
    by blast
  have "\<forall>a \<in> set (stats_assets main_build).
          moduleAssets constant_closure (asset_name a) = None
            \<longrightarrow> asset_name a \<notin> set object_prototype_members"
    by (simp add: main_build_def object_prototype_members_def)
  with custom_generate [where cl = constant_closure and build = main_build and h = constant_heap
      and c = "Str ''fixed''"] g
  have r: "\<exists>res. emit constant_closure main_build constant_heap
                   = (Inr res, snd (post_pipeline constant_closure main_build constant_heap))
               \<and> manifest res = Str ''fixed''"
    by blast
  show ?thesis
    using g m e mh k r by blast
qed

section \<open>The default generator\<close>

lemma write_all_simps [simp]:
  "write_all m [] = m"
  "write_all m (f # fs) = write_all (write_entry m f) fs"
  by (simp_all add: write_all_def)

lemma write_all_append: "write_all m (xs @ ys) = write_all (write_all m xs) ys"
  by (simp add: write_all_def)

lemma write_entry_other: "k \<noteq> to_text (name f) \<Longrightarrow> write_entry m f k = m k"
  by (simp add: write_entry_def)

lemma write_all_other: "k \<notin> (\<lambda>f. to_text (name f)) ` set fs \<Longrightarrow> write_all m fs k = m k"
  by (induction fs arbitrary: m) (auto simp: write_entry_other)

lemma write_all_last:
  "to_text (name f) \<notin> (\<lambda>f. to_text (name f)) ` set ys \<Longrightarrow> to_text (name f) \<noteq> ''__proto__''
     \<Longrightarrow> write_all m (xs @ f # ys) (to_text (name f)) = Some (Str (path f))"
  by (simp add: write_all_append write_all_other write_entry_def)

lemma dom_write_entry: "dom m \<subseteq> dom (write_entry m f)"
  by (auto simp: write_entry_def)

lemma dom_write_all_mono: "dom m \<subseteq> dom (write_all m fs)"
proof (induction fs arbitrary: m)
  case Nil
  show ?case by simp
next
  case (Cons f fs)
  from dom_write_entry [of m f] Cons.IH [of "write_entry m f"] show ?case
    by auto
qed

lemma dom_write_all:
  "dom (write_all m fs) = dom m \<union> ((\<lambda>f. to_text (name f)) ` set fs - {''__proto__''})"
  by (induction fs arbitrary: m) (auto simp: write_entry_def)

lemma write_all_distinct:
  assumes "distinct (map (\<lambda>f. to_text (name f)) fs)" and "f \<in> set fs"
    and "to_text (name f) \<noteq> ''__proto__''"
  shows "write_all m fs (to_text (name f)) = Some (Str (path f))"
proof -
  from assms(2) obtain xs ys where fs: "fs = xs @ f # ys"
    by (auto simp: in_set_conv_decomp)
  with assms(1) have "to_text (name f) \<notin> (\<lambda>f. to_text (name f)) ` set ys"
    by auto
  then show ?thesis
    unfolding fs using assms(3) by (rule write_all_last)
qed

lemma default_generate_fst: "fst (default_generate h sd files) = sd"
  unfolding default_generate_def
  by (induction files arbitrary: h) (simp_all add: case_prod_beta)

lemma default_generate_snd:
  "snd (default_generate h sd files)
     = foldl (\<lambda>h' f. set_property h' sd (to_text (name f)) (path f)) h files"
  unfolding default_generate_def
  by (induction files arbitrary: h) simp_all

lemma set_property_Object:
  "set_property h (Object r) (to_text (name f)) (path f)
     = h\<lparr>objs := (objs h)(r := write_entry (objs h r) f)\<rparr>"
  by (simp add: write_entry_def)

lemma foldl_write_entry:
  "foldl (\<lambda>h' f. h'\<lparr>objs := (objs h')(r := write_entry (objs h' r) f)\<rparr>) h files
     = h\<lparr>objs := (objs h)(r := write_all (objs h r) files)\<rparr>"
  by (induction files arbitrary: h) simp_all

lemma foldl_set_property_Object:
  "foldl (\<lambda>h' f. set_property h' (Object r) (to_text (name f)) (path f)) h files
     = h\<lparr>objs := (objs h)(r := write_all (objs h r) files)\<rparr>"
  unfolding set_property_Object by (rule foldl_write_entry)

lemma foldl_set_property_primitive:
  "\<forall>r. sd \<noteq> Object r
     \<Longrightarrow> foldl (\<lambda>h' f. set_property h' sd (to_text (name f)) (path f)) h files = h"
  by (induction files) (cases sd; simp)+

lemma emit_default:
  assumes "generate (closure_opts cl) = None"
    and "post_pipeline cl build h = (Inr files, h1)"
  shows "emit cl build h
     = (Inr \<lparr> manifest = closure_seed cl,
              output_text =
                serialize (closure_opts cl)
                  (foldl (\<lambda>h' f. set_property h' (closure_seed cl) (to_text (name f)) (path f))
                     h1 files)
                  (closure_seed cl),
              final_files = files \<rparr>,
        foldl (\<lambda>h' f. set_property h' (closure_seed cl) (to_text (name f)) (path f)) h1 files)"
  using assms
  by (simp add: emit_files generate_manifest_def default_generate_fst default_generate_snd)

lemma emit_default_objs:
  assumes "generate (closure_opts cl) = None" and "closure_seed cl = Object r"
  shows "objs (snd (emit cl build h))
     = (objs h)(r := write_all (objs h r)
                       (case fst (post_pipeline cl build h) of Inl e \<Rightarrow> [] | Inr files \<Rightarrow> files))"
proof (cases "fst (post_pipeline cl build h)")
  case (Inl e)
  then have "post_pipeline cl build h = (Inl e, snd (post_pipeline cl build h))"
    by (metis prod.collapse)
  from emit_error [OF this] Inl show ?thesis
    by (simp add: post_pipeline_objs)
next
  case (Inr files)
  then have "post_pipeline cl build h = (Inr files, snd (post_pipeline cl build h))"
    by (metis prod.collapse)
  from emit_default [OF assms(1) this]
  have "snd (emit cl build h)
      = foldl (\<lambda>h' f. set_property h' (Object r) (to_text (name f)) (path f))
          (snd (post_pipeline cl build h)) files"
    unfolding assms(2) by simp
  then show ?thesis
    unfolding foldl_set_property_Object by (simp add: Inr post_pipeline_objs)
qed

lemma emit_all_shared:
  assumes "\<forall>(cl, build) \<in> set bs. closure_seed cl = Object r \<and> generate (closure_opts cl) = None"
  shows "objs (emit_all bs h) = (objs h)(r := write_all (objs h r) (emitted_files bs h))"
  using assms
proof (induction bs arbitrary: h)
  case Nil
  show ?case by simp
next
  case (Cons b bs)
  obtain cl build where b: "b = (cl, build)"
    by (cases b)
  from Cons.prems b have cl: "generate (closure_opts cl) = None" "closure_seed cl = Object r"
    by auto
  from Cons.prems have rest:
    "\<forall>(cl, build) \<in> set bs. closure_seed cl = Object r \<and> generate (closure_opts cl) = None"
    by simp
  let ?h1 = "snd (emit cl build h)"
  let ?fs = "case fst (post_pipeline cl build h) of Inl e \<Rightarrow> [] | Inr files \<Rightarrow> files"
  have o1: "objs ?h1 = (objs h)(r := write_all (objs h r) ?fs)"
    by (rule emit_default_objs [OF cl])
  have "objs (emit_all (b # bs) h) = objs (emit_all bs ?h1)"
    unfolding b by simp
  also have "\<dots> = (objs ?h1)(r := write_all (objs ?h1 r) (emitted_files bs ?h1))"
    by (rule Cons.IH [OF rest])
  also have "\<dots> = (objs h)(r := write_all (write_all (objs h r) ?fs) (emitted_files bs ?h1))"
    unfolding o1 by simp
  also have "write_all (write_all (objs h r) ?fs) (emitted_files bs ?h1)
               = write_all (objs h r) (emitted_files (b # bs) h)"
    unfolding b by (simp add: write_all_append)
  finally show ?case .
qed

lemma emit_all_keeps:
  assumes "\<forall>(cl, build) \<in> set bs. closure_seed cl = Object r \<and> generate (closure_opts cl) = None"
    and "k \<notin> (\<lambda>f. to_text (name f)) ` set (emitted_files bs h)"
  shows "objs (emit_all bs h) r k = objs h r k"
  unfolding emit_all_shared [OF assms(1)] using assms(2) by (simp add: write_all_other)

section \<open>Accumulation over builds\<close>

lemma sort_cmp_single: "sort_cmp cmp [x] = [x]"
  by (simp add: sort_cmp_def)

lemma pipeline_single:
  "filter_opt os = None \<Longrightarrow> map_opt os = None \<Longrightarrow> pipeline os [d] = [d]"
  by (simp add: pipeline_def Let_def sort_cmp_single split: option.splits)

lemma replace_backslashes_keeps:
  "c \<noteq> CHR 0x5C \<Longrightarrow> c \<in> set s \<Longrightarrow> c \<in> set (replace_backslashes s)"
  by (auto simp: replace_backslashes_def)

lemma asset_step_skipped:
  "asset_chunks a \<noteq> [] \<Longrightarrow> truthy_prop (get_property ma (asset_name a)) = None
     \<Longrightarrow> asset_step ma [] a = []"
  by (simp add: asset_step_def)

lemma assets_skipped:
  "\<forall>a \<in> set as. asset_chunks a \<noteq> [] \<and> truthy_prop (get_property ma (asset_name a)) = None
     \<Longrightarrow> concat (map (asset_step ma []) as) = []"
  by (induction as) (simp_all add: asset_step_skipped)

lemma dotted_not_proto: "CHR ''.'' \<in> set k \<Longrightarrow> k \<noteq> ''__proto__''"
  by auto

lemma single_file_build:
  assumes f: "filter_opt (closure_opts cl) = None" and m: "map_opt (closure_opts cl) = None"
    and c: "chunks build = [c]" and n: "chunk_name c = Some n" "n \<noteq> []"
    and p: "chunk_files c = [p]" "\<not> sublist ''hot-update'' p"
    and a: "\<forall>a \<in> set (stats_assets build).
              asset_chunks a \<noteq> []
              \<and> truthy_prop (get_property (moduleAssets cl) (asset_name a)) = None"
  shows "\<exists>d. fst (post_pipeline cl build h) = Inr [d]
             \<and> CHR ''.'' \<in> set (to_text (name d))
             \<and> to_text (name d)
                 = replace_backslashes
                     (basePath (closure_opts cl) @ n @ ''.'' @ fst (getFileType (closure_opts cl) h p))
             \<and> path d
                 = replace_backslashes ((case publicPath build of None \<Rightarrow> [] | Some q \<Rightarrow> q) @ p)"
proof -
  let ?os = "closure_opts cl"
  define d0 where
    "d0 = \<lparr> path = p, chunk = Some c, name = Text (n @ ''.'' @ fst (getFileType ?os h p)),
             isInitial = (case isOnlyInitial c of
                            Some b \<Rightarrow> b
                          | None \<Rightarrow> (case chunk_isInitial c of Some b \<Rightarrow> b | None \<Rightarrow> initial c)),
             isChunk = True, isAsset = False, isModuleAsset = False \<rparr>"
  have nm: "name d0 = Text (n @ ''.'' @ fst (getFileType ?os h p))" and pt: "path d0 = p"
    by (simp_all add: d0_def)
  have "fst (chunk_file_step ?os c ([], h) p) = [d0]"
    unfolding chunk_file_step_eq d0_def by (simp add: n)
  then have "fst (collect_chunks ?os [c] h) = [d0]"
    by (simp add: collect_chunks_Cons collect_chunks_Nil p(1))
  then have col: "fst (collect cl build h) = [d0]"
    by (simp add: collect_eq c assets_skipped [OF a])
  have hot: "drop_hot_updates [d0] = [d0]"
    using p(2) by (simp add: drop_hot_updates_def pt str_includes_sublist)
  define d1 where
    "d1 = d0\<lparr>name := Text (replace_backslashes (basePath ?os @ to_text (name d0))),
              path := replace_backslashes
                        ((case publicPath build of None \<Rightarrow> [] | Some q \<Rightarrow> q) @ path d0)\<rparr>"
  have "is_text (name d0)"
    by (simp add: nm)
  then have "normalize ?os (publicPath build) [d0] = Inr [d1]"
    by (simp add: normalize_cases d1_def)
  then have "fst (post_pipeline cl build h) = Inr [d1]"
    by (simp add: post_pipeline_eq col process_def hot pipeline_single [OF f m])
  moreover have "CHR ''.'' \<in> set (to_text (name d1))"
    by (simp add: d1_def nm to_text_def replace_backslashes_keeps)
  moreover have "to_text (name d1)
                   = replace_backslashes (basePath ?os @ n @ ''.'' @ fst (getFileType ?os h p))"
    by (simp add: d1_def nm to_text_def)
  moreover have "path d1
                   = replace_backslashes
                       ((case publicPath build of None \<Rightarrow> [] | Some q \<Rightarrow> q) @ p)"
    by (simp add: d1_def pt)
  ultimately show ?thesis
    by blast
qed

lemma emitted_single:
  assumes "\<forall>(cl, build) \<in> set bs.
             filter_opt (closure_opts cl) = None \<and> map_opt (closure_opts cl) = None
             \<and> (\<exists>c n p. chunks build = [c] \<and> chunk_name c = Some n \<and> n \<noteq> []
                   \<and> chunk_files c = [p] \<and> \<not> sublist ''hot-update'' p)
             \<and> (\<forall>a \<in> set (stats_assets build).
                   asset_chunks a \<noteq> []
                   \<and> truthy_prop (get_property (moduleAssets cl) (asset_name a)) = None)"
  shows "length (emitted_files bs h) = length bs
         \<and> (\<forall>f \<in> set (emitted_files bs h). CHR ''.'' \<in> set (to_text (name f)))"
  using assms
proof (induction bs arbitrary: h)
  case Nil
  show ?case by simp
next
  case (Cons b bs)
  obtain cl build where b: "b = (cl, build)"
    by (cases b)
  from Cons.prems b obtain c n p where
    f: "filter_opt (closure_opts cl) = None" and m: "map_opt (closure_opts cl) = None"
    and c: "chunks build = [c]" and n: "chunk_name c = Some n" "n \<noteq> []"
    and p: "chunk_files c = [p]" "\<not> sublist ''hot-update'' p"
    and a: "\<forall>a \<in> set (stats_assets build).
              asset_chunks a \<noteq> []
              \<and> truthy_prop (get_property (moduleAssets cl) (asset_name a)) = None"
    by auto
  from single_file_build [OF f m c n p a, of h]
  obtain d where d: "fst (post_pipeline cl build h) = Inr [d]"
    "CHR ''.'' \<in> set (to_text (name d))"
    by blast
  from Cons.prems have rest: "\<forall>(cl, build) \<in> set bs.
             filter_opt (closure_opts cl) = None \<and> map_opt (closure_opts cl) = None
             \<and> (\<exists>c n p. chunks build = [c] \<and> chunk_name c = Some n \<and> n \<noteq> []
                   \<and> chunk_files c = [p] \<and> \<not> sublist ''hot-update'' p)
             \<and> (\<forall>a \<in> set (stats_assets build).
                   asset_chunks a \<noteq> []
                   \<and> truthy_prop (get_property (moduleAssets cl) (asset_name a)) = None)"
    by simp
  from Cons.IH [OF rest, of "snd (emit cl build h)"] d show ?case
    unfolding b by simp
qed

lemma write_all_dotted:
  assumes "\<forall>f \<in> set fs. CHR ''.'' \<in> set (to_text (name f))"
  shows "dom (write_all m fs) = dom m \<union> (\<lambda>f. to_text (name f)) ` set fs"
proof -
  have "''__proto__'' \<notin> (\<lambda>f. to_text (name f)) ` set fs"
  proof
    assume "''__proto__'' \<in> (\<lambda>f. to_text (name f)) ` set fs"
    then obtain f where "f \<in> set fs" and "to_text (name f) = ''__proto__''"
      by auto
    with assms have "CHR ''.'' \<in> set ''__proto__''"
      by metis
    then show False
      by simp
  qed
  then show ?thesis
    by (simp add: dom_write_all)
qed

lemma emitted_entries:
  assumes "\<forall>(cl, build) \<in> set bs.
             stateful (transformExtensions (closure_opts cl)) = None
             \<and> filter_opt (closure_opts cl) = None \<and> map_opt (closure_opts cl) = None
             \<and> (\<exists>c n p. chunks build = [c] \<and> chunk_name c = Some n \<and> n \<noteq> []
                   \<and> chunk_files c = [p] \<and> \<not> sublist ''hot-update'' p)
             \<and> (\<forall>a \<in> set (stats_assets build).
                   asset_chunks a \<noteq> []
                   \<and> truthy_prop (get_property (moduleAssets cl) (asset_name a)) = None)"
  shows "map (\<lambda>f. (to_text (name f), path f)) (emitted_files bs h)
           = map (\<lambda>(cl, build).
                    (replace_backslashes
                       (basePath (closure_opts cl) @ the (chunk_name (hd (chunks build))) @ ''.''
                          @ fst (getFileType (closure_opts cl) h0
                                   (hd (chunk_files (hd (chunks build)))))),
                     replace_backslashes
                       ((case publicPath build of None \<Rightarrow> [] | Some q \<Rightarrow> q)
                          @ hd (chunk_files (hd (chunks build)))))) bs"
  using assms
proof (induction bs arbitrary: h)
  case Nil
  show ?case by simp
next
  case (Cons b bs)
  obtain cl build where b: "b = (cl, build)"
    by (cases b)
  from Cons.prems b obtain c n p where
    s: "stateful (transformExtensions (closure_opts cl)) = None"
    and f: "filter_opt (closure_opts cl) = None" and m: "map_opt (closure_opts cl) = None"
    and c: "chunks build = [c]" and n: "chunk_name c = Some n" "n \<noteq> []"
    and p: "chunk_files c = [p]" "\<not> sublist ''hot-update'' p"
    and a: "\<forall>a \<in> set (stats_assets build).
              asset_chunks a \<noteq> []
              \<and> truthy_prop (get_property (moduleAssets cl) (asset_name a)) = None"
    by auto
  from single_file_build [OF f m c n p a, of h]
  obtain d where d: "fst (post_pipeline cl build h) = Inr [d]"
    and dn: "to_text (name d)
               = replace_backslashes
                   (basePath (closure_opts cl) @ n @ ''.'' @ fst (getFileType (closure_opts cl) h p))"
    and dp: "path d
               = replace_backslashes ((case publicPath build of None \<Rightarrow> [] | Some q \<Rightarrow> q) @ p)"
    by blast
  have t: "fst (getFileType (closure_opts cl) h p) = fst (getFileType (closure_opts cl) h0 p)"
    using s by (rule getFileType_stateless_fst)
  from Cons.prems have rest: "\<forall>(cl, build) \<in> set bs.
             stateful (transformExtensions (closure_opts cl)) = None
             \<and> filter_opt (closure_opts cl) = None \<and> map_opt (closure_opts cl) = None
             \<and> (\<exists>c n p. chunks build = [c] \<and> chunk_name c = Some n \<and> n \<noteq> []
                   \<and> chunk_files c = [p] \<and> \<not> sublist ''hot-update'' p)
             \<and> (\<forall>a \<in> set (stats_assets build).
                   asset_chunks a \<noteq> []
                   \<and> truthy_prop (get_property (moduleAssets cl) (asset_name a)) = None)"
    by simp
  from Cons.IH [OF rest, of "snd (emit cl build h)"] show ?case
    unfolding b by (simp add: d dn dp t c n p)
qed

subsection \<open>Builds into one shared seed, evaluated\<close>

lemma shared_closure_simps:
  "closure_opts shared_closure = shared_opts"
  "moduleAssets shared_closure = Map.empty"
  "closure_seed shared_closure = Object 0"
  "closure_opts filtering_closure = shared_opts\<lparr>filter_opt := Some (\<lambda>f. False)\<rparr>"
  "moduleAssets filtering_closure = Map.empty"
  "closure_seed filtering_closure = Object 0"
  "closure_opts collapsing_closure = shared_opts\<lparr>map_opt := Some (\<lambda>f. f\<lparr>name := Text ''x''\<rparr>)\<rparr>"
  "moduleAssets collapsing_closure = Map.empty"
  "closure_seed collapsing_closure = Object 0"
  "closure_opts proto_closure = shared_opts\<lparr>map_opt := Some (\<lambda>f. f\<lparr>name := Text ''__proto__''\<rparr>)\<rparr>"
  "moduleAssets proto_closure = Map.empty"
  "closure_seed proto_closure = Object 0"
  by (simp_all add: shared_closure_def filtering_closure_def collapsing_closure_def proto_closure_def
      apply_plugin_def shared_opts_def ManifestPlugin_def Let_def)

lemma shared_opts_simps:
  "generate shared_opts = None"
  "transformExtensions shared_opts = default_transformExtensions"
  "basePath shared_opts = []"
  "filter_opt shared_opts = None" "map_opt shared_opts = None" "sort_opt shared_opts = None"
  by (simp_all add: shared_opts_def ManifestPlugin_def)

lemma shared_heap_simps:
  "objs shared_heap 0 = Map.empty"
  "objs seeded_heap 0 = [''old.js'' \<mapsto> Str ''old.js'']"
  by (simp_all add: shared_heap_def seeded_heap_def new_object_def empty_heap_def)

lemmas evaluate_build =
  post_pipeline_stateless shared_closure_simps shared_opts_simps default_pattern_stateless
  chunk_file_step_eq getFileType_default_pattern asset_step_eq object_prototype_members_def
  process_def drop_hot_updates_def normalize_cases pipeline_def replace_backslashes_def
  to_text_def one_file_build_def sort_cmp_single Let_def

lemma shared_main_build:
  "fst (post_pipeline shared_closure main_build h)
     = Inr [\<lparr> path = ''main.js'', chunk = Some main_chunk, name = Text ''main.js'',
                isInitial = True, isChunk = True, isAsset = False, isModuleAsset = False \<rparr>,
             \<lparr> path = ''main.js.map'', chunk = Some main_chunk, name = Text ''main.js.map'',
                isInitial = True, isChunk = True, isAsset = False, isModuleAsset = False \<rparr>]"
  by (simp add: evaluate_build main_build_def main_chunk_def)

lemma shared_admin_build:
  "map (\<lambda>f. (to_text (name f), path f))
     (case fst (post_pipeline shared_closure admin_build h) of Inl e \<Rightarrow> [] | Inr fs \<Rightarrow> fs)
     = [(''admin.js'', ''admin.js'')]"
  by (simp add: evaluate_build admin_build_def)

lemma shared_objs:
  assumes "\<forall>(cl, build) \<in> set bs. closure_seed cl = Object 0 \<and> generate (closure_opts cl) = None"
  shows "objs (emit_all bs h) 0 = write_all (objs h 0) (emitted_files bs h)"
  unfolding emit_all_shared [OF assms] by simp

lemma write_all_pairs:
  "write_all m fs = foldl (\<lambda>m (k, v). if k = ''__proto__'' then m else m(k \<mapsto> Str v)) m
                      (map (\<lambda>f. (to_text (name f), path f)) fs)"
  by (induction fs arbitrary: m) (simp_all add: write_entry_def)

lemma shared_main_emitted:
  "map (\<lambda>f. (to_text (name f), path f)) (emitted_files [(shared_closure, main_build)] shared_heap)
     = [(''main.js'', ''main.js''), (''main.js.map'', ''main.js.map'')]"
  by (simp add: evaluate_build main_build_def main_chunk_def)

lemma shared_main_entries:
  "objs (emit_all [(shared_closure, main_build)] shared_heap) 0
     = [''main.js'' \<mapsto> Str ''main.js'', ''main.js.map'' \<mapsto> Str ''main.js.map'']"
proof -
  have p: "\<forall>(cl, build) \<in> set [(shared_closure, main_build)].
             closure_seed cl = Object 0 \<and> generate (closure_opts cl) = None"
    by (simp add: shared_closure_simps shared_opts_simps)
  show ?thesis
    unfolding shared_objs [OF p] write_all_pairs shared_main_emitted by (simp add: shared_heap_simps)
qed

lemma shared_hot_emitted:
  "map (\<lambda>f. (to_text (name f), path f)) (emitted_files [(shared_closure, hot_build)] shared_heap)
     = []"
  by (simp add: evaluate_build hot_build_def)

lemma shared_hot_entries:
  "objs (emit_all [(shared_closure, hot_build)] shared_heap) 0
     = Map.empty"
proof -
  have p: "\<forall>(cl, build) \<in> set [(shared_closure, hot_build)].
             closure_seed cl = Object 0 \<and> generate (closure_opts cl) = None"
    by (simp add: shared_closure_simps shared_opts_simps)
  show ?thesis
    unfolding shared_objs [OF p] write_all_pairs shared_hot_emitted by (simp add: shared_heap_simps)
qed

lemma shared_robots_emitted:
  "map (\<lambda>f. (to_text (name f), path f)) (emitted_files [(shared_closure, robots_build)] shared_heap)
     = [(''admin.js'', ''admin.js''), (''robots.txt'', ''robots.txt'')]"
  by (simp add: evaluate_build robots_build_def admin_build_def plain_asset_def)

lemma shared_robots_entries:
  "objs (emit_all [(shared_closure, robots_build)] shared_heap) 0
     = [''admin.js'' \<mapsto> Str ''admin.js'', ''robots.txt'' \<mapsto> Str ''robots.txt'']"
proof -
  have p: "\<forall>(cl, build) \<in> set [(shared_closure, robots_build)].
             closure_seed cl = Object 0 \<and> generate (closure_opts cl) = None"
    by (simp add: shared_closure_simps shared_opts_simps)
  show ?thesis
    unfolding shared_objs [OF p] write_all_pairs shared_robots_emitted by (simp add: shared_heap_simps)
qed

lemma filtering_emitted:
  "map (\<lambda>f. (to_text (name f), path f)) (emitted_files [(filtering_closure, admin_build)] shared_heap)
     = []"
  by (simp add: evaluate_build admin_build_def)

lemma filtering_entries:
  "objs (emit_all [(filtering_closure, admin_build)] shared_heap) 0
     = Map.empty"
proof -
  have p: "\<forall>(cl, build) \<in> set [(filtering_closure, admin_build)].
             closure_seed cl = Object 0 \<and> generate (closure_opts cl) = None"
    by (simp add: shared_closure_simps shared_opts_simps)
  show ?thesis
    unfolding shared_objs [OF p] write_all_pairs filtering_emitted by (simp add: shared_heap_simps)
qed

lemma collapsing_emitted:
  "map (\<lambda>f. (to_text (name f), path f)) (emitted_files [(collapsing_closure, admin_build), (collapsing_closure, home_build)] shared_heap)
     = [(''x'', ''admin.js''), (''x'', ''home.js'')]"
  by (simp add: evaluate_build admin_build_def home_build_def)

lemma collapsing_entries:
  "objs (emit_all [(collapsing_closure, admin_build), (collapsing_closure, home_build)] shared_heap) 0
     = [''x'' \<mapsto> Str ''home.js'']"
proof -
  have p: "\<forall>(cl, build) \<in> set [(collapsing_closure, admin_build), (collapsing_closure, home_build)].
             closure_seed cl = Object 0 \<and> generate (closure_opts cl) = None"
    by (simp add: shared_closure_simps shared_opts_simps)
  show ?thesis
    unfolding shared_objs [OF p] write_all_pairs collapsing_emitted by (simp add: shared_heap_simps)
qed

lemma proto_emitted:
  "map (\<lambda>f. (to_text (name f), path f)) (emitted_files [(proto_closure, admin_build)] shared_heap)
     = [(''__proto__'', ''admin.js'')]"
  by (simp add: evaluate_build admin_build_def)

lemma proto_entries:
  "objs (emit_all [(proto_closure, admin_build)] shared_heap) 0
     = Map.empty"
proof -
  have p: "\<forall>(cl, build) \<in> set [(proto_closure, admin_build)].
             closure_seed cl = Object 0 \<and> generate (closure_opts cl) = None"
    by (simp add: shared_closure_simps shared_opts_simps)
  show ?thesis
    unfolding shared_objs [OF p] write_all_pairs proto_emitted by (simp add: shared_heap_simps)
qed

lemma seeded_emitted:
  "map (\<lambda>f. (to_text (name f), path f)) (emitted_files [(shared_closure, admin_build)] seeded_heap)
     = [(''admin.js'', ''admin.js'')]"
  by (simp add: evaluate_build admin_build_def)

lemma seeded_entries:
  "objs (emit_all [(shared_closure, admin_build)] seeded_heap) 0
     = [''old.js'' \<mapsto> Str ''old.js'', ''admin.js'' \<mapsto> Str ''admin.js'']"
proof -
  have p: "\<forall>(cl, build) \<in> set [(shared_closure, admin_build)].
             closure_seed cl = Object 0 \<and> generate (closure_opts cl) = None"
    by (simp add: shared_closure_simps shared_opts_simps)
  show ?thesis
    unfolding shared_objs [OF p] write_all_pairs seeded_emitted by (simp add: shared_heap_simps)
qed

lemma slash_emitted:
  "map (\<lambda>f. (to_text (name f), path f)) (emitted_files [(shared_closure, backslash_build), (shared_closure, slash_build)] shared_heap)
     = [(''a/b.js'', ''admin.js''), (''a/b.js'', ''home.js'')]"
  by (simp add: evaluate_build backslash_build_def slash_build_def)

lemma slash_entries:
  "objs (emit_all [(shared_closure, backslash_build), (shared_closure, slash_build)] shared_heap) 0
     = [''a/b.js'' \<mapsto> Str ''home.js'']"
proof -
  have p: "\<forall>(cl, build) \<in> set [(shared_closure, backslash_build), (shared_closure, slash_build)].
             closure_seed cl = Object 0 \<and> generate (closure_opts cl) = None"
    by (simp add: shared_closure_simps shared_opts_simps)
  show ?thesis
    unfolding shared_objs [OF p] write_all_pairs slash_emitted by (simp add: shared_heap_simps)
qed

lemma shared_two_emitted:
  "map (\<lambda>f. (to_text (name f), path f)) (emitted_files [(shared_closure, admin_build), (shared_closure, home_build)] shared_heap)
     = [(''admin.js'', ''admin.js''), (''home.js'', ''home.js'')]"
  by (simp add: evaluate_build admin_build_def home_build_def)

lemma shared_two_entries:
  "objs (emit_all [(shared_closure, admin_build), (shared_closure, home_build)] shared_heap) 0
     = [''admin.js'' \<mapsto> Str ''admin.js'', ''home.js'' \<mapsto> Str ''home.js'']"
proof -
  have p: "\<forall>(cl, build) \<in> set [(shared_closure, admin_build), (shared_closure, home_build)].
             closure_seed cl = Object 0 \<and> generate (closure_opts cl) = None"
    by (simp add: shared_closure_simps shared_opts_simps)
  show ?thesis
    unfolding shared_objs [OF p] write_all_pairs shared_two_emitted by (simp add: shared_heap_simps)
qed

section \<open>The default generator over shared seeds\<close>

text \<open>
  C1, as stated, fails, and fails in each of these ways. One build with a single chunk
  named \<open>main\<close> that has two output files, the bundle and its source map, leaves two
  entries in an empty shared seed, not one: the fold writes one entry per descriptor,
  and a chunk contributes one descriptor per output file. One build whose single chunk
  has a hot-update file leaves none. One build that also has an asset outside its
  chunk leaves two. One build under a filter option that rejects every descriptor
  leaves none, and two builds under a map option that gives every descriptor the same
  name leave one. One build into a seed that already holds an entry leaves two. Two
  builds whose chunks have the different names \<open>a\b\<close> and \<open>a/b\<close> write the same key and
  leave one. And a descriptor named \<^verbatim>\<open>__proto__\<close>, here by a map option, leaves no entry
  at all, so that among such duplicates no descriptor wins.
\<close>

theorem one_chunk_not_one_entry:
  "map chunk_name (chunks main_build) = [Some ''main'']
   \<and> card (dom (objs (emit_all [(shared_closure, main_build)] shared_heap) 0)) = 2
   \<and> card (dom (objs (emit_all [(shared_closure, hot_build)] shared_heap) 0)) = 0
   \<and> card (dom (objs (emit_all [(shared_closure, robots_build)] shared_heap) 0)) = 2
   \<and> card (dom (objs (emit_all [(filtering_closure, admin_build)] shared_heap) 0)) = 0
   \<and> card (dom (objs (emit_all [(collapsing_closure, admin_build),
                                  (collapsing_closure, home_build)] shared_heap) 0)) = 1
   \<and> card (dom (objs (emit_all [(shared_closure, admin_build)] seeded_heap) 0)) = 2
   \<and> map chunk_name (chunks backslash_build @ chunks slash_build)
       = [Some (''a'' @ [CHR 0x5C] @ ''b''), Some ''a/b'']
   \<and> card (dom (objs (emit_all [(shared_closure, backslash_build),
                                  (shared_closure, slash_build)] shared_heap) 0)) = 1
   \<and> map (\<lambda>f. (to_text (name f), path f))
         (emitted_files [(proto_closure, admin_build)] shared_heap)
       = [(''__proto__'', ''admin.js'')]
   \<and> objs (emit_all [(proto_closure, admin_build)] shared_heap) 0 ''__proto__'' = None"
proof -
  have "map chunk_name (chunks main_build) = [Some ''main'']"
    by (simp add: main_build_def main_chunk_def)
  moreover have "map chunk_name (chunks backslash_build @ chunks slash_build)
                   = [Some (''a'' @ [CHR 0x5C] @ ''b''), Some ''a/b'']"
    by (simp add: backslash_build_def slash_build_def one_file_build_def)
  moreover have "card (dom (objs (emit_all [(shared_closure, main_build)] shared_heap) 0)) = 2"
    unfolding shared_main_entries by simp
  moreover have "card (dom (objs (emit_all [(shared_closure, hot_build)] shared_heap) 0)) = 0"
    unfolding shared_hot_entries by simp
  moreover have "card (dom (objs (emit_all [(shared_closure, robots_build)] shared_heap) 0)) = 2"
    unfolding shared_robots_entries by simp
  moreover have "card (dom (objs (emit_all [(filtering_closure, admin_build)] shared_heap) 0)) = 0"
    unfolding filtering_entries by simp
  moreover have "card (dom (objs (emit_all [(collapsing_closure, admin_build),
                   (collapsing_closure, home_build)] shared_heap) 0)) = 1"
    unfolding collapsing_entries by simp
  moreover have "card (dom (objs (emit_all [(shared_closure, admin_build)] seeded_heap) 0)) = 2"
    unfolding seeded_entries by simp
  moreover have "card (dom (objs (emit_all [(shared_closure, backslash_build),
                   (shared_closure, slash_build)] shared_heap) 0)) = 1"
    unfolding slash_entries by simp
  moreover have "objs (emit_all [(proto_closure, admin_build)] shared_heap) 0 ''__proto__'' = None"
    unfolding proto_entries by simp
  ultimately show ?thesis
    using proto_emitted by blast
qed

text \<open>
  C1, amended. When no generate option is set, an \<^verbatim>\<open>emit\<close> run that gets through the
  pipeline folds the post-pipeline descriptors in order, assigning the path under the
  name on the seed itself, and returns that seed; a run that throws before the generator
  writes nothing, and a run throws exactly when the base path is empty and an
  unregistered asset is named like a member of \<^verbatim>\<open>Object.prototype\<close>. On a seed that
  is an object the fold leaves that object with one assignment per descriptor, first to
  last, except that an assignment under \<^verbatim>\<open>__proto__\<close> stores nothing; so among
  descriptors with one name other than \<^verbatim>\<open>__proto__\<close> the last one wins. For builds that run one after another into one seed
  object, without generate, filter or map option, each with exactly one chunk, which
  is named and has exactly one output file, not a hot-update file, and with every asset
  referenced by a chunk and not read as registered, the generator receives exactly one
  descriptor per build; when the seed is empty at the start and the names of these
  descriptors are pairwise distinct, the manifest has exactly one entry per build,
  under that name and with that path. When the file-type pattern keeps no state, that
  name is the base path, the chunk name, a dot and the file type, and that path is the
  public path and the output file, both with backslashes replaced; so builds for which
  these names, computed from the options, the chunk and its file, are pairwise
  distinct leave exactly one entry each in a seed that was empty.
\<close>

theorem default_generate_accumulates:
  "(generate (closure_opts cl) = None \<and> post_pipeline cl build h = (Inr files, h1)
      \<longrightarrow> emit cl build h
            = (Inr \<lparr> manifest = closure_seed cl,
                     output_text =
                       serialize (closure_opts cl)
                         (foldl (\<lambda>h' f. set_property h' (closure_seed cl) (to_text (name f)) (path f))
                            h1 files)
                         (closure_seed cl),
                     final_files = files \<rparr>,
               foldl (\<lambda>h' f. set_property h' (closure_seed cl) (to_text (name f)) (path f))
                 h1 files))
   \<and> (post_pipeline cl build h = (Inl e, h1) \<longrightarrow> emit cl build h = (Inl e, h1))
   \<and> ((\<exists>fs. fst (post_pipeline cl build h) = Inr fs)
        \<longleftrightarrow> (basePath (closure_opts cl) \<noteq> []
           \<or> (\<forall>a \<in> set (stats_assets build).
                 moduleAssets cl (asset_name a) = None
                   \<longrightarrow> asset_name a \<notin> set object_prototype_members)))
   \<and> foldl (\<lambda>h' f. set_property h' (Object r) (to_text (name f)) (path f)) h2 fs
       = h2\<lparr>objs := (objs h2)(r := write_all (objs h2 r) fs)\<rparr>
   \<and> write_all m [] = m
   \<and> write_all m (f # fs)
       = write_all (if to_text (name f) = ''__proto__'' then m
                    else m(to_text (name f) \<mapsto> Str (path f))) fs
   \<and> (to_text (name g) \<notin> (\<lambda>f. to_text (name f)) ` set ys \<and> to_text (name g) \<noteq> ''__proto__''
        \<longrightarrow> write_all m (xs @ g # ys) (to_text (name g)) = Some (Str (path g)))
   \<and> ((\<forall>(cl, build) \<in> set bs.
          closure_seed cl = Object r \<and> generate (closure_opts cl) = None
          \<and> filter_opt (closure_opts cl) = None \<and> map_opt (closure_opts cl) = None
          \<and> (\<exists>c n p. chunks build = [c] \<and> chunk_name c = Some n \<and> n \<noteq> []
                \<and> chunk_files c = [p] \<and> \<not> sublist ''hot-update'' p)
          \<and> (\<forall>a \<in> set (stats_assets build).
                asset_chunks a \<noteq> []
                \<and> truthy_prop (get_property (moduleAssets cl) (asset_name a)) = None))
        \<longrightarrow> objs (emit_all bs h0) = (objs h0)(r := write_all (objs h0 r) (emitted_files bs h0))
            \<and> length (emitted_files bs h0) = length bs
            \<and> (distinct (map (\<lambda>f. to_text (name f)) (emitted_files bs h0))
                 \<and> objs h0 r = Map.empty
                 \<longrightarrow> card (dom (objs (emit_all bs h0) r)) = length bs
                     \<and> dom (objs (emit_all bs h0) r)
                         = (\<lambda>f. to_text (name f)) ` set (emitted_files bs h0)
                     \<and> (\<forall>f \<in> set (emitted_files bs h0).
                           objs (emit_all bs h0) r (to_text (name f)) = Some (Str (path f))))
            \<and> ((\<forall>(cl, build) \<in> set bs. stateful (transformExtensions (closure_opts cl)) = None)
                 \<longrightarrow> map (\<lambda>f. (to_text (name f), path f)) (emitted_files bs h0)
                       = map (\<lambda>(cl, build).
                      (replace_backslashes
                         (basePath (closure_opts cl) @ the (chunk_name (hd (chunks build))) @ ''.''
                            @ fst (getFileType (closure_opts cl) h0
                                     (hd (chunk_files (hd (chunks build)))))),
                       replace_backslashes
                         ((case publicPath build of None \<Rightarrow> [] | Some q \<Rightarrow> q)
                            @ hd (chunk_files (hd (chunks build)))))) bs
                     \<and> (distinct (map (\<lambda>(cl, build).
                      replace_backslashes
                         (basePath (closure_opts cl) @ the (chunk_name (hd (chunks build))) @ ''.''
                            @ fst (getFileType (closure_opts cl) h0
                                     (hd (chunk_files (hd (chunks build))))))) bs) \<and> objs h0 r = Map.empty
                          \<longrightarrow> card (dom (objs (emit_all bs h0) r)) = length bs
                          \<and> (\<forall>(cl, build) \<in> set bs.
                                objs (emit_all bs h0) r
                                  (replace_backslashes
                         (basePath (closure_opts cl) @ the (chunk_name (hd (chunks build))) @ ''.''
                            @ fst (getFileType (closure_opts cl) h0
                                     (hd (chunk_files (hd (chunks build)))))))
                                = Some (Str (replace_backslashes
                         ((case publicPath build of None \<Rightarrow> [] | Some q \<Rightarrow> q)
                            @ hd (chunk_files (hd (chunks build))))))))))"
proof -
  have a: "generate (closure_opts cl) = None \<and> post_pipeline cl build h = (Inr files, h1)
      \<longrightarrow> emit cl build h
            = (Inr \<lparr> manifest = closure_seed cl,
                     output_text =
                       serialize (closure_opts cl)
                         (foldl (\<lambda>h' f. set_property h' (closure_seed cl) (to_text (name f)) (path f))
                            h1 files)
                         (closure_seed cl),
                     final_files = files \<rparr>,
               foldl (\<lambda>h' f. set_property h' (closure_seed cl) (to_text (name f)) (path f))
                 h1 files)"
    using emit_default by blast
  have b: "post_pipeline cl build h = (Inl e, h1) \<longrightarrow> emit cl build h = (Inl e, h1)"
    using emit_error by blast
  have b': "(\<exists>fs. fst (post_pipeline cl build h) = Inr fs)
        \<longleftrightarrow> (basePath (closure_opts cl) \<noteq> []
           \<or> (\<forall>a \<in> set (stats_assets build).
                 moduleAssets cl (asset_name a) = None
                   \<longrightarrow> asset_name a \<notin> set object_prototype_members))"
    by (rule post_pipeline_returns)
  have c: "foldl (\<lambda>h' f. set_property h' (Object r) (to_text (name f)) (path f)) h2 fs
       = h2\<lparr>objs := (objs h2)(r := write_all (objs h2 r) fs)\<rparr>"
    by (rule foldl_set_property_Object)
  have d: "write_all m [] = m"
    by simp
  have e: "write_all m (f # fs)
       = write_all (if to_text (name f) = ''__proto__'' then m
                    else m(to_text (name f) \<mapsto> Str (path f))) fs"
    by (simp add: write_entry_def)
  have w: "to_text (name g) \<notin> (\<lambda>f. to_text (name f)) ` set ys \<and> to_text (name g) \<noteq> ''__proto__''
        \<longrightarrow> write_all m (xs @ g # ys) (to_text (name g)) = Some (Str (path g))"
    using write_all_last by blast
  have n: "(\<forall>(cl, build) \<in> set bs.
          closure_seed cl = Object r \<and> generate (closure_opts cl) = None
          \<and> filter_opt (closure_opts cl) = None \<and> map_opt (closure_opts cl) = None
          \<and> (\<exists>c n p. chunks build = [c] \<and> chunk_name c = Some n \<and> n \<noteq> []
                \<and> chunk_files c = [p] \<and> \<not> sublist ''hot-update'' p)
          \<and> (\<forall>a \<in> set (stats_assets build).
                asset_chunks a \<noteq> []
                \<and> truthy_prop (get_property (moduleAssets cl) (asset_name a)) = None))
        \<longrightarrow> objs (emit_all bs h0) = (objs h0)(r := write_all (objs h0 r) (emitted_files bs h0))
            \<and> length (emitted_files bs h0) = length bs
            \<and> (distinct (map (\<lambda>f. to_text (name f)) (emitted_files bs h0))
                 \<and> objs h0 r = Map.empty
                 \<longrightarrow> card (dom (objs (emit_all bs h0) r)) = length bs
                     \<and> dom (objs (emit_all bs h0) r)
                         = (\<lambda>f. to_text (name f)) ` set (emitted_files bs h0)
                     \<and> (\<forall>f \<in> set (emitted_files bs h0).
                           objs (emit_all bs h0) r (to_text (name f)) = Some (Str (path f))))
            \<and> ((\<forall>(cl, build) \<in> set bs. stateful (transformExtensions (closure_opts cl)) = None)
                 \<longrightarrow> map (\<lambda>f. (to_text (name f), path f)) (emitted_files bs h0)
                       = map (\<lambda>(cl, build).
                      (replace_backslashes
                         (basePath (closure_opts cl) @ the (chunk_name (hd (chunks build))) @ ''.''
                            @ fst (getFileType (closure_opts cl) h0
                                     (hd (chunk_files (hd (chunks build)))))),
                       replace_backslashes
                         ((case publicPath build of None \<Rightarrow> [] | Some q \<Rightarrow> q)
                            @ hd (chunk_files (hd (chunks build)))))) bs
                     \<and> (distinct (map (\<lambda>(cl, build).
                      replace_backslashes
                         (basePath (closure_opts cl) @ the (chunk_name (hd (chunks build))) @ ''.''
                            @ fst (getFileType (closure_opts cl) h0
                                     (hd (chunk_files (hd (chunks build))))))) bs) \<and> objs h0 r = Map.empty
                          \<longrightarrow> card (dom (objs (emit_all bs h0) r)) = length bs
                          \<and> (\<forall>(cl, build) \<in> set bs.
                                objs (emit_all bs h0) r
                                  (replace_backslashes
                         (basePath (closure_opts cl) @ the (chunk_name (hd (chunks build))) @ ''.''
                            @ fst (getFileType (closure_opts cl) h0
                                     (hd (chunk_files (hd (chunks build)))))))
                                = Some (Str (replace_backslashes
                         ((case publicPath build of None \<Rightarrow> [] | Some q \<Rightarrow> q)
                            @ hd (chunk_files (hd (chunks build)))))))))"
  proof
    assume per: "\<forall>(cl, build) \<in> set bs.
          closure_seed cl = Object r \<and> generate (closure_opts cl) = None
          \<and> filter_opt (closure_opts cl) = None \<and> map_opt (closure_opts cl) = None
          \<and> (\<exists>c n p. chunks build = [c] \<and> chunk_name c = Some n \<and> n \<noteq> []
                \<and> chunk_files c = [p] \<and> \<not> sublist ''hot-update'' p)
          \<and> (\<forall>a \<in> set (stats_assets build).
                asset_chunks a \<noteq> []
                \<and> truthy_prop (get_property (moduleAssets cl) (asset_name a)) = None)"
    then have sd: "\<forall>(cl, build) \<in> set bs.
                     closure_seed cl = Object r \<and> generate (closure_opts cl) = None"
      by fast
    from per have one: "\<forall>(cl, build) \<in> set bs.
             filter_opt (closure_opts cl) = None \<and> map_opt (closure_opts cl) = None
             \<and> (\<exists>c n p. chunks build = [c] \<and> chunk_name c = Some n \<and> n \<noteq> []
                   \<and> chunk_files c = [p] \<and> \<not> sublist ''hot-update'' p)
             \<and> (\<forall>a \<in> set (stats_assets build).
                   asset_chunks a \<noteq> []
                   \<and> truthy_prop (get_property (moduleAssets cl) (asset_name a)) = None)"
      by fast
    have sh: "objs (emit_all bs h0) = (objs h0)(r := write_all (objs h0 r) (emitted_files bs h0))"
      using sd by (rule emit_all_shared)
    from emitted_single [OF one, of h0]
    have len: "length (emitted_files bs h0) = length bs"
      and dot: "\<forall>f \<in> set (emitted_files bs h0). CHR ''.'' \<in> set (to_text (name f))"
      by blast+
    have cnt: "card (dom (objs (emit_all bs h0) r)) = length bs
                 \<and> dom (objs (emit_all bs h0) r)
                     = (\<lambda>f. to_text (name f)) ` set (emitted_files bs h0)
                 \<and> (\<forall>f \<in> set (emitted_files bs h0).
                       objs (emit_all bs h0) r (to_text (name f)) = Some (Str (path f)))"
      if ds: "distinct (map (\<lambda>f. to_text (name f)) (emitted_files bs h0))"
        and em: "objs h0 r = Map.empty"
    proof -
      have dm: "dom (objs (emit_all bs h0) r)
                  = (\<lambda>f. to_text (name f)) ` set (emitted_files bs h0)"
        unfolding sh by (simp add: write_all_dotted [OF dot] em)
      have "card ((\<lambda>f. to_text (name f)) ` set (emitted_files bs h0))
              = length (emitted_files bs h0)"
        using ds by (metis distinct_card length_map set_map)
      then have cd: "card (dom (objs (emit_all bs h0) r)) = length bs"
        unfolding dm len by simp
      have vl: "objs (emit_all bs h0) r (to_text (name f)) = Some (Str (path f))"
        if "f \<in> set (emitted_files bs h0)" for f
      proof -
        from dot that have "to_text (name f) \<noteq> ''__proto__''"
          by (metis dotted_not_proto)
        with ds that show ?thesis
          unfolding sh by (simp add: write_all_distinct)
      qed
      from dm cd vl show ?thesis
        by blast
    qed
    have frm: "map (\<lambda>f. (to_text (name f), path f)) (emitted_files bs h0)
                 = map (\<lambda>(cl, build).
                      (replace_backslashes
                         (basePath (closure_opts cl) @ the (chunk_name (hd (chunks build))) @ ''.''
                            @ fst (getFileType (closure_opts cl) h0
                                     (hd (chunk_files (hd (chunks build)))))),
                       replace_backslashes
                         ((case publicPath build of None \<Rightarrow> [] | Some q \<Rightarrow> q)
                            @ hd (chunk_files (hd (chunks build)))))) bs"
      if st: "\<forall>(cl, build) \<in> set bs. stateful (transformExtensions (closure_opts cl)) = None"
    proof -
      from st one have "\<forall>(cl, build) \<in> set bs.
             stateful (transformExtensions (closure_opts cl)) = None
             \<and> filter_opt (closure_opts cl) = None \<and> map_opt (closure_opts cl) = None
             \<and> (\<exists>c n p. chunks build = [c] \<and> chunk_name c = Some n \<and> n \<noteq> []
                   \<and> chunk_files c = [p] \<and> \<not> sublist ''hot-update'' p)
             \<and> (\<forall>a \<in> set (stats_assets build).
                   asset_chunks a \<noteq> []
                   \<and> truthy_prop (get_property (moduleAssets cl) (asset_name a)) = None)"
        by fast
      then show ?thesis
        by (rule emitted_entries)
    qed
    have inp: "card (dom (objs (emit_all bs h0) r)) = length bs
                          \<and> (\<forall>(cl, build) \<in> set bs.
                                objs (emit_all bs h0) r
                                  (replace_backslashes
                         (basePath (closure_opts cl) @ the (chunk_name (hd (chunks build))) @ ''.''
                            @ fst (getFileType (closure_opts cl) h0
                                     (hd (chunk_files (hd (chunks build)))))))
                                = Some (Str (replace_backslashes
                         ((case publicPath build of None \<Rightarrow> [] | Some q \<Rightarrow> q)
                            @ hd (chunk_files (hd (chunks build)))))))"
      if st: "\<forall>(cl, build) \<in> set bs. stateful (transformExtensions (closure_opts cl)) = None"
        and dk: "distinct (map (\<lambda>(cl, build).
                      replace_backslashes
                         (basePath (closure_opts cl) @ the (chunk_name (hd (chunks build))) @ ''.''
                            @ fst (getFileType (closure_opts cl) h0
                                     (hd (chunk_files (hd (chunks build))))))) bs)"
        and em: "objs h0 r = Map.empty"
    proof -
      note fr = frm [OF st]
      have "map (\<lambda>f. to_text (name f)) (emitted_files bs h0)
              = map fst (map (\<lambda>f. (to_text (name f), path f)) (emitted_files bs h0))"
        by (simp add: comp_def)
      also have "\<dots> = map (\<lambda>(cl, build).
                      replace_backslashes
                         (basePath (closure_opts cl) @ the (chunk_name (hd (chunks build))) @ ''.''
                            @ fst (getFileType (closure_opts cl) h0
                                     (hd (chunk_files (hd (chunks build))))))) bs"
        unfolding fr by (simp add: comp_def case_prod_beta)
      finally have nm: "map (\<lambda>f. to_text (name f)) (emitted_files bs h0)
              = map (\<lambda>(cl, build).
                      replace_backslashes
                         (basePath (closure_opts cl) @ the (chunk_name (hd (chunks build))) @ ''.''
                            @ fst (getFileType (closure_opts cl) h0
                                     (hd (chunk_files (hd (chunks build))))))) bs" .
      from dk have ds: "distinct (map (\<lambda>f. to_text (name f)) (emitted_files bs h0))"
        unfolding nm .
      note ct = cnt [OF ds em]
      have vl: "objs (emit_all bs h0) r
                  (replace_backslashes
                         (basePath (closure_opts cl) @ the (chunk_name (hd (chunks build))) @ ''.''
                            @ fst (getFileType (closure_opts cl) h0
                                     (hd (chunk_files (hd (chunks build)))))))
                = Some (Str (replace_backslashes
                         ((case publicPath build of None \<Rightarrow> [] | Some q \<Rightarrow> q)
                            @ hd (chunk_files (hd (chunks build))))))"
        if b: "(cl, build) \<in> set bs" for cl build
      proof -
        from b have "(replace_backslashes
                         (basePath (closure_opts cl) @ the (chunk_name (hd (chunks build))) @ ''.''
                            @ fst (getFileType (closure_opts cl) h0
                                     (hd (chunk_files (hd (chunks build)))))),
                      replace_backslashes
                         ((case publicPath build of None \<Rightarrow> [] | Some q \<Rightarrow> q)
                            @ hd (chunk_files (hd (chunks build)))))
                \<in> set (map (\<lambda>(cl, build).
                      (replace_backslashes
                         (basePath (closure_opts cl) @ the (chunk_name (hd (chunks build))) @ ''.''
                            @ fst (getFileType (closure_opts cl) h0
                                     (hd (chunk_files (hd (chunks build)))))),
                       replace_backslashes
                         ((case publicPath build of None \<Rightarrow> [] | Some q \<Rightarrow> q)
                            @ hd (chunk_files (hd (chunks build)))))) bs)"
          by force
        then have "(replace_backslashes
                         (basePath (closure_opts cl) @ the (chunk_name (hd (chunks build))) @ ''.''
                            @ fst (getFileType (closure_opts cl) h0
                                     (hd (chunk_files (hd (chunks build)))))),
                      replace_backslashes
                         ((case publicPath build of None \<Rightarrow> [] | Some q \<Rightarrow> q)
                            @ hd (chunk_files (hd (chunks build)))))
                \<in> set (map (\<lambda>f. (to_text (name f), path f)) (emitted_files bs h0))"
          unfolding fr .
        then obtain f where f: "f \<in> set (emitted_files bs h0)"
          and fk: "to_text (name f) = replace_backslashes
                         (basePath (closure_opts cl) @ the (chunk_name (hd (chunks build))) @ ''.''
                            @ fst (getFileType (closure_opts cl) h0
                                     (hd (chunk_files (hd (chunks build))))))"
          and fv: "path f = replace_backslashes
                         ((case publicPath build of None \<Rightarrow> [] | Some q \<Rightarrow> q)
                            @ hd (chunk_files (hd (chunks build))))"
          by auto
        from ct f have "objs (emit_all bs h0) r (to_text (name f)) = Some (Str (path f))"
          by blast
        then show ?thesis
          unfolding fk fv .
      qed
      from ct have "card (dom (objs (emit_all bs h0) r)) = length bs"
        by blast
      with vl show ?thesis
        by blast
    qed
    from sh len cnt frm inp
    show "objs (emit_all bs h0) = (objs h0)(r := write_all (objs h0 r) (emitted_files bs h0))
            \<and> length (emitted_files bs h0) = length bs
            \<and> (distinct (map (\<lambda>f. to_text (name f)) (emitted_files bs h0))
                 \<and> objs h0 r = Map.empty
                 \<longrightarrow> card (dom (objs (emit_all bs h0) r)) = length bs
                     \<and> dom (objs (emit_all bs h0) r)
                         = (\<lambda>f. to_text (name f)) ` set (emitted_files bs h0)
                     \<and> (\<forall>f \<in> set (emitted_files bs h0).
                           objs (emit_all bs h0) r (to_text (name f)) = Some (Str (path f))))
            \<and> ((\<forall>(cl, build) \<in> set bs. stateful (transformExtensions (closure_opts cl)) = None)
                 \<longrightarrow> map (\<lambda>f. (to_text (name f), path f)) (emitted_files bs h0)
                       = map (\<lambda>(cl, build).
                      (replace_backslashes
                         (basePath (closure_opts cl) @ the (chunk_name (hd (chunks build))) @ ''.''
                            @ fst (getFileType (closure_opts cl) h0
                                     (hd (chunk_files (hd (chunks build)))))),
                       replace_backslashes
                         ((case publicPath build of None \<Rightarrow> [] | Some q \<Rightarrow> q)
                            @ hd (chunk_files (hd (chunks build)))))) bs
                     \<and> (distinct (map (\<lambda>(cl, build).
                      replace_backslashes
                         (basePath (closure_opts cl) @ the (chunk_name (hd (chunks build))) @ ''.''
                            @ fst (getFileType (closure_opts cl) h0
                                     (hd (chunk_files (hd (chunks build))))))) bs) \<and> objs h0 r = Map.empty
                          \<longrightarrow> card (dom (objs (emit_all bs h0) r)) = length bs
                          \<and> (\<forall>(cl, build) \<in> set bs.
                                objs (emit_all bs h0) r
                                  (replace_backslashes
                         (basePath (closure_opts cl) @ the (chunk_name (hd (chunks build))) @ ''.''
                            @ fst (getFileType (closure_opts cl) h0
                                     (hd (chunk_files (hd (chunks build)))))))
                                = Some (Str (replace_backslashes
                         ((case publicPath build of None \<Rightarrow> [] | Some q \<Rightarrow> q)
                            @ hd (chunk_files (hd (chunks build)))))))))"
      by blast
  qed
  from a b b' c d e w n show ?thesis
    by blast
qed

lemma not_hot_examples:
  "\<not> sublist ''hot-update'' ''admin.js''" "\<not> sublist ''hot-update'' ''home.js''"
  unfolding str_includes_sublist [symmetric] by simp_all

lemma shared_admin_pipeline:
  "post_pipeline shared_closure admin_build shared_heap
     = (Inr [\<lparr> path = ''admin.js'',
                chunk = Some \<lparr> chunk_name = Some ''admin'', chunk_files = [''admin.js''],
                               isOnlyInitial = None, chunk_isInitial = Some True,
                               initial = False \<rparr>,
                name = Text ''admin.js'', isInitial = True, isChunk = True, isAsset = False,
                isModuleAsset = False \<rparr>],
        shared_heap)"
  by (simp add: evaluate_build admin_build_def)

lemma shared_constructor_pipeline:
  "post_pipeline shared_closure constructor_build shared_heap = (Inl TypeError, shared_heap)"
  by (simp add: evaluate_build constructor_build_def constructor_asset_def)

lemma shared_builds_single:
  "closure_seed shared_closure = Object 0 \<and> generate (closure_opts shared_closure) = None
   \<and> filter_opt (closure_opts shared_closure) = None \<and> map_opt (closure_opts shared_closure) = None
   \<and> (\<exists>c n p. chunks (one_file_build k q) = [c] \<and> chunk_name c = Some n \<and> n \<noteq> []
         \<and> chunk_files c = [p] \<and> \<not> sublist ''hot-update'' p)
   \<and> (\<forall>a \<in> set (stats_assets (one_file_build k q)).
         asset_chunks a \<noteq> []
         \<and> truthy_prop (get_property (moduleAssets shared_closure) (asset_name a)) = None)"
  if "k \<noteq> []" "\<not> sublist ''hot-update'' q" "q \<notin> set object_prototype_members"
  using that
  by (simp add: shared_closure_simps shared_opts_simps one_file_build_def get_property_def
      truthy_prop_def)

theorem default_generate_accumulates_witness:
  "map_sum id manifest (fst (emit shared_closure admin_build shared_heap)) = Inr (Object 0)
   \<and> emit shared_closure constructor_build shared_heap = (Inl TypeError, shared_heap)
   \<and> write_all Map.empty [stale_file, main_file, hot_file] ''main.js'' = Some (Str ''main.js'')
   \<and> length (emitted_files [(shared_closure, admin_build), (shared_closure, home_build)]
                shared_heap) = 2
   \<and> card (dom (objs (emit_all [(shared_closure, admin_build), (shared_closure, home_build)]
                         shared_heap) 0)) = 2
   \<and> dom (objs (emit_all [(shared_closure, admin_build), (shared_closure, home_build)]
                   shared_heap) 0) = {''admin.js'', ''home.js''}"
proof -
  let ?bs = "[(shared_closure, admin_build), (shared_closure, home_build)]"
  note t = default_generate_accumulates [where cl = shared_closure and build = admin_build
      and h = shared_heap and ?h1.0 = shared_heap and r = 0 and ?h0.0 = shared_heap
      and bs = ?bs and m = Map.empty and xs = "[stale_file]" and g = main_file
      and ys = "[hot_file]"]
  have g: "generate (closure_opts shared_closure) = None"
    by (simp add: shared_closure_simps shared_opts_simps)
  from t g shared_admin_pipeline
  have m: "map_sum id manifest (fst (emit shared_closure admin_build shared_heap)) = Inr (Object 0)"
    by (simp add: shared_closure_simps)
  from default_generate_accumulates [where cl = shared_closure and build = constructor_build
      and h = shared_heap and ?h1.0 = shared_heap and e = TypeError]
    shared_constructor_pipeline
  have k: "emit shared_closure constructor_build shared_heap = (Inl TypeError, shared_heap)"
    by blast
  have "to_text (name main_file) \<notin> (\<lambda>f. to_text (name f)) ` set [hot_file]
          \<and> to_text (name main_file) \<noteq> ''__proto__''"
    by (simp add: main_file_def hot_file_def to_text_def)
  with t have "write_all Map.empty ([stale_file] @ main_file # [hot_file]) (to_text (name main_file))
                 = Some (Str (path main_file))"
    by blast
  then have l: "write_all Map.empty [stale_file, main_file, hot_file] ''main.js''
                  = Some (Str ''main.js'')"
    by (simp add: main_file_def to_text_def)
  have members: "''admin.js'' \<notin> set object_prototype_members"
    "''home.js'' \<notin> set object_prototype_members"
    by (simp_all add: object_prototype_members_def)
  have per: "\<forall>(cl, build) \<in> set ?bs.
          closure_seed cl = Object 0 \<and> generate (closure_opts cl) = None
          \<and> filter_opt (closure_opts cl) = None \<and> map_opt (closure_opts cl) = None
          \<and> (\<exists>c n p. chunks build = [c] \<and> chunk_name c = Some n \<and> n \<noteq> []
                \<and> chunk_files c = [p] \<and> \<not> sublist ''hot-update'' p)
          \<and> (\<forall>a \<in> set (stats_assets build).
                asset_chunks a \<noteq> []
                \<and> truthy_prop (get_property (moduleAssets cl) (asset_name a)) = None)"
    using shared_builds_single [of "''admin''" "''admin.js''"]
      shared_builds_single [of "''home''" "''home.js''"] not_hot_examples members
    unfolding admin_build_def home_build_def by simp
  have names: "map (\<lambda>f. to_text (name f)) (emitted_files ?bs shared_heap)
                 = [''admin.js'', ''home.js'']"
    using arg_cong [OF shared_two_emitted, of "map fst"] by (simp add: comp_def)
  then have ds: "distinct (map (\<lambda>f. to_text (name f)) (emitted_files ?bs shared_heap))"
    by simp
  have em: "objs shared_heap 0 = Map.empty"
    by (simp add: shared_heap_simps)
  from t per have len: "length (emitted_files ?bs shared_heap) = length ?bs"
    by blast
  have st: "\<forall>(cl, build) \<in> set ?bs. stateful (transformExtensions (closure_opts cl)) = None"
    by (simp add: shared_closure_simps shared_opts_simps default_pattern_stateless)
  have "map (\<lambda>(cl, build).
                      replace_backslashes
                        (basePath (closure_opts cl) @ the (chunk_name (hd (chunks build))) @ ''.''
                           @ fst (getFileType (closure_opts cl) shared_heap
                                    (hd (chunk_files (hd (chunks build))))))) ?bs
          = [''admin.js'', ''home.js'']"
    by (simp add: shared_closure_simps shared_opts_simps admin_build_def home_build_def
        one_file_build_def getFileType_default_pattern replace_backslashes_def)
  then have dk: "distinct (map (\<lambda>(cl, build).
                      replace_backslashes
                        (basePath (closure_opts cl) @ the (chunk_name (hd (chunks build))) @ ''.''
                           @ fst (getFileType (closure_opts cl) shared_heap
                                    (hd (chunk_files (hd (chunks build))))))) ?bs)"
    by simp
  from t per st dk em have cd: "card (dom (objs (emit_all ?bs shared_heap) 0)) = length ?bs"
    by blast
  from t per ds em have "dom (objs (emit_all ?bs shared_heap) 0)
                           = (\<lambda>f. to_text (name f)) ` set (emitted_files ?bs shared_heap)"
    by blast
  also have "\<dots> = set (map (\<lambda>f. to_text (name f)) (emitted_files ?bs shared_heap))"
    by (rule set_map [symmetric])
  also have "\<dots> = {''admin.js'', ''home.js''}"
    unfolding names by simp
  finally have dm: "dom (objs (emit_all ?bs shared_heap) 0) = {''admin.js'', ''home.js''}" .
  from m k l len cd dm show ?thesis
    by simp
qed

section \<open>The seed of one installation\<close>

lemma apply_plugin_falsy:
  assumes "\<not> truthy (seed os)"
  shows "closure_seed (fst (apply_plugin os h)) = Object (next_ref h)"
    and "closure_opts (fst (apply_plugin os h)) = os"
    and "objs (snd (apply_plugin os h)) (next_ref h) = Map.empty"
    and "next_ref (snd (apply_plugin os h)) = Suc (next_ref h)"
    and "r \<noteq> next_ref h \<Longrightarrow> objs (snd (apply_plugin os h)) r = objs h r"
  using assms by (simp_all add: apply_plugin_def new_object_def Let_def)

lemma apply_plugin_truthy:
  "truthy (seed os) \<Longrightarrow> apply_plugin os h
     = (\<lparr> closure_opts = os, closure_seed = seed os, moduleAssets = Map.empty \<rparr>, h)"
  by (simp add: apply_plugin_def)

lemma emit_success_files:
  "fst (emit cl build h) = Inr res \<Longrightarrow> fst (post_pipeline cl build h) = Inr (final_files res)"
  by (cases "post_pipeline cl build h"; cases "fst (post_pipeline cl build h)")
     (auto simp: emit_error emit_files)

lemma emit_failure:
  "fst (emit cl build h) = Inl e \<Longrightarrow> emit cl build h = (Inl e, snd (post_pipeline cl build h))"
  by (cases "post_pipeline cl build h"; cases "fst (post_pipeline cl build h)")
     (auto simp: emit_error emit_files)

text \<open>
  C10. When the \<open>seed\<close> option is falsy (missing, \<open>null\<close>, \<open>false\<close>, zero, \<open>NaN\<close> or the
  empty string), \<^verbatim>\<open>apply\<close> allocates one fresh empty object, a different one at every
  call, and every later \<^verbatim>\<open>emit\<close> of that installation writes into that same object:
  registering module assets does not change the seed, the default fold returns it
  whenever the run reaches the generator, which it does unless the base path is empty
  and an unregistered asset is named like a member of \<^verbatim>\<open>Object.prototype\<close>, a run
  that throws before the generator leaves every object as it was, and in both cases the
  entries of the seed only grow. So an
  entry written by an earlier compilation is still there, with its value, after any
  number of later compilations that do not emit that name.
\<close>

theorem falsy_seed_persists:
  "(\<not> truthy (seed os)
      \<longrightarrow> closure_seed (fst (apply_plugin os h)) = Object (next_ref h)
        \<and> objs (snd (apply_plugin os h)) (next_ref h) = Map.empty
        \<and> next_ref (snd (apply_plugin os h)) = Suc (next_ref h)
        \<and> (\<forall>r'. r' \<noteq> next_ref h \<longrightarrow> objs (snd (apply_plugin os h)) r' = objs h r'))
   \<and> (\<not> truthy (seed os) \<and> \<not> truthy (seed os')
      \<longrightarrow> closure_seed (fst (apply_plugin os' (snd (apply_plugin os h))))
            \<noteq> closure_seed (fst (apply_plugin os h)))
   \<and> closure_seed (moduleAsset cl joined p) = closure_seed cl
   \<and> (generate (closure_opts cl) = None \<and> closure_seed cl = Object r
      \<longrightarrow> (fst (emit cl build h) = Inr res
             \<longrightarrow> manifest res = Object r
               \<and> objs (snd (emit cl build h)) r = write_all (objs h r) (final_files res))
        \<and> (fst (emit cl build h) = Inl e \<longrightarrow> objs (snd (emit cl build h)) = objs h)
        \<and> ((basePath (closure_opts cl) \<noteq> []
              \<or> (\<forall>a \<in> set (stats_assets build).
                    moduleAssets cl (asset_name a) = None
                      \<longrightarrow> asset_name a \<notin> set object_prototype_members))
             \<longrightarrow> (\<exists>x. fst (emit cl build h) = Inr x \<and> manifest x = Object r
                   \<and> objs (snd (emit cl build h)) r = write_all (objs h r) (final_files x)))
        \<and> dom (objs h r) \<subseteq> dom (objs (snd (emit cl build h)) r))
   \<and> ((\<forall>(cl, build) \<in> set bs. closure_seed cl = Object r \<and> generate (closure_opts cl) = None)
       \<and> objs h1 r k = Some v \<and> k \<notin> (\<lambda>f. to_text (name f)) ` set (emitted_files bs h1)
      \<longrightarrow> objs (emit_all bs h1) r k = Some v)"
proof -
  have a: "\<not> truthy (seed os)
      \<longrightarrow> closure_seed (fst (apply_plugin os h)) = Object (next_ref h)
        \<and> objs (snd (apply_plugin os h)) (next_ref h) = Map.empty
        \<and> next_ref (snd (apply_plugin os h)) = Suc (next_ref h)
        \<and> (\<forall>r'. r' \<noteq> next_ref h \<longrightarrow> objs (snd (apply_plugin os h)) r' = objs h r')"
    by (simp add: apply_plugin_falsy)
  have b: "\<not> truthy (seed os) \<and> \<not> truthy (seed os')
      \<longrightarrow> closure_seed (fst (apply_plugin os' (snd (apply_plugin os h))))
            \<noteq> closure_seed (fst (apply_plugin os h))"
    by (simp add: apply_plugin_falsy)
  have c: "closure_seed (moduleAsset cl joined p) = closure_seed cl"
    by (simp add: moduleAsset_def)
  have d: "(fst (emit cl build h) = Inr res
             \<longrightarrow> manifest res = Object r
               \<and> objs (snd (emit cl build h)) r = write_all (objs h r) (final_files res))
        \<and> (fst (emit cl build h) = Inl e \<longrightarrow> objs (snd (emit cl build h)) = objs h)
        \<and> ((basePath (closure_opts cl) \<noteq> []
              \<or> (\<forall>a \<in> set (stats_assets build).
                    moduleAssets cl (asset_name a) = None
                      \<longrightarrow> asset_name a \<notin> set object_prototype_members))
             \<longrightarrow> (\<exists>x. fst (emit cl build h) = Inr x \<and> manifest x = Object r
                   \<and> objs (snd (emit cl build h)) r = write_all (objs h r) (final_files x)))
        \<and> dom (objs h r) \<subseteq> dom (objs (snd (emit cl build h)) r)"
    if g: "generate (closure_opts cl) = None" and s: "closure_seed cl = Object r"
  proof -
    note o = emit_default_objs [OF g s, of build h]
    have d1: "manifest res = Object r
               \<and> objs (snd (emit cl build h)) r = write_all (objs h r) (final_files res)"
      if ok: "fst (emit cl build h) = Inr res" for res
    proof -
      from emit_success_files [OF ok]
      have p: "post_pipeline cl build h = (Inr (final_files res), snd (post_pipeline cl build h))"
        by (metis prod.collapse)
      from arg_cong [OF emit_default [OF g p], of "\<lambda>x. map_sum id manifest (fst x)"] ok
      have "manifest res = Object r"
        unfolding s by simp
      moreover from o have "objs (snd (emit cl build h)) r = write_all (objs h r) (final_files res)"
        by (simp add: emit_success_files [OF ok])
      ultimately show ?thesis
        by blast
    qed
    have d2: "objs (snd (emit cl build h)) = objs h" if "fst (emit cl build h) = Inl e"
      using emit_failure [OF that] by (simp add: post_pipeline_objs)
    have d3: "dom (objs h r) \<subseteq> dom (objs (snd (emit cl build h)) r)"
      unfolding o by (simp add: dom_write_all_mono)
    have d4: "(\<exists>x. fst (emit cl build h) = Inr x \<and> manifest x = Object r
                   \<and> objs (snd (emit cl build h)) r = write_all (objs h r) (final_files x))"
      if "(basePath (closure_opts cl) \<noteq> []
              \<or> (\<forall>a \<in> set (stats_assets build).
                    moduleAssets cl (asset_name a) = None
                      \<longrightarrow> asset_name a \<notin> set object_prototype_members))"
    proof -
      from that emit_returns [of cl build h] obtain x where "fst (emit cl build h) = Inr x"
        by blast
      with d1 [of x] show ?thesis
        by blast
    qed
    from d1 d2 d3 d4 show ?thesis
      by blast
  qed
  have e: "(\<forall>(cl, build) \<in> set bs. closure_seed cl = Object r \<and> generate (closure_opts cl) = None)
       \<and> objs h1 r k = Some v \<and> k \<notin> (\<lambda>f. to_text (name f)) ` set (emitted_files bs h1)
      \<longrightarrow> objs (emit_all bs h1) r k = Some v"
    using emit_all_keeps [of bs r k h1] by auto
  show ?thesis
    using a b c d e by blast
qed

lemma watch_closure_simps:
  "closure_seed watch_closure = Object 0"
  "closure_opts watch_closure = ManifestPlugin no_text"
  "moduleAssets watch_closure = Map.empty"
  "generate (ManifestPlugin no_text) = None"
  "transformExtensions (ManifestPlugin no_text) = default_transformExtensions"
  "basePath (ManifestPlugin no_text) = []"
  "filter_opt (ManifestPlugin no_text) = None" "map_opt (ManifestPlugin no_text) = None"
  "sort_opt (ManifestPlugin no_text) = None"
  by (simp_all add: watch_closure_def apply_plugin_def new_object_def empty_heap_def
      ManifestPlugin_def Let_def)

lemma watch_heap_simps:
  "next_ref watch_heap = 1" "objs watch_heap 0 = Map.empty"
  by (simp_all add: watch_heap_def apply_plugin_def new_object_def empty_heap_def
      ManifestPlugin_def Let_def)

lemma watch_main_build:
  "post_pipeline watch_closure main_build h
     = (Inr [\<lparr> path = ''main.js'', chunk = Some main_chunk, name = Text ''main.js'',
                isInitial = True, isChunk = True, isAsset = False, isModuleAsset = False \<rparr>,
             \<lparr> path = ''main.js.map'', chunk = Some main_chunk, name = Text ''main.js.map'',
                isInitial = True, isChunk = True, isAsset = False, isModuleAsset = False \<rparr>],
        h)"
  by (simp add: post_pipeline_stateless watch_closure_simps default_pattern_stateless
      main_build_def chunk_file_step_eq getFileType_default_pattern asset_step_eq
      object_prototype_members_def process_def drop_hot_updates_def normalize_cases
      pipeline_def replace_backslashes_def to_text_def main_chunk_def)

lemma watch_constructor_build:
  "post_pipeline watch_closure constructor_build h = (Inl TypeError, h)"
  by (simp add: post_pipeline_stateless watch_closure_simps default_pattern_stateless
      constructor_build_def constructor_asset_def asset_step_eq object_prototype_members_def
      process_def drop_hot_updates_def normalize_cases)

lemma watch_later_builds:
  "map (\<lambda>f. to_text (name f))
     (emitted_files [(watch_closure, constructor_build), (watch_closure, admin_build)] h)
     = [''admin.js'']"
  by (simp add: watch_constructor_build post_pipeline_stateless watch_closure_simps
      default_pattern_stateless admin_build_def one_file_build_def chunk_file_step_eq
      getFileType_default_pattern asset_step_eq object_prototype_members_def process_def
      drop_hot_updates_def normalize_cases pipeline_def replace_backslashes_def to_text_def
      sort_cmp_single Let_def)

theorem falsy_seed_persists_witness:
  "\<not> truthy (seed (ManifestPlugin no_text))
   \<and> \<not> truthy (seed empty_string_opts)
   \<and> closure_seed (fst (apply_plugin (ManifestPlugin no_text) empty_heap)) = Object 0
   \<and> closure_seed (fst (apply_plugin empty_string_opts watch_heap)) = Object 1
   \<and> generate (closure_opts watch_closure) = None
   \<and> map_sum id manifest (fst (emit watch_closure main_build watch_heap)) = Inr (Object 0)
   \<and> objs (snd (emit watch_closure main_build watch_heap)) 0
       = [''main.js'' \<mapsto> Str ''main.js'', ''main.js.map'' \<mapsto> Str ''main.js.map'']
   \<and> (\<exists>x. fst (emit watch_closure main_build watch_heap) = Inr x \<and> manifest x = Object 0
          \<and> objs (snd (emit watch_closure main_build watch_heap)) 0
              = write_all (objs watch_heap 0) (final_files x))
   \<and> fst (emit watch_closure constructor_build (snd (emit watch_closure main_build watch_heap)))
       = Inl TypeError
   \<and> objs (snd (emit watch_closure constructor_build
                    (snd (emit watch_closure main_build watch_heap))))
       = objs (snd (emit watch_closure main_build watch_heap))
   \<and> objs (emit_all [(watch_closure, constructor_build), (watch_closure, admin_build)]
              (snd (emit watch_closure main_build watch_heap)))
        0 ''main.js'' = Some (Str ''main.js'')"
proof -
  let ?h1 = "snd (emit watch_closure main_build watch_heap)"
  let ?bs = "[(watch_closure, constructor_build), (watch_closure, admin_build)]"
  let ?res = "projr (fst (emit watch_closure main_build watch_heap))"
  have f: "\<not> truthy (seed (ManifestPlugin no_text))"
    by (simp add: ManifestPlugin_def)
  have f': "\<not> truthy (seed empty_string_opts)"
    by (simp add: empty_string_opts_def)
  have n: "next_ref empty_heap = 0"
    by (simp add: empty_heap_def)
  have g: "generate (closure_opts watch_closure) = None"
    by (simp add: watch_closure_simps)
  have sd: "closure_seed watch_closure = Object 0"
    by (simp add: watch_closure_simps)
  note t = falsy_seed_persists [where os = "ManifestPlugin no_text" and h = empty_heap
      and bs = ?bs and r = 0 and ?h1.0 = ?h1 and k = "''main.js''" and v = "Str ''main.js''"]
  note u = falsy_seed_persists [where os = empty_string_opts and h = watch_heap
      and cl = watch_closure and r = 0 and build = main_build and res = ?res]
  note w = falsy_seed_persists [where cl = watch_closure and r = 0 and build = constructor_build
      and h = ?h1 and e = TypeError]
  from t f have "closure_seed (fst (apply_plugin (ManifestPlugin no_text) empty_heap))
      = Object (next_ref empty_heap)"
    by blast
  then have s: "closure_seed (fst (apply_plugin (ManifestPlugin no_text) empty_heap)) = Object 0"
    unfolding n .
  from u f' have "closure_seed (fst (apply_plugin empty_string_opts watch_heap))
      = Object (next_ref watch_heap)"
    by blast
  then have s': "closure_seed (fst (apply_plugin empty_string_opts watch_heap)) = Object 1"
    by (simp add: watch_heap_simps)
  have ok: "fst (emit watch_closure main_build watch_heap) = Inr ?res"
    by (simp add: emit_files [OF watch_main_build])
  have fs: "final_files ?res
              = [\<lparr> path = ''main.js'', chunk = Some main_chunk, name = Text ''main.js'',
                    isInitial = True, isChunk = True, isAsset = False, isModuleAsset = False \<rparr>,
                 \<lparr> path = ''main.js.map'', chunk = Some main_chunk, name = Text ''main.js.map'',
                    isInitial = True, isChunk = True, isAsset = False, isModuleAsset = False \<rparr>]"
    by (simp add: emit_files [OF watch_main_build])
  from u g sd ok have "manifest ?res = Object 0"
    by blast
  then have "map_sum id manifest (Inr ?res) = Inr (Object 0)"
    by simp
  then have m: "map_sum id manifest (fst (emit watch_closure main_build watch_heap))
                  = Inr (Object 0)"
    by (metis ok)
  from u g sd ok
  have "objs ?h1 0 = write_all (objs watch_heap 0) (final_files ?res)"
    by blast
  then have o: "objs ?h1 0
                  = [''main.js'' \<mapsto> Str ''main.js'', ''main.js.map'' \<mapsto> Str ''main.js.map'']"
    unfolding fs by (simp add: watch_heap_simps write_entry_def to_text_def)
  have er: "fst (emit watch_closure constructor_build ?h1) = Inl TypeError"
    by (simp add: emit_error [OF watch_constructor_build])
  from w g sd er
  have un: "objs (snd (emit watch_closure constructor_build ?h1)) = objs ?h1"
    by blast
  have all: "\<forall>(cl, build) \<in> set ?bs.
      closure_seed cl = Object 0 \<and> generate (closure_opts cl) = None"
    by (simp add: watch_closure_simps)
  have there: "objs ?h1 0 ''main.js'' = Some (Str ''main.js'')"
    unfolding o by simp
  have "''main.js'' \<notin> set (map (\<lambda>f. to_text (name f)) (emitted_files ?bs ?h1))"
    unfolding watch_later_builds by simp
  then have absent: "''main.js'' \<notin> (\<lambda>f. to_text (name f)) ` set (emitted_files ?bs ?h1)"
    unfolding set_map .
  from t all there absent
  have p: "objs (emit_all ?bs ?h1) 0 ''main.js'' = Some (Str ''main.js'')"
    by blast
  have "\<forall>a \<in> set (stats_assets main_build).
          moduleAssets watch_closure (asset_name a) = None
            \<longrightarrow> asset_name a \<notin> set object_prototype_members"
    by (simp add: main_build_def object_prototype_members_def)
  with u g sd
  have x: "\<exists>x. fst (emit watch_closure main_build watch_heap) = Inr x \<and> manifest x = Object 0
             \<and> objs (snd (emit watch_closure main_build watch_heap)) 0
                 = write_all (objs watch_heap 0) (final_files x)"
    by blast
  show ?thesis
    using f f' s s' g m o x er un p by blast
qed

section \<open>One descriptor per output path\<close>

lemma collect_paths:
  "map path (fst (collect cl build h))
     = concat (map chunk_files (chunks build))
       @ map asset_name
           (filter (\<lambda>a. truthy_prop (get_property (moduleAssets cl) (asset_name a)) \<noteq> None
                         \<or> asset_chunks a = [])
              (stats_assets build))"
  by (simp add: collect_eq collect_chunks_paths asset_paths)

lemma asset_step_not_chunk: "d \<in> set (asset_step ma [] a) \<Longrightarrow> \<not> isChunk d"
  using asset_step_flags by blast

lemma collect_flags:
  "d \<in> set (fst (collect cl build h)) \<Longrightarrow> \<not> (isModuleAsset d \<and> isChunk d)"
proof -
  assume "d \<in> set (fst (collect cl build h))"
  then consider "d \<in> set (fst (collect_chunks (closure_opts cl) (chunks build) h))"
    | a where "d \<in> set (asset_step (moduleAssets cl) [] a)"
    by (auto simp: collect_eq)
  then show ?thesis
    using collect_chunks_flags asset_step_not_chunk by cases blast+
qed

lemma count_one:
  "distinct (map f xs) \<Longrightarrow> x \<in> set xs \<Longrightarrow> length (filter (\<lambda>d. f d = f x) xs) = 1"
proof (induction xs)
  case Nil
  then show ?case by simp
next
  case (Cons y ys)
  show ?case
  proof (cases "x = y")
    case True
    from Cons.prems(1) have "f y \<notin> f ` set ys"
      by simp
    then have "filter (\<lambda>d. f d = f y) ys = []"
      unfolding filter_empty_conv by (metis imageI)
    with True show ?thesis by simp
  next
    case False
    with Cons.prems have xs: "x \<in> set ys" and d: "distinct (map f ys)"
      by auto
    from xs Cons.prems(1) have "f y \<noteq> f x"
      by auto
    with Cons.IH [OF d xs] show ?thesis by simp
  qed
qed

lemma collect_distinct:
  assumes c: "distinct (concat (map chunk_files (chunks build)))"
    and a: "distinct (map asset_name (stats_assets build))"
    and e: "\<forall>a \<in> set (stats_assets build).
              (asset_chunks a \<noteq> []) = (asset_name a \<in> set (concat (map chunk_files (chunks build))))"
    and m: "\<forall>a \<in> set (stats_assets build).
              asset_chunks a \<noteq> []
                \<longrightarrow> truthy_prop (get_property (moduleAssets cl) (asset_name a)) = None"
  shows "distinct (map path (fst (collect cl build h)))"
    and "set (map path (fst (collect cl build h))) = output_paths build"
proof -
  let ?keep = "\<lambda>a. truthy_prop (get_property (moduleAssets cl) (asset_name a)) \<noteq> None
                      \<or> asset_chunks a = []"
  have kept: "asset_chunks x = []" if x: "x \<in> set (stats_assets build)" and k: "?keep x" for x
  proof (rule ccontr)
    assume n: "asset_chunks x \<noteq> []"
    from m x have "asset_chunks x \<noteq> []
                     \<longrightarrow> truthy_prop (get_property (moduleAssets cl) (asset_name x)) = None"
      by (rule bspec)
    with n have "truthy_prop (get_property (moduleAssets cl) (asset_name x)) = None"
      by simp
    with k n show False
      by simp
  qed
  have iff: "(asset_chunks x \<noteq> []) = (asset_name x \<in> set (concat (map chunk_files (chunks build))))"
    if x: "x \<in> set (stats_assets build)" for x
    using e x by (rule bspec)
  have disj: "set (concat (map chunk_files (chunks build)))
                \<inter> set (map asset_name (filter ?keep (stats_assets build))) = {}"
  proof (rule ccontr)
    assume "\<not> ?thesis"
    then obtain p where p: "p \<in> set (concat (map chunk_files (chunks build)))"
      "p \<in> set (map asset_name (filter ?keep (stats_assets build)))"
      by (meson disjoint_iff)
    from p(2) obtain x where x: "x \<in> set (stats_assets build)" "?keep x" "p = asset_name x"
      by (simp add: image_iff) metis
    from kept [OF x(1,2)] iff [OF x(1)] p(1) x(3) show False
      by simp
  qed
  have da: "distinct (map asset_name (filter ?keep (stats_assets build)))"
    using a by (rule distinct_map_filter)
  show "distinct (map path (fst (collect cl build h)))"
    unfolding collect_paths distinct_append using c da disj by (intro conjI)
  have sub: "set (map asset_name (filter ?keep (stats_assets build)))
               \<subseteq> set (map asset_name (stats_assets build))"
    by auto
  have rest: "asset_name x \<in> set (concat (map chunk_files (chunks build)))
                \<union> set (map asset_name (filter ?keep (stats_assets build)))"
    if x: "x \<in> set (stats_assets build)" for x
  proof (cases "?keep x")
    case True
    with x have "x \<in> set (filter ?keep (stats_assets build))"
      by simp
    then have "asset_name x \<in> asset_name ` set (filter ?keep (stats_assets build))"
      by (rule imageI)
    then show ?thesis
      by simp
  next
    case False
    with iff [OF x] show ?thesis
      by simp
  qed
  have "set (map asset_name (stats_assets build))
          \<subseteq> set (concat (map chunk_files (chunks build)))
            \<union> set (map asset_name (filter ?keep (stats_assets build)))"
  proof
    fix p
    assume "p \<in> set (map asset_name (stats_assets build))"
    then obtain x where "x \<in> set (stats_assets build)" "p = asset_name x"
      by auto
    with rest show "p \<in> set (concat (map chunk_files (chunks build)))
            \<union> set (map asset_name (filter ?keep (stats_assets build)))"
      by blast
  qed
  with sub show "set (map path (fst (collect cl build h))) = output_paths build"
    unfolding collect_paths output_paths_def set_append by blast
qed

lemma collect_paths_subset: "set (map path (fst (collect cl build h))) \<subseteq> output_paths build"
  unfolding collect_paths output_paths_def by auto

lemma count_paths:
  "length (filter (\<lambda>d. path d = p) xs) = length (filter (\<lambda>q. q = p) (map path xs))"
  by (induction xs) simp_all

lemma image_closure_simps:
  "closure_opts image_closure = ManifestPlugin no_text"
  "moduleAssets image_closure = [''img.1a2b.png'' \<mapsto> ''img.png'']"
  by (simp_all add: image_closure_def moduleAsset_def watch_closure_simps)

lemma image_build_simps:
  "concat (map chunk_files (chunks image_build)) = [''main.js'', ''main.js.map'']"
  "map asset_name (stats_assets image_build) = [''main.js'', ''img.1a2b.png'', ''robots.txt'']"
  "set (stats_assets image_build) = {entry_asset, image_asset, plain_asset}"
  by (simp_all add: image_build_def main_chunk_def entry_asset_def image_asset_def
      plain_asset_def)

text \<open>
  C9, as stated, fails: when two chunks list the same output file, as they do for a
  stylesheet extracted under one fixed file name, the chunk scan emits a descriptor for
  that path once per chunk. Nothing in the collector removes duplicates. It fails as
  well for an output file whose name is a key of \<^verbatim>\<open>Object.prototype\<close>: the asset scan
  reads the registry on a plain object, takes the inherited member for a registered
  name, and appends a module-asset descriptor for a file that the chunk scan has
  covered.
\<close>

theorem shared_file_two_descriptors:
  "''styles.css'' \<in> output_paths styles_build
   \<and> length (filter (\<lambda>d. path d = ''styles.css'')
               (fst (collect watch_closure styles_build watch_heap))) = 2
   \<and> ''constructor'' \<in> output_paths constructor_entry_build
   \<and> map (\<lambda>d. (path d, isChunk d, isModuleAsset d))
         (fst (collect watch_closure constructor_entry_build watch_heap))
       = [(''constructor'', True, False), (''constructor'', False, True)]"
proof -
  have "map path (fst (collect watch_closure styles_build watch_heap))
          = [''a.js'', ''styles.css'', ''b.js'', ''styles.css'']"
    by (simp add: collect_paths styles_build_def watch_closure_simps get_property_def
        truthy_prop_def object_prototype_members_def)
  then have "length (filter (\<lambda>d. path d = ''styles.css'')
                       (fst (collect watch_closure styles_build watch_heap))) = 2"
    unfolding count_paths by simp
  moreover have "''styles.css'' \<in> output_paths styles_build"
    by (simp add: output_paths_def styles_build_def)
  moreover have "''constructor'' \<in> output_paths constructor_entry_build"
    by (simp add: output_paths_def constructor_entry_build_def)
  moreover have "map (\<lambda>d. (path d, isChunk d, isModuleAsset d))
         (fst (collect watch_closure constructor_entry_build watch_heap))
       = [(''constructor'', True, False), (''constructor'', False, True)]"
    by (simp add: collect_eq collect_chunks_Cons collect_chunks_Nil chunk_file_step_eq
        constructor_entry_build_def watch_closure_simps asset_step_eq
        object_prototype_members_def)
  ultimately show ?thesis
    by blast
qed

text \<open>
  C9, amended. After collection no descriptor is both a module-asset descriptor and a
  chunk descriptor, and every collected path is an output file of a chunk or the name
  of an asset. When the host's data is consistent, that is, the output files of the
  chunks are pairwise distinct, the asset names are pairwise distinct, an asset is
  referenced by chunks exactly when it is an output file of some chunk, and for no
  asset referenced by chunks the read of the registry under its name is truthy (it has
  no registered name and is not named like a member of \<^verbatim>\<open>Object.prototype\<close>), then
  every such path has exactly one descriptor in the collected list.
\<close>

theorem collected_once:
  "(\<forall>d \<in> set (fst (collect cl build h)). \<not> (isModuleAsset d \<and> isChunk d))
   \<and> set (map path (fst (collect cl build h))) \<subseteq> output_paths build
   \<and> (distinct (concat (map chunk_files (chunks build)))
       \<and> distinct (map asset_name (stats_assets build))
       \<and> (\<forall>a \<in> set (stats_assets build).
             (asset_chunks a \<noteq> [])
               = (asset_name a \<in> set (concat (map chunk_files (chunks build)))))
       \<and> (\<forall>a \<in> set (stats_assets build).
             asset_chunks a \<noteq> []
               \<longrightarrow> truthy_prop (get_property (moduleAssets cl) (asset_name a)) = None)
      \<longrightarrow> (\<forall>p \<in> output_paths build.
             length (filter (\<lambda>d. path d = p) (fst (collect cl build h))) = 1))"
proof (intro conjI impI ballI)
  fix d
  assume "d \<in> set (fst (collect cl build h))"
  then show "\<not> (isModuleAsset d \<and> isChunk d)"
    by (rule collect_flags)
next
  show "set (map path (fst (collect cl build h))) \<subseteq> output_paths build"
    by (rule collect_paths_subset)
next
  fix p
  assume h: "distinct (concat (map chunk_files (chunks build)))
       \<and> distinct (map asset_name (stats_assets build))
       \<and> (\<forall>a \<in> set (stats_assets build).
             (asset_chunks a \<noteq> [])
               = (asset_name a \<in> set (concat (map chunk_files (chunks build)))))
       \<and> (\<forall>a \<in> set (stats_assets build).
             asset_chunks a \<noteq> []
               \<longrightarrow> truthy_prop (get_property (moduleAssets cl) (asset_name a)) = None)"
    and p: "p \<in> output_paths build"
  from h have h1: "distinct (concat (map chunk_files (chunks build)))"
    and h2: "distinct (map asset_name (stats_assets build))"
    and h3: "\<forall>a \<in> set (stats_assets build).
             (asset_chunks a \<noteq> [])
               = (asset_name a \<in> set (concat (map chunk_files (chunks build))))"
    and h4: "\<forall>a \<in> set (stats_assets build).
             asset_chunks a \<noteq> []
               \<longrightarrow> truthy_prop (get_property (moduleAssets cl) (asset_name a)) = None"
    by blast+
  have d: "distinct (map path (fst (collect cl build h)))"
    and s: "set (map path (fst (collect cl build h))) = output_paths build"
    by (rule collect_distinct [OF h1 h2 h3 h4])+
  from p s obtain x where x: "x \<in> set (fst (collect cl build h))" "p = path x"
    by auto
  from count_one [OF d x(1)] x(2)
  show "length (filter (\<lambda>d. path d = p) (fst (collect cl build h))) = 1"
    by simp
qed

theorem collected_once_witness:
  "distinct (concat (map chunk_files (chunks image_build)))
   \<and> distinct (map asset_name (stats_assets image_build))
   \<and> ''img.1a2b.png'' \<in> output_paths image_build
   \<and> ''main.js'' \<in> output_paths image_build
   \<and> length (filter (\<lambda>d. path d = ''img.1a2b.png'')
               (fst (collect image_closure image_build watch_heap))) = 1
   \<and> length (filter (\<lambda>d. path d = ''main.js'')
               (fst (collect image_closure image_build watch_heap))) = 1"
proof -
  have a: "distinct (concat (map chunk_files (chunks image_build)))"
    by (simp add: image_build_simps)
  have b: "distinct (map asset_name (stats_assets image_build))"
    by (simp add: image_build_simps(2))
  have c: "\<forall>a \<in> set (stats_assets image_build).
             (asset_chunks a \<noteq> [])
               = (asset_name a \<in> set (concat (map chunk_files (chunks image_build))))"
    by (simp add: image_build_simps entry_asset_def image_asset_def plain_asset_def)
  have d: "\<forall>a \<in> set (stats_assets image_build).
             asset_chunks a \<noteq> []
               \<longrightarrow> truthy_prop (get_property (moduleAssets image_closure) (asset_name a)) = None"
    by (simp add: image_build_simps(3) image_closure_simps entry_asset_def image_asset_def
        plain_asset_def get_property_def truthy_prop_def object_prototype_members_def)
  have p: "''img.1a2b.png'' \<in> output_paths image_build" "''main.js'' \<in> output_paths image_build"
    by (simp_all add: output_paths_def image_build_simps)
  note t = collected_once [of image_closure image_build watch_heap]
  from t a b c d
  have "\<forall>p \<in> output_paths image_build.
          length (filter (\<lambda>d. path d = p) (fst (collect image_closure image_build watch_heap))) = 1"
    by blast
  with p have "length (filter (\<lambda>d. path d = ''img.1a2b.png'')
                         (fst (collect image_closure image_build watch_heap))) = 1"
    "length (filter (\<lambda>d. path d = ''main.js'')
               (fst (collect image_closure image_build watch_heap))) = 1"
    by blast+
  with a b p show ?thesis
    by blast
qed

end
